theory Spec2Isabelle
  imports Complex_Main "HOL-Library.Monad_Syntax"
begin

section \<open>Geometry primitives\<close>

text \<open>
  The generator works on C++ \<^verbatim>\<open>double\<close>s and Eigen transforms. Finite doubles are
  modelled as \<^typ>\<open>real\<close> and \<^verbatim>\<open>M_PI\<close> as \<^term>\<open>pi\<close>, so rounding is not
  part of the model. Where the C++ arithmetic leaves the finite numbers (a division by
  zero) or the defined behaviour (a conversion of an out-of-range double to
  \<^verbatim>\<open>std::size_t\<close>), the model says so with \<^term>\<open>None\<close>.
\<close>

type_synonym Vector3d = "real \<times> real \<times> real"

type_synonym Matrix3d = "Vector3d \<times> Vector3d \<times> Vector3d"

definition vx :: "Vector3d \<Rightarrow> real" where
  "vx p = fst p"

definition vy :: "Vector3d \<Rightarrow> real" where
  "vy p = fst (snd p)"

definition vz :: "Vector3d \<Rightarrow> real" where
  "vz p = snd (snd p)"

definition vadd :: "Vector3d \<Rightarrow> Vector3d \<Rightarrow> Vector3d" where
  "vadd p q = (vx p + vx q, vy p + vy q, vz p + vz q)"

definition vsub :: "Vector3d \<Rightarrow> Vector3d \<Rightarrow> Vector3d" where
  "vsub p q = (vx p - vx q, vy p - vy q, vz p - vz q)"

definition smul :: "real \<Rightarrow> Vector3d \<Rightarrow> Vector3d" where
  "smul k p = (k * vx p, k * vy p, k * vz p)"

definition vneg :: "Vector3d \<Rightarrow> Vector3d" where
  "vneg p = (- vx p, - vy p, - vz p)"

definition dot :: "Vector3d \<Rightarrow> Vector3d \<Rightarrow> real" where
  "dot p q = vx p * vx q + vy p * vy q + vz p * vz q"

definition squaredNorm :: "Vector3d \<Rightarrow> real" where
  "squaredNorm p = dot p p"

definition norm3 :: "Vector3d \<Rightarrow> real" where
  "norm3 p = sqrt (squaredNorm p)"

definition normalized :: "Vector3d \<Rightarrow> Vector3d" where
  \<comment> \<open>Eigen: a vector of squared norm 0 is returned as it is.\<close>
  "normalized p = (if 0 < squaredNorm p then smul (1 / norm3 p) p else p)"

definition UnitX :: Vector3d where
  "UnitX = (1, 0, 0)"

definition UnitY :: Vector3d where
  "UnitY = (0, 1, 0)"

definition UnitZ :: Vector3d where
  "UnitZ = (0, 0, 1)"

text \<open>A matrix is the triple of its rows.\<close>

definition row1 :: "Matrix3d \<Rightarrow> Vector3d" where
  "row1 m = fst m"

definition row2 :: "Matrix3d \<Rightarrow> Vector3d" where
  "row2 m = fst (snd m)"

definition row3 :: "Matrix3d \<Rightarrow> Vector3d" where
  "row3 m = snd (snd m)"

definition mat_vec :: "Matrix3d \<Rightarrow> Vector3d \<Rightarrow> Vector3d" where
  "mat_vec m p = (dot (row1 m) p, dot (row2 m) p, dot (row3 m) p)"

definition mat_transpose :: "Matrix3d \<Rightarrow> Matrix3d" where
  "mat_transpose m =
     ((vx (row1 m), vx (row2 m), vx (row3 m)),
      (vy (row1 m), vy (row2 m), vy (row3 m)),
      (vz (row1 m), vz (row2 m), vz (row3 m)))"

definition mat_mul :: "Matrix3d \<Rightarrow> Matrix3d \<Rightarrow> Matrix3d" where
  "mat_mul m n =
     (mat_vec (mat_transpose n) (row1 m),
      mat_vec (mat_transpose n) (row2 m),
      mat_vec (mat_transpose n) (row3 m))"

definition mat_identity :: Matrix3d where
  "mat_identity = ((1, 0, 0), (0, 1, 0), (0, 0, 1))"

text \<open>\<^verbatim>\<open>Eigen::AngleAxisd(angle, Eigen::Vector3d::UnitX())\<close> and its siblings.\<close>

definition AngleAxisX :: "real \<Rightarrow> Matrix3d" where
  "AngleAxisX a = ((1, 0, 0), (0, cos a, - sin a), (0, sin a, cos a))"

definition AngleAxisY :: "real \<Rightarrow> Matrix3d" where
  "AngleAxisY a = ((cos a, 0, sin a), (0, 1, 0), (- sin a, 0, cos a))"

definition AngleAxisZ :: "real \<Rightarrow> Matrix3d" where
  "AngleAxisZ a = ((cos a, - sin a, 0), (sin a, cos a, 0), (0, 0, 1))"

record Isometry3d =
  rotation :: Matrix3d
  translation :: Vector3d

definition Identity :: Isometry3d where
  "Identity = \<lparr>rotation = mat_identity, translation = (0, 0, 0)\<rparr>"

definition rotate_pose :: "Isometry3d \<Rightarrow> Matrix3d \<Rightarrow> Isometry3d" where
  \<comment> \<open>\<^verbatim>\<open>pose * AngleAxisd(..)\<close>: the rotation is applied in the pose's own frame.\<close>
  "rotate_pose pose r = pose\<lparr>rotation := mat_mul (rotation pose) r\<rparr>"

definition translate_local :: "Isometry3d \<Rightarrow> Vector3d \<Rightarrow> Isometry3d" where
  \<comment> \<open>\<^verbatim>\<open>pose * Eigen::Translation3d(x, y, z)\<close>.\<close>
  "translate_local pose d =
     pose\<lparr>translation := vadd (translation pose) (mat_vec (rotation pose) d)\<rparr>"

definition translate_global :: "Isometry3d \<Rightarrow> Vector3d \<Rightarrow> Isometry3d" where
  \<comment> \<open>\<^verbatim>\<open>pose.translation() += d\<close>.\<close>
  "translate_global pose d = pose\<lparr>translation := vadd (translation pose) d\<rparr>"

definition compose :: "Isometry3d \<Rightarrow> Isometry3d \<Rightarrow> Isometry3d" where
  \<comment> \<open>\<^verbatim>\<open>a * b\<close> on two transforms.\<close>
  "compose a b =
     \<lparr>rotation = mat_mul (rotation a) (rotation b),
      translation = vadd (translation a) (mat_vec (rotation a) (translation b))\<rparr>"

definition inverse_apply :: "Isometry3d \<Rightarrow> Vector3d \<Rightarrow> Vector3d" where
  \<comment> \<open>\<^verbatim>\<open>pose.inverse() * p\<close>; the inverse of an isometry transposes the rotation.\<close>
  "inverse_apply pose p =
     mat_vec (mat_transpose (rotation pose)) (vsub p (translation pose))"

section \<open>Ray against box face\<close>

text \<open>
  \<^verbatim>\<open>intersectionHelper\<close> writes its results through the reference parameters
  \<^verbatim>\<open>u\<close> and \<^verbatim>\<open>v\<close>; the model takes their values on entry and returns the
  values on exit beside the boolean.
\<close>

definition intersectionHelper ::
  "real \<Rightarrow> real \<Rightarrow> real \<Rightarrow> real \<Rightarrow> real \<Rightarrow> real \<Rightarrow> real \<Rightarrow> real \<Rightarrow> real
     \<Rightarrow> bool \<times> real \<times> real" where
  "intersectionHelper t u1 v1 u2 v2 a b u v =
     (if 0 \<le> t \<and> t \<le> 1 then
        (let u' = u1 + t * (u2 - u1);
             v' = v1 + t * (v2 - v1)
         in if - a / 2 \<le> u' \<and> u' \<le> a / 2 \<and> - b / 2 \<le> v' \<and> v' \<le> b / 2
            then (True, u', v')
            else (False, u', v'))
      else (False, u, v))"

section \<open>Gripper profile\<close>

datatype EndEffectorType = FINGER | SUCTION

text \<open>A hand posture (\<^verbatim>\<open>trajectory_msgs::JointTrajectory\<close>) is kept as its joint positions.\<close>

type_synonym JointTrajectory = "real list"

text \<open>The fields of \<^verbatim>\<open>GraspData\<close> that the generator reads (grasp\_data.h).\<close>

record GraspData =
  end_effector_type :: EndEffectorType
  grasp_pose_to_eef_pose :: Isometry3d
  pre_grasp_posture :: JointTrajectory
  grasp_posture :: JointTrajectory
  angle_resolution :: int
  grasp_resolution :: real
  grasp_depth_resolution :: real
  grasp_min_depth :: real
  grasp_max_depth :: real
  approach_distance_desired :: real
  retreat_distance_desired :: real
  lift_distance_desired :: real
  grasp_padding_on_approach :: real
  max_grasp_width :: real
  max_finger_width :: real
  min_finger_width :: real
  gripper_finger_width :: real
  active_suction_range_x :: real
  active_suction_range_y :: real

section \<open>Segment against cuboid\<close>

definition plane_parameter :: "real \<Rightarrow> real \<Rightarrow> real \<Rightarrow> real option" where
  \<comment> \<open>\<^verbatim>\<open>t = (offset - pa) / (pb - pa)\<close>. With a zero denominator the C++ quotient is
      an infinity or NaN, written \<^term>\<open>None\<close>.\<close>
  "plane_parameter offset pa pb =
     (if pb - pa = 0 then None else Some ((offset - pa) / (pb - pa)))"

definition face_hit ::
  "real option \<Rightarrow> real \<Rightarrow> real \<Rightarrow> real \<Rightarrow> real \<Rightarrow> real \<Rightarrow> real \<Rightarrow> bool" where
  \<comment> \<open>The call of \<^verbatim>\<open>intersectionHelper\<close> in \<^verbatim>\<open>graspIntersectionHelper\<close>. An
      infinite or NaN \<open>t\<close> fails \<^verbatim>\<open>t >= 0 && t <= 1\<close>. The locals \<^verbatim>\<open>u\<close>, \<^verbatim>\<open>v\<close>
      are only written, never read, by the caller.\<close>
  "face_hit t u1 v1 u2 v2 a b =
     (case t of
        None \<Rightarrow> False
      | Some t' \<Rightarrow> fst (intersectionHelper t' u1 v1 u2 v2 a b 0 0))"

definition graspIntersectionHelper ::
  "Isometry3d \<Rightarrow> real \<Rightarrow> real \<Rightarrow> real \<Rightarrow> Isometry3d \<Rightarrow> GraspData \<Rightarrow> bool" where
  "graspIntersectionHelper cuboid_pose depth width height grasp_pose grasp_data =
     (let point_a0 = translation grasp_pose;
          point_b0 = vadd point_a0
                       (smul (grasp_max_depth grasp_data) (mat_vec (rotation grasp_pose) UnitZ));
          point_a = inverse_apply cuboid_pose point_a0;
          point_b = inverse_apply cuboid_pose point_b0
      in if face_hit (plane_parameter (height / 2) (vz point_a) (vz point_b))
              (vx point_a) (vy point_a) (vx point_b) (vy point_b) depth width then True
         else if face_hit (plane_parameter (- height / 2) (vz point_a) (vz point_b))
              (vx point_a) (vy point_a) (vx point_b) (vy point_b) depth width then True
         else if face_hit (plane_parameter (width / 2) (vy point_a) (vy point_b))
              (vx point_a) (vz point_a) (vx point_b) (vz point_b) depth height then True
         else if face_hit (plane_parameter (- width / 2) (vy point_a) (vy point_b))
              (vx point_a) (vz point_a) (vx point_b) (vz point_b) depth height then True
         else if face_hit (plane_parameter (depth / 2) (vx point_a) (vx point_b))
              (vy point_a) (vz point_a) (vy point_b) (vz point_b) width height then True
         else if face_hit (plane_parameter (- depth / 2) (vx point_a) (vx point_b))
              (vy point_a) (vz point_a) (vy point_b) (vz point_b) width height then True
         else False)"

section \<open>Scoring\<close>

text \<open>
  The sub-score functions of \<^verbatim>\<open>GraspScorer\<close> and the posture function
  \<^verbatim>\<open>GraspData::setGraspWidth\<close> are defined in files that are not among the sources.
  They are parameters of the model, collected in one record. \<^verbatim>\<open>setGraspWidth\<close>
  returns \<^term>\<open>None\<close> where the C++ function returns false.
\<close>

record External =
  scoreGraspWidth :: "GraspData \<Rightarrow> real \<Rightarrow> real"
  scoreRotationsFromDesired :: "Isometry3d \<Rightarrow> Isometry3d \<Rightarrow> Vector3d"
  scoreDistanceToPalm :: "Isometry3d \<Rightarrow> GraspData \<Rightarrow> Isometry3d \<Rightarrow> real \<Rightarrow> real \<Rightarrow> real"
  scoreGraspTranslationRange :: "Isometry3d \<Rightarrow> Vector3d \<Rightarrow> Vector3d \<Rightarrow> Vector3d"
  scoreGraspTranslationIdeal :: "Isometry3d \<Rightarrow> Isometry3d \<Rightarrow> Vector3d"
  scoreGraspOverhang :: "Isometry3d \<Rightarrow> GraspData \<Rightarrow> Isometry3d \<Rightarrow> Vector3d \<Rightarrow> real \<times> real"
  setGraspWidth :: "GraspData \<Rightarrow> real \<Rightarrow> real \<Rightarrow> JointTrajectory option"

record GraspScoreWeights =
  orientation_x_score_weight :: real
  orientation_y_score_weight :: real
  orientation_z_score_weight :: real
  translation_x_score_weight :: real
  translation_y_score_weight :: real
  translation_z_score_weight :: real
  depth_score_weight :: real
  width_score_weight :: real
  overhang_score_weight :: real

text \<open>The member variables of \<^verbatim>\<open>GraspGenerator\<close> that generation reads and writes.\<close>

record GraspGenerator =
  ideal_grasp_pose :: Isometry3d
  grasp_score_weights :: GraspScoreWeights
  min_grasp_distance :: real
  max_grasp_distance :: real
  min_translations :: Vector3d
  max_translations :: Vector3d

fun accumulate_scores :: "real list \<Rightarrow> real list \<Rightarrow> real \<times> real \<Rightarrow> real \<times> real" where
  \<comment> \<open>The loop \<^verbatim>\<open>total_score += weights[i] * scores[i]; weight_total += weights[i]\<close>.\<close>
  "accumulate_scores (w # ws) (s # ss) (total_score, weight_total) =
     accumulate_scores ws ss (total_score + w * s, weight_total + w)"
| "accumulate_scores _ _ acc = acc"

definition weighted_total :: "real list \<Rightarrow> real list \<Rightarrow> real option" where
  \<comment> \<open>\<^verbatim>\<open>total_score /= weight_total\<close>; a zero weight total gives an infinity or NaN,
      written \<^term>\<open>None\<close>.\<close>
  "weighted_total weights scores =
     (case accumulate_scores weights scores (0, 0) of
        (total_score, weight_total) \<Rightarrow>
          if weight_total = 0 then None else Some (total_score / weight_total))"

definition suction_weights :: "GraspGenerator \<Rightarrow> real list" where
  "suction_weights gen =
     (let w = grasp_score_weights gen
      in [orientation_x_score_weight w, orientation_y_score_weight w,
          orientation_z_score_weight w, translation_x_score_weight w,
          translation_y_score_weight w, translation_z_score_weight w,
          overhang_score_weight w, overhang_score_weight w])"

definition suction_scores ::
  "External \<Rightarrow> GraspGenerator \<Rightarrow> Isometry3d \<Rightarrow> GraspData \<Rightarrow> Isometry3d \<Rightarrow> Vector3d
     \<Rightarrow> real list" where
  "suction_scores ext gen grasp_pose grasp_data cuboid_pose object_size =
     (let ideal_grasp = (ideal_grasp_pose gen)\<lparr>translation := translation cuboid_pose\<rparr>;
          orientation_scores = scoreRotationsFromDesired ext grasp_pose ideal_grasp;
          translation_scores = scoreGraspTranslationIdeal ext grasp_pose ideal_grasp;
          overhang_score = scoreGraspOverhang ext grasp_pose grasp_data cuboid_pose object_size
      in [vx orientation_scores, vy orientation_scores, vz orientation_scores,
          vx translation_scores, vy translation_scores, vz translation_scores,
          fst overhang_score, snd overhang_score])"

definition scoreSuctionGrasp ::
  "External \<Rightarrow> GraspGenerator \<Rightarrow> Isometry3d \<Rightarrow> GraspData \<Rightarrow> Isometry3d \<Rightarrow> Vector3d
     \<Rightarrow> real option" where
  "scoreSuctionGrasp ext gen grasp_pose grasp_data cuboid_pose object_size =
     weighted_total (suction_weights gen)
       (suction_scores ext gen grasp_pose grasp_data cuboid_pose object_size)"

definition finger_weights :: "GraspGenerator \<Rightarrow> real list" where
  "finger_weights gen =
     (let w = grasp_score_weights gen
      in [width_score_weight w, orientation_x_score_weight w,
          orientation_y_score_weight w, orientation_z_score_weight w,
          depth_score_weight w, translation_x_score_weight w,
          translation_y_score_weight w, translation_z_score_weight w])"

definition finger_scores ::
  "External \<Rightarrow> GraspGenerator \<Rightarrow> Isometry3d \<Rightarrow> GraspData \<Rightarrow> Isometry3d \<Rightarrow> real
     \<Rightarrow> real list" where
  "finger_scores ext gen grasp_pose grasp_data object_pose percent_open =
     (let width_score = scoreGraspWidth ext grasp_data percent_open;
          orientation_scores = scoreRotationsFromDesired ext grasp_pose (ideal_grasp_pose gen);
          distance_score = scoreDistanceToPalm ext grasp_pose grasp_data object_pose
                             (min_grasp_distance gen) (max_grasp_distance gen);
          translation_scores0 = scoreGraspTranslationRange ext grasp_pose
                                  (min_translations gen) (max_translations gen);
          translation_scores = vadd (smul (- 1) translation_scores0) (1, 1, 1)
      in [width_score, vx orientation_scores, vy orientation_scores, vz orientation_scores,
          distance_score, vx translation_scores, vy translation_scores,
          vz translation_scores])"

definition scoreFingerGrasp ::
  "External \<Rightarrow> GraspGenerator \<Rightarrow> Isometry3d \<Rightarrow> GraspData \<Rightarrow> Isometry3d \<Rightarrow> real
     \<Rightarrow> real option" where
  "scoreFingerGrasp ext gen grasp_pose grasp_data object_pose percent_open =
     weighted_total (finger_weights gen)
       (finger_scores ext gen grasp_pose grasp_data object_pose percent_open)"

section \<open>Grasp candidates\<close>

text \<open>
  The fields of \<^verbatim>\<open>moveit_msgs::Grasp\<close> that depend on the pose, the posture or the
  score. Message stamps, frame names, the grasp id and the approach and retreat
  directions are not modelled. A quality that is not a finite number is \<^term>\<open>None\<close>.
\<close>

record Grasp =
  g_grasp_pose :: Isometry3d
  g_pre_grasp_posture :: JointTrajectory
  g_grasp_posture :: JointTrajectory
  g_grasp_quality :: "real option"
  g_pre_grasp_approach_desired_distance :: real
  g_post_grasp_retreat_desired_distance :: real

record GraspCandidate =
  c_grasp :: Grasp
  c_grasp_data :: GraspData
  c_cuboid_pose :: Isometry3d

definition addGrasp ::
  "External \<Rightarrow> GraspGenerator \<Rightarrow> Isometry3d \<Rightarrow> GraspData \<Rightarrow> GraspCandidate list
     \<Rightarrow> Isometry3d \<Rightarrow> Vector3d \<Rightarrow> real \<Rightarrow> bool \<times> GraspCandidate list" where
  "addGrasp ext gen grasp_pose grasp_data grasp_candidates object_pose object_size object_width =
     (let new_grasp =
            \<lparr>g_grasp_pose = compose grasp_pose (grasp_pose_to_eef_pose grasp_data),
             g_pre_grasp_posture = [],
             g_grasp_posture = grasp_posture grasp_data,
             g_grasp_quality = Some 0,
             g_pre_grasp_approach_desired_distance =
               grasp_max_depth grasp_data + approach_distance_desired grasp_data,
             g_post_grasp_retreat_desired_distance =
               grasp_max_depth grasp_data + retreat_distance_desired grasp_data\<rparr>
      in case end_effector_type grasp_data of
           FINGER \<Rightarrow>
             (let min_finger_open_on_approach =
                    object_width + 2 * grasp_padding_on_approach grasp_data
              in case setGraspWidth ext grasp_data 1 min_finger_open_on_approach of
                   None \<Rightarrow> (False, grasp_candidates)
                 | Some posture1 \<Rightarrow>
                    (let grasp1 = new_grasp
                           \<lparr>g_pre_grasp_posture := posture1,
                            g_grasp_quality :=
                              scoreFingerGrasp ext gen grasp_pose grasp_data object_pose 1\<rparr>;
                         candidates1 = grasp_candidates @
                           [\<lparr>c_grasp = grasp1, c_grasp_data = grasp_data,
                             c_cuboid_pose = object_pose\<rparr>]
                     in case setGraspWidth ext grasp_data (1 / 2) min_finger_open_on_approach of
                          None \<Rightarrow> (False, candidates1)
                        | Some posture2 \<Rightarrow>
                           (let grasp2 = grasp1
                                  \<lparr>g_pre_grasp_posture := posture2,
                                   g_grasp_quality :=
                                     scoreFingerGrasp ext gen grasp_pose grasp_data
                                       object_pose (1 / 2)\<rparr>;
                                candidates2 = candidates1 @
                                  [\<lparr>c_grasp = grasp2, c_grasp_data = grasp_data,
                                    c_cuboid_pose = object_pose\<rparr>]
                            in case setGraspWidth ext grasp_data 0
                                      min_finger_open_on_approach of
                                 None \<Rightarrow> (False, candidates2)
                               | Some posture3 \<Rightarrow>
                                  (let grasp3 = grasp2
                                         \<lparr>g_pre_grasp_posture := posture3,
                                          g_grasp_quality :=
                                            scoreFingerGrasp ext gen grasp_pose grasp_data
                                              object_pose 0\<rparr>
                                   in (True, candidates2 @
                                         [\<lparr>c_grasp = grasp3, c_grasp_data = grasp_data,
                                           c_cuboid_pose = object_pose\<rparr>])))))
         | SUCTION \<Rightarrow>
             (True, grasp_candidates @
                [\<lparr>c_grasp = new_grasp
                     \<lparr>g_grasp_quality :=
                        scoreSuctionGrasp ext gen grasp_pose grasp_data object_pose object_size\<rparr>,
                  c_grasp_data = grasp_data, c_cuboid_pose = object_pose\<rparr>]))"

section \<open>Pose enumeration for finger grippers\<close>

datatype grasp_axis_t = X_AXIS | Y_AXIS | Z_AXIS

text \<open>
  \<^verbatim>\<open>GraspCandidateConfig\<close> is declared in a header that is not among the sources;
  the record holds the flags that the generator reads.
\<close>

record GraspCandidateConfig =
  enable_corner_grasps :: bool
  enable_face_grasps :: bool
  enable_variable_angle_grasps :: bool
  enable_edge_grasps :: bool
  generate_x_axis_grasps :: bool
  generate_y_axis_grasps :: bool
  generate_z_axis_grasps :: bool

definition disableAllGraspTypes :: "GraspCandidateConfig \<Rightarrow> GraspCandidateConfig" where
  \<comment> \<open>Modelled from the spec: \<^verbatim>\<open>GraspCandidateConfig::disableAllGraspTypes\<close> is not
      among the sources; it switches the four enumeration strategies off.\<close>
  "disableAllGraspTypes config =
     config\<lparr>enable_corner_grasps := False, enable_face_grasps := False,
            enable_variable_angle_grasps := False, enable_edge_grasps := False\<rparr>"

definition ddiv :: "real \<Rightarrow> real \<Rightarrow> real option" where
  \<comment> \<open>A double division whose result is converted to an integer afterwards: with a
      zero divisor the quotient is an infinity or NaN.\<close>
  "ddiv x y = (if y = 0 then None else Some (x / y))"

definition size_t_of_double :: "real \<Rightarrow> nat option" where
  \<comment> \<open>Conversion of a double to the 64-bit \<^verbatim>\<open>std::size_t\<close>: the value is truncated
      towards zero; the behaviour is undefined when the truncated value is not
      representable.\<close>
  "size_t_of_double x = (if - 1 < x \<and> x < 2 ^ 64 then Some (nat \<lfloor>x\<rfloor>) else None)"

text \<open>The axis-dependent locals set at the start of \<^verbatim>\<open>generateCuboidAxisGrasps\<close>.\<close>

record AxisFrame =
  length_along_a :: real
  length_along_b :: real
  length_along_c :: real
  a_dir :: Vector3d
  b_dir :: Vector3d
  c_dir :: Vector3d
  rotation_angles :: Vector3d
  object_width :: real

definition axis_frame ::
  "Isometry3d \<Rightarrow> real \<Rightarrow> real \<Rightarrow> real \<Rightarrow> grasp_axis_t \<Rightarrow> AxisFrame" where
  "axis_frame cuboid_pose depth width height axis =
     (case axis of
        X_AXIS \<Rightarrow>
          \<lparr>length_along_a = width, length_along_b = height, length_along_c = depth,
           a_dir = normalized (mat_vec (rotation cuboid_pose) UnitY),
           b_dir = normalized (mat_vec (rotation cuboid_pose) UnitZ),
           c_dir = normalized (mat_vec (rotation cuboid_pose) UnitX),
           rotation_angles = (- pi / 2, 0, - pi / 2),
           object_width = depth\<rparr>
      | Y_AXIS \<Rightarrow>
          \<lparr>length_along_a = depth, length_along_b = height, length_along_c = width,
           a_dir = normalized (mat_vec (rotation cuboid_pose) UnitX),
           b_dir = normalized (mat_vec (rotation cuboid_pose) UnitZ),
           c_dir = normalized (mat_vec (rotation cuboid_pose) UnitY),
           rotation_angles = (0, pi / 2, pi),
           object_width = width\<rparr>
      | Z_AXIS \<Rightarrow>
          \<lparr>length_along_a = depth, length_along_b = width, length_along_c = height,
           a_dir = normalized (mat_vec (rotation cuboid_pose) UnitX),
           b_dir = normalized (mat_vec (rotation cuboid_pose) UnitY),
           c_dir = normalized (mat_vec (rotation cuboid_pose) UnitZ),
           rotation_angles = (pi / 2, pi / 2, 0),
           object_width = height\<rparr>)"

definition align_to_axis :: "Isometry3d \<Rightarrow> Vector3d \<Rightarrow> Isometry3d" where
  \<comment> \<open>\<^verbatim>\<open>grasp_pose *= AngleAxisd(rotation_angles[0], UnitX) *
      AngleAxisd(rotation_angles[1], UnitY) * AngleAxisd(rotation_angles[2], UnitZ)\<close>.\<close>
  "align_to_axis pose angles =
     rotate_pose pose
       (mat_mul (mat_mul (AngleAxisX (vx angles)) (AngleAxisY (vy angles)))
          (AngleAxisZ (vz angles)))"

fun push_translated :: "Isometry3d \<Rightarrow> Vector3d \<Rightarrow> nat \<Rightarrow> Isometry3d list" where
  \<comment> \<open>The loop \<^verbatim>\<open>grasp_pose.translation() += delta; grasp_poses.push_back(grasp_pose)\<close>,
      run \<open>n\<close> times: the poses pushed, in order.\<close>
  "push_translated grasp_pose delta 0 = []"
| "push_translated grasp_pose delta (Suc n) =
     translate_global grasp_pose delta #
       push_translated (translate_global grasp_pose delta) delta n"

fun push_rotated :: "Isometry3d \<Rightarrow> real \<Rightarrow> nat \<Rightarrow> Isometry3d list" where
  \<comment> \<open>The loop \<^verbatim>\<open>grasp_pose *= AngleAxisd(delta_angle, UnitY);
      grasp_poses.push_back(grasp_pose)\<close>, run \<open>n\<close> times.\<close>
  "push_rotated grasp_pose delta_angle 0 = []"
| "push_rotated grasp_pose delta_angle (Suc n) =
     rotate_pose grasp_pose (AngleAxisY delta_angle) #
       push_rotated (rotate_pose grasp_pose (AngleAxisY delta_angle)) delta_angle n"

text \<open>
  The three helpers return the pose vector after their pushes. (In the source the vector
  is a reference parameter; the returned count or flag is ignored by the caller.)
\<close>

definition aligned_pose :: "Isometry3d \<Rightarrow> Vector3d \<Rightarrow> real \<Rightarrow> Vector3d \<Rightarrow> Isometry3d" where
  \<comment> \<open>The start of the face and the corner helper: the pose turned into the frame of the
      axis, turned about Y by the alignment (or corner) rotation, then moved.\<close>
  "aligned_pose pose angles alignment_rotation transl =
     (let grasp_pose = align_to_axis pose angles;
          grasp_pose = rotate_pose grasp_pose (AngleAxisY alignment_rotation);
          grasp_pose = translate_global grasp_pose transl
      in grasp_pose)"

definition addFaceGraspsHelper ::
  "Isometry3d \<Rightarrow> Vector3d \<Rightarrow> Vector3d \<Rightarrow> Vector3d \<Rightarrow> real \<Rightarrow> nat \<Rightarrow> Isometry3d list
     \<Rightarrow> Isometry3d list" where
  "addFaceGraspsHelper pose angles transl delta alignment_rotation num_grasps grasp_poses =
     (let grasp_pose = aligned_pose pose angles alignment_rotation transl
      in grasp_poses @ push_translated grasp_pose delta num_grasps)"

definition addEdgeGraspsHelper ::
  "Isometry3d \<Rightarrow> Vector3d \<Rightarrow> Vector3d \<Rightarrow> Vector3d \<Rightarrow> real \<Rightarrow> nat \<Rightarrow> Isometry3d list
     \<Rightarrow> real \<Rightarrow> Isometry3d list" where
  "addEdgeGraspsHelper pose angles transl delta alignment_rotation num_grasps grasp_poses
       corner_rotation =
     (let grasp_pose = align_to_axis pose angles;
          grasp_pose = rotate_pose grasp_pose (AngleAxisY alignment_rotation);
          grasp_pose = rotate_pose grasp_pose (AngleAxisX corner_rotation);
          grasp_pose = translate_global grasp_pose transl
      in grasp_poses @ push_translated grasp_pose delta num_grasps)"

definition addCornerGraspsHelper ::
  "Isometry3d \<Rightarrow> Vector3d \<Rightarrow> Vector3d \<Rightarrow> real \<Rightarrow> nat \<Rightarrow> Isometry3d list
     \<Rightarrow> Isometry3d list" where
  "addCornerGraspsHelper pose angles transl corner_rotation num_radial_grasps grasp_poses =
     (let delta_angle = (pi / 2) / real (num_radial_grasps + 1);
          grasp_pose = aligned_pose pose angles corner_rotation transl
      in grasp_poses @ push_rotated grasp_pose delta_angle num_radial_grasps)"

definition corner_grasps ::
  "Isometry3d \<Rightarrow> AxisFrame \<Rightarrow> real \<Rightarrow> nat \<Rightarrow> Isometry3d list \<Rightarrow> Isometry3d list" where
  \<comment> \<open>The body of \<^verbatim>\<open>if (grasp_candidate_config.enable_corner_grasps_)\<close>.\<close>
  "corner_grasps cuboid_pose fr offset num_radial_grasps0 grasp_poses =
     (let corner_translation_a = smul (0.5 * (length_along_a fr + offset)) (a_dir fr);
          corner_translation_b = smul (0.5 * (length_along_b fr + offset)) (b_dir fr);
          num_radial_grasps = (if num_radial_grasps0 \<le> 0 then 1 else num_radial_grasps0);
          grasp_poses = addCornerGraspsHelper cuboid_pose (rotation_angles fr)
            (vsub (vneg corner_translation_a) corner_translation_b) 0
            num_radial_grasps grasp_poses;
          grasp_poses = addCornerGraspsHelper cuboid_pose (rotation_angles fr)
            (vadd (vneg corner_translation_a) corner_translation_b) (- pi / 2)
            num_radial_grasps grasp_poses;
          grasp_poses = addCornerGraspsHelper cuboid_pose (rotation_angles fr)
            (vadd corner_translation_a corner_translation_b) pi
            num_radial_grasps grasp_poses;
          grasp_poses = addCornerGraspsHelper cuboid_pose (rotation_angles fr)
            (vsub corner_translation_a corner_translation_b) (pi / 2)
            num_radial_grasps grasp_poses
      in grasp_poses)"

definition face_grasps ::
  "Isometry3d \<Rightarrow> AxisFrame \<Rightarrow> GraspData \<Rightarrow> real \<Rightarrow> real \<Rightarrow> real \<Rightarrow> nat \<Rightarrow> Isometry3d list
     \<Rightarrow> Isometry3d list" where
  \<comment> \<open>The body of \<^verbatim>\<open>if (grasp_candidate_config.enable_face_grasps_)\<close>. All four
      calls pass \<^verbatim>\<open>num_grasps_along_b\<close>.\<close>
  "face_grasps cuboid_pose fr grasp_data offset delta_a delta_b num_grasps_along_b grasp_poses =
     (let a_translation =
            vsub (vsub (vneg (smul (0.5 * (length_along_a fr + offset)) (a_dir fr)))
                    (smul (0.5 * (length_along_b fr - gripper_finger_width grasp_data))
                       (b_dir fr)))
              (smul delta_b (b_dir fr));
          b_translation =
            vsub (vsub (smul (- 0.5 * (length_along_a fr - gripper_finger_width grasp_data))
                          (a_dir fr))
                    (smul delta_a (a_dir fr)))
              (smul (0.5 * (length_along_b fr + offset)) (b_dir fr));
          grasp_poses = addFaceGraspsHelper cuboid_pose (rotation_angles fr) a_translation
            (smul delta_b (b_dir fr)) 0 num_grasps_along_b grasp_poses;
          grasp_poses = addFaceGraspsHelper cuboid_pose (rotation_angles fr)
            (vneg b_translation) (smul (- delta_a) (a_dir fr)) (- pi / 2)
            num_grasps_along_b grasp_poses;
          grasp_poses = addFaceGraspsHelper cuboid_pose (rotation_angles fr)
            (vneg a_translation) (smul (- delta_b) (b_dir fr)) pi
            num_grasps_along_b grasp_poses;
          grasp_poses = addFaceGraspsHelper cuboid_pose (rotation_angles fr) b_translation
            (smul delta_a (a_dir fr)) (pi / 2) num_grasps_along_b grasp_poses
      in grasp_poses)"

function variable_angle_loop ::
  "(Isometry3d \<Rightarrow> bool) \<Rightarrow> real \<Rightarrow> nat \<Rightarrow> Isometry3d \<Rightarrow> nat \<Rightarrow> Isometry3d list" where
  \<comment> \<open>One \<^verbatim>\<open>while\<close> loop of the variable-angle sweep: the poses it pushes, in order.
      \<open>intersects\<close> is the loop condition, \<open>angle\<close> is \<open>angle_res\<close> or \<open>- angle_res\<close>.\<close>
  "variable_angle_loop intersects angle max_iterations grasp_pose iterations =
     (if intersects grasp_pose then
        grasp_pose #
          (if iterations + 1 > max_iterations then []
           else variable_angle_loop intersects angle max_iterations
                  (rotate_pose grasp_pose (AngleAxisY angle)) (iterations + 1))
      else [])"
  by pat_completeness auto
termination
  by (relation "measure (\<lambda>(intersects, angle, max_iterations, grasp_pose, iterations).
        max_iterations - iterations)") auto

declare variable_angle_loop.simps [simp del]

definition variable_angle_sweep ::
  "Isometry3d \<Rightarrow> real \<Rightarrow> real \<Rightarrow> real \<Rightarrow> GraspData \<Rightarrow> real \<Rightarrow> nat \<Rightarrow> Isometry3d
     \<Rightarrow> Isometry3d list" where
  \<comment> \<open>The body of the \<^verbatim>\<open>for\<close> loop over the base poses: both directions.\<close>
  "variable_angle_sweep cuboid_pose depth width height grasp_data angle_res max_iterations
       base_pose =
     variable_angle_loop
       (\<lambda>grasp_pose. graspIntersectionHelper cuboid_pose depth width height grasp_pose grasp_data)
       angle_res max_iterations (rotate_pose base_pose (AngleAxisY angle_res)) 0 @
     variable_angle_loop
       (\<lambda>grasp_pose. graspIntersectionHelper cuboid_pose depth width height grasp_pose grasp_data)
       (- angle_res) max_iterations (rotate_pose base_pose (AngleAxisY (- angle_res))) 0"

definition variable_angle_grasps ::
  "Isometry3d \<Rightarrow> real \<Rightarrow> real \<Rightarrow> real \<Rightarrow> GraspData \<Rightarrow> real \<Rightarrow> nat \<Rightarrow> Isometry3d list
     \<Rightarrow> Isometry3d list option" where
  \<comment> \<open>The body of \<^verbatim>\<open>if (grasp_candidate_config.enable_variable_angle_grasps_)\<close>.
      \<^verbatim>\<open>max_iterations\<close> is converted inside the loop body, so only when there is a
      base pose.\<close>
  "variable_angle_grasps cuboid_pose depth width height grasp_data angle_res num_corner_grasps
       grasp_poses =
     (if num_corner_grasps < length grasp_poses then
        do {
          max_iterations \<leftarrow> size_t_of_double (pi / angle_res + 1);
          Some (grasp_poses @
                concat (map (variable_angle_sweep cuboid_pose depth width height grasp_data
                               angle_res max_iterations)
                          (drop num_corner_grasps grasp_poses)))
        }
      else Some grasp_poses)"

definition edge_grasps ::
  "Isometry3d \<Rightarrow> AxisFrame \<Rightarrow> grasp_axis_t \<Rightarrow> GraspData \<Rightarrow> real \<Rightarrow> real \<Rightarrow> real \<Rightarrow> nat
     \<Rightarrow> Isometry3d list \<Rightarrow> Isometry3d list" where
  \<comment> \<open>The body of \<^verbatim>\<open>if (grasp_candidate_config.enable_edge_grasps_)\<close>.\<close>
  "edge_grasps cuboid_pose fr axis grasp_data offset delta_a delta_b num_grasps_along_b
       grasp_poses =
     (let a_sign = (if axis = Y_AXIS \<or> axis = Z_AXIS then - 1 else 1);
          b_sign = (if axis = Z_AXIS then - 1 else 1);
          a_rot_sign = (if axis = Z_AXIS then - 1 else 1);
          b_rot_sign = (if axis = Y_AXIS \<or> axis = Z_AXIS then - 1 else 1);
          a_translation =
            vsub (vsub (vsub (smul (- 0.5 * (length_along_a fr + offset)) (a_dir fr))
                          (smul (0.5 * (length_along_b fr - gripper_finger_width grasp_data))
                             (b_dir fr)))
                    (smul delta_b (b_dir fr)))
              (smul a_sign (smul (0.5 * (length_along_c fr + offset)) (c_dir fr)));
          b_translation =
            vsub (vsub (vsub (smul (- 0.5 * (length_along_a fr - gripper_finger_width grasp_data))
                                (a_dir fr))
                          (smul delta_a (a_dir fr)))
                    (smul (0.5 * (length_along_b fr + offset)) (b_dir fr)))
              (smul b_sign (smul (0.5 * (length_along_c fr + offset)) (c_dir fr)));
          grasp_poses = addEdgeGraspsHelper cuboid_pose (rotation_angles fr) a_translation
            (smul delta_b (b_dir fr)) 0 num_grasps_along_b grasp_poses
            (- pi / 4 * a_rot_sign);
          grasp_poses = addEdgeGraspsHelper cuboid_pose (rotation_angles fr)
            (vneg b_translation) (smul (- delta_a) (a_dir fr)) (- pi / 2)
            num_grasps_along_b grasp_poses (pi / 4 * b_rot_sign);
          grasp_poses = addEdgeGraspsHelper cuboid_pose (rotation_angles fr)
            (vneg a_translation) (smul (- delta_b) (b_dir fr)) pi
            num_grasps_along_b grasp_poses (pi / 4 * a_rot_sign);
          grasp_poses = addEdgeGraspsHelper cuboid_pose (rotation_angles fr) b_translation
            (smul delta_a (a_dir fr)) (pi / 2) num_grasps_along_b grasp_poses
            (- pi / 4 * b_rot_sign)
      in grasp_poses)"

definition depth_grasps :: "real \<Rightarrow> nat \<Rightarrow> Isometry3d list \<Rightarrow> Isometry3d list" where
  \<comment> \<open>The depth loop: every pose present before it is followed into the object in
      \<open>num_depth_grasps\<close> steps of \<open>delta_f\<close> along its own Z axis.\<close>
  "depth_grasps delta_f num_depth_grasps grasp_poses =
     grasp_poses @
     concat (map (\<lambda>pose. push_translated pose
                            (smul delta_f (mat_vec (rotation pose) UnitZ)) num_depth_grasps)
               grasp_poses)"

definition bidirectional_grasps :: "Isometry3d list \<Rightarrow> Isometry3d list" where
  "bidirectional_grasps grasp_poses =
     grasp_poses @ map (\<lambda>pose. rotate_pose pose (AngleAxisZ pi)) grasp_poses"

record FaceCounts =
  num_grasps_along_a :: nat
  num_grasps_along_b :: nat
  delta_a :: real
  delta_b :: real

definition face_counts :: "AxisFrame \<Rightarrow> GraspData \<Rightarrow> FaceCounts option" where
  \<comment> \<open>Lines 209 to 234: the counts and the exact step sizes for the sides. The
      assignments to \<^verbatim>\<open>delta_a\<close> and \<^verbatim>\<open>delta_b\<close> in the fallback branches are
      overwritten before they are read.\<close>
  "face_counts fr grasp_data =
     do {
       qa \<leftarrow> ddiv (length_along_a fr - gripper_finger_width grasp_data)
               (grasp_resolution grasp_data);
       na0 \<leftarrow> size_t_of_double (real_of_int \<lfloor>qa\<rfloor> + 1);
       qb \<leftarrow> ddiv (length_along_b fr - gripper_finger_width grasp_data)
               (grasp_resolution grasp_data);
       nb0 \<leftarrow> size_t_of_double (real_of_int \<lfloor>qb\<rfloor> + 1);
       let na = (if na0 \<le> 0 then 3 else na0);
       let nb = (if nb0 \<le> 0 then 3 else nb0);
       Some \<lparr>num_grasps_along_a = na, num_grasps_along_b = nb,
             delta_a = (if na = 1 then 0
                        else (length_along_a fr - gripper_finger_width grasp_data) /
                             real (na - 1)),
             delta_b = (if nb = 1 then 0
                        else (length_along_b fr - gripper_finger_width grasp_data) /
                             real (nb - 1))\<rparr>
     }"

text \<open>
  The pose vector of \<^verbatim>\<open>generateCuboidAxisGrasps\<close> is built in stages, each
  appending to the vector the stage before it left. The definitions below give the vector
  after each stage.
\<close>

definition angle_res_of :: "GraspData \<Rightarrow> real" where
  \<comment> \<open>\<^verbatim>\<open>angle_res = grasp_data->angle_resolution_ * M_PI / 180.0\<close>.\<close>
  "angle_res_of grasp_data = real_of_int (angle_resolution grasp_data) * pi / 180"

definition radial_count :: "GraspData \<Rightarrow> nat option" where
  \<comment> \<open>\<^verbatim>\<open>std::size_t num_radial_grasps = ceil((M_PI / 2.0) / angle_res)\<close>.\<close>
  "radial_count grasp_data =
     do {
       qr \<leftarrow> ddiv (pi / 2) (angle_res_of grasp_data);
       size_t_of_double (real_of_int \<lceil>qr\<rceil>)
     }"

definition corner_stage ::
  "Isometry3d \<Rightarrow> real \<Rightarrow> real \<Rightarrow> real \<Rightarrow> grasp_axis_t \<Rightarrow> GraspData \<Rightarrow> GraspCandidateConfig
     \<Rightarrow> Isometry3d list option" where
  \<comment> \<open>Lines 165 to 198; the length of the result is \<^verbatim>\<open>num_corner_grasps\<close>.\<close>
  "corner_stage cuboid_pose depth width height axis grasp_data config =
     do {
       num_radial_grasps \<leftarrow> radial_count grasp_data;
       Some (if enable_corner_grasps config
             then corner_grasps cuboid_pose (axis_frame cuboid_pose depth width height axis)
                    0.001 num_radial_grasps []
             else [])
     }"

definition face_stage ::
  "Isometry3d \<Rightarrow> real \<Rightarrow> real \<Rightarrow> real \<Rightarrow> grasp_axis_t \<Rightarrow> GraspData \<Rightarrow> GraspCandidateConfig
     \<Rightarrow> Isometry3d list option" where
  \<comment> \<open>Lines 200 to 271.\<close>
  "face_stage cuboid_pose depth width height axis grasp_data config =
     do {
       grasp_poses \<leftarrow> corner_stage cuboid_pose depth width height axis grasp_data config;
       fc \<leftarrow> face_counts (axis_frame cuboid_pose depth width height axis) grasp_data;
       Some (if enable_face_grasps config
             then face_grasps cuboid_pose (axis_frame cuboid_pose depth width height axis)
                    grasp_data 0.001 (delta_a fc) (delta_b fc) (num_grasps_along_b fc)
                    grasp_poses
             else grasp_poses)
     }"

definition variable_angle_stage ::
  "Isometry3d \<Rightarrow> real \<Rightarrow> real \<Rightarrow> real \<Rightarrow> grasp_axis_t \<Rightarrow> GraspData \<Rightarrow> GraspCandidateConfig
     \<Rightarrow> Isometry3d list option" where
  \<comment> \<open>Lines 273 to 317.\<close>
  "variable_angle_stage cuboid_pose depth width height axis grasp_data config =
     do {
       corner_poses \<leftarrow> corner_stage cuboid_pose depth width height axis grasp_data config;
       grasp_poses \<leftarrow> face_stage cuboid_pose depth width height axis grasp_data config;
       if enable_variable_angle_grasps config
       then variable_angle_grasps cuboid_pose depth width height grasp_data
              (angle_res_of grasp_data) (length corner_poses) grasp_poses
       else Some grasp_poses
     }"

definition edge_stage ::
  "Isometry3d \<Rightarrow> real \<Rightarrow> real \<Rightarrow> real \<Rightarrow> grasp_axis_t \<Rightarrow> GraspData \<Rightarrow> GraspCandidateConfig
     \<Rightarrow> Isometry3d list option" where
  \<comment> \<open>Lines 319 to 371.\<close>
  "edge_stage cuboid_pose depth width height axis grasp_data config =
     do {
       grasp_poses \<leftarrow>
         variable_angle_stage cuboid_pose depth width height axis grasp_data config;
       fc \<leftarrow> face_counts (axis_frame cuboid_pose depth width height axis) grasp_data;
       Some (if enable_edge_grasps config
             then edge_grasps cuboid_pose (axis_frame cuboid_pose depth width height axis) axis
                    grasp_data 0.001 (delta_a fc) (delta_b fc) (num_grasps_along_b fc)
                    grasp_poses
             else grasp_poses)
     }"

definition depth_count :: "GraspData \<Rightarrow> nat option" where
  \<comment> \<open>\<^verbatim>\<open>num_depth_grasps\<close>, lines 374 to 376.\<close>
  "depth_count grasp_data =
     do {
       qd \<leftarrow> ddiv (grasp_max_depth grasp_data - grasp_min_depth grasp_data)
               (grasp_depth_resolution grasp_data);
       num_depth_grasps \<leftarrow> size_t_of_double (real_of_int \<lceil>qd\<rceil>);
       Some (if num_depth_grasps \<le> 0 then 1 else num_depth_grasps)
     }"

definition cuboid_axis_poses ::
  "Isometry3d \<Rightarrow> real \<Rightarrow> real \<Rightarrow> real \<Rightarrow> grasp_axis_t \<Rightarrow> GraspData \<Rightarrow> GraspCandidateConfig
     \<Rightarrow> Isometry3d list option" where
  \<comment> \<open>The vector \<^verbatim>\<open>grasp_poses\<close> after the depth and the bidirectional loops,
      lines 372 to 402.\<close>
  "cuboid_axis_poses cuboid_pose depth width height axis grasp_data config =
     do {
       grasp_poses \<leftarrow> edge_stage cuboid_pose depth width height axis grasp_data config;
       num_depth_grasps \<leftarrow> depth_count grasp_data;
       let finger_depth = grasp_max_depth grasp_data - grasp_min_depth grasp_data;
       let delta_f = finger_depth / real num_depth_grasps;
       Some (bidirectional_grasps (depth_grasps delta_f num_depth_grasps grasp_poses))
     }"

section \<open>Normalisation ranges and candidate assembly\<close>

definition DBL_MAX :: real where
  \<comment> \<open>\<^verbatim>\<open>std::numeric_limits<double>::max()\<close>, the largest finite double.\<close>
  "DBL_MAX = 2 ^ 1024 - 2 ^ 971"

definition DBL_MIN :: real where
  \<comment> \<open>\<^verbatim>\<open>std::numeric_limits<double>::min()\<close>, the smallest positive normal double.\<close>
  "DBL_MIN = 1 / 2 ^ 1022"

definition reset_min_max :: "GraspGenerator \<Rightarrow> GraspGenerator" where
  "reset_min_max gen =
     gen\<lparr>min_grasp_distance := DBL_MAX,
         max_grasp_distance := DBL_MIN,
         min_translations := (DBL_MAX, DBL_MAX, DBL_MAX),
         max_translations := (DBL_MIN, DBL_MIN, DBL_MIN)\<rparr>"

definition update_min_max :: "Isometry3d \<Rightarrow> GraspGenerator \<Rightarrow> Isometry3d \<Rightarrow> GraspGenerator" where
  \<comment> \<open>One round of the loop at lines 415 to 433.\<close>
  "update_min_max cuboid_pose gen grasp_pose =
     (let grasp_distance = norm3 (vsub (translation grasp_pose) (translation cuboid_pose));
          gen = (if grasp_distance > max_grasp_distance gen
                 then gen\<lparr>max_grasp_distance := grasp_distance\<rparr> else gen);
          gen = (if grasp_distance < min_grasp_distance gen
                 then gen\<lparr>min_grasp_distance := grasp_distance\<rparr> else gen);
          t = translation grasp_pose;
          lo = min_translations gen;
          hi = max_translations gen
      in gen\<lparr>min_translations :=
                (if vx t < vx lo then vx t else vx lo,
                 if vy t < vy lo then vy t else vy lo,
                 if vz t < vz lo then vz t else vz lo),
              max_translations :=
                (if vx t > vx hi then vx t else vx hi,
                 if vy t > vy hi then vy t else vy hi,
                 if vz t > vz hi then vz t else vz hi)\<rparr>)"

definition compute_min_max ::
  "Isometry3d \<Rightarrow> GraspGenerator \<Rightarrow> Isometry3d list \<Rightarrow> GraspGenerator" where
  "compute_min_max cuboid_pose gen grasp_poses =
     foldl (update_min_max cuboid_pose) (reset_min_max gen) grasp_poses"

definition add_all_grasps ::
  "External \<Rightarrow> GraspGenerator \<Rightarrow> GraspData \<Rightarrow> Isometry3d \<Rightarrow> Vector3d \<Rightarrow> real
     \<Rightarrow> Isometry3d list \<Rightarrow> GraspCandidate list \<Rightarrow> GraspCandidate list" where
  \<comment> \<open>The loop that calls \<^verbatim>\<open>addGrasp\<close> on every pose; its boolean result only
      feeds a log message.\<close>
  "add_all_grasps ext gen grasp_data object_pose object_size width grasp_poses
       grasp_candidates =
     foldl (\<lambda>candidates grasp_pose.
              snd (addGrasp ext gen grasp_pose grasp_data candidates object_pose object_size
                     width))
       grasp_candidates grasp_poses"

definition generateCuboidAxisGrasps ::
  "External \<Rightarrow> GraspGenerator \<Rightarrow> Isometry3d \<Rightarrow> real \<Rightarrow> real \<Rightarrow> real \<Rightarrow> grasp_axis_t
     \<Rightarrow> GraspData \<Rightarrow> GraspCandidateConfig \<Rightarrow> GraspCandidate list
     \<Rightarrow> (GraspGenerator \<times> GraspCandidate list) option" where
  \<comment> \<open>The generator after the call and the candidate vector after the call; the C++
      function returns true on every path.\<close>
  "generateCuboidAxisGrasps ext gen cuboid_pose depth width height axis grasp_data config
       grasp_candidates =
     do {
       grasp_poses \<leftarrow> cuboid_axis_poses cuboid_pose depth width height axis grasp_data config;
       let gen = compute_min_max cuboid_pose gen grasp_poses;
       Some (gen,
             add_all_grasps ext gen grasp_data cuboid_pose (depth, width, height)
               (object_width (axis_frame cuboid_pose depth width height axis))
               grasp_poses grasp_candidates)
     }"

definition axis_config :: "GraspCandidateConfig \<Rightarrow> bool \<Rightarrow> GraspCandidateConfig" where
  \<comment> \<open>The configuration copy for one axis: when the object is too wide along the axis,
      only the edge and corner flags of the caller's configuration are kept.\<close>
  "axis_config config too_wide =
     (if too_wide
      then (disableAllGraspTypes config)
             \<lparr>enable_edge_grasps := enable_edge_grasps config,
              enable_corner_grasps := enable_corner_grasps config\<rparr>
      else config)"

definition generateFingerGrasps ::
  "External \<Rightarrow> GraspGenerator \<Rightarrow> Isometry3d \<Rightarrow> real \<Rightarrow> real \<Rightarrow> real \<Rightarrow> GraspData
     \<Rightarrow> GraspCandidate list \<Rightarrow> GraspCandidateConfig
     \<Rightarrow> (GraspGenerator \<times> GraspCandidate list) option" where
  "generateFingerGrasps ext gen cuboid_pose depth width height grasp_data grasp_candidates
       config =
     do {
       (gen, grasp_candidates) \<leftarrow>
         (if generate_x_axis_grasps config
          then generateCuboidAxisGrasps ext gen cuboid_pose depth width height X_AXIS grasp_data
                 (axis_config config (depth > max_grasp_width grasp_data)) grasp_candidates
          else Some (gen, grasp_candidates));
       (gen, grasp_candidates) \<leftarrow>
         (if generate_y_axis_grasps config
          then generateCuboidAxisGrasps ext gen cuboid_pose depth width height Y_AXIS grasp_data
                 (axis_config config (width > max_grasp_width grasp_data)) grasp_candidates
          else Some (gen, grasp_candidates));
       (gen, grasp_candidates) \<leftarrow>
         (if generate_z_axis_grasps config
          then generateCuboidAxisGrasps ext gen cuboid_pose depth width height Z_AXIS grasp_data
                 (axis_config config (height > max_grasp_width grasp_data)) grasp_candidates
          else Some (gen, grasp_candidates));
       Some (gen, grasp_candidates)
     }"

section \<open>Pose enumeration for suction grippers\<close>

function range_lt :: "real \<Rightarrow> real \<Rightarrow> real \<Rightarrow> real list" where
  \<comment> \<open>The values of \<open>x\<close> in \<^verbatim>\<open>for (x = lo; x < hi; x += inc)\<close>, for a positive step.\<close>
  "range_lt x hi inc = (if x < hi \<and> 0 < inc then x # range_lt (x + inc) hi inc else [])"
  by pat_completeness auto
termination
proof (relation "measure (\<lambda>(x, hi, inc). nat \<lceil>(hi - x) / inc\<rceil>)", goal_cases)
  case 1
  show ?case by simp
next
  case (2 x hi inc)
  then have pos: "0 < inc" and lt: "x < hi" by auto
  have eq: "(hi - (x + inc)) / inc = (hi - x) / inc - 1"
    using pos by (simp add: field_simps)
  have "0 < (hi - x) / inc" using pos lt by simp
  then have "0 < \<lceil>(hi - x) / inc\<rceil>" by linarith
  then show ?case by (simp add: eq)
qed

declare range_lt.simps [simp del]

function range_le :: "real \<Rightarrow> real \<Rightarrow> real \<Rightarrow> real list" where
  \<comment> \<open>The values of \<open>x\<close> in \<^verbatim>\<open>for (x = lo; x <= hi; x += inc)\<close>, for a positive step.\<close>
  "range_le x hi inc = (if x \<le> hi \<and> 0 < inc then x # range_le (x + inc) hi inc else [])"
  by pat_completeness auto
termination
proof (relation "measure (\<lambda>(x, hi, inc). nat (\<lfloor>(hi - x) / inc\<rfloor> + 1))", goal_cases)
  case 1
  show ?case by simp
next
  case (2 x hi inc)
  then have pos: "0 < inc" and le: "x \<le> hi" by auto
  have eq: "(hi - (x + inc)) / inc = (hi - x) / inc - 1"
    using pos by (simp add: field_simps)
  have "0 \<le> (hi - x) / inc" using pos le by simp
  then have "0 \<le> \<lfloor>(hi - x) / inc\<rfloor>" by simp
  then show ?case by (simp add: eq)
qed

declare range_le.simps [simp del]

definition for_lt :: "real \<Rightarrow> real \<Rightarrow> real \<Rightarrow> real list option" where
  \<comment> \<open>A loop that is entered with a step that is not positive never ends:
      \<^term>\<open>None\<close>.\<close>
  "for_lt lo hi inc = (if lo < hi \<and> inc \<le> 0 then None else Some (range_lt lo hi inc))"

definition for_le :: "real \<Rightarrow> real \<Rightarrow> real \<Rightarrow> real list option" where
  "for_le lo hi inc = (if lo \<le> hi \<and> inc \<le> 0 then None else Some (range_le lo hi inc))"

definition center_grasp_pose :: "GraspGenerator \<Rightarrow> Isometry3d \<Rightarrow> GraspData \<Rightarrow> Isometry3d" where
  \<comment> \<open>Lines 978 to 1022: the top pose after the two flips, moved by
      \<^verbatim>\<open>grasp_min_depth_\<close> along its Z axis.\<close>
  "center_grasp_pose gen cuboid_top_pose grasp_data =
     (let ideal_grasp = (ideal_grasp_pose gen)\<lparr>translation := translation cuboid_top_pose\<rparr>;
          cuboid_center_top_grasp = cuboid_top_pose;
          dot_prodZ = dot (mat_vec (rotation cuboid_center_top_grasp) UnitZ)
                        (mat_vec (rotation ideal_grasp) UnitZ);
          cuboid_center_top_grasp =
            (if dot_prodZ < 0 then rotate_pose cuboid_center_top_grasp (AngleAxisX pi)
             else cuboid_center_top_grasp);
          dot_prodX = dot (mat_vec (rotation cuboid_center_top_grasp) UnitX)
                        (mat_vec (rotation ideal_grasp) UnitX);
          cuboid_center_top_grasp =
            (if dot_prodX < 0 then rotate_pose cuboid_center_top_grasp (AngleAxisZ pi)
             else cuboid_center_top_grasp)
      in translate_local cuboid_center_top_grasp (0, 0, grasp_min_depth grasp_data))"

definition expand_poses ::
  "(Isometry3d \<Rightarrow> real \<Rightarrow> Isometry3d list) \<Rightarrow> real list \<Rightarrow> Isometry3d list \<Rightarrow> Isometry3d list" where
  \<comment> \<open>One expansion stage: for every pose present before the stage and every value of
      the range, the poses pushed for that value.\<close>
  "expand_poses f values grasp_poses =
     grasp_poses @ concat (map (\<lambda>pose. concat (map (f pose) values)) grasp_poses)"

definition xy_max :: "real \<Rightarrow> real \<Rightarrow> GraspData \<Rightarrow> real" where
  "xy_max depth width grasp_data =
     (if depth - active_suction_range_x grasp_data < width - active_suction_range_y grasp_data
      then depth / 2 - active_suction_range_x grasp_data / 2
      else width / 2 - active_suction_range_y grasp_data / 2)"

definition xy_increment :: "GraspData \<Rightarrow> real" where
  \<comment> \<open>Modelled from the spec: the source uses \<^verbatim>\<open>xy_increment\<close> without declaring it;
      the spec gives it the value of \<^verbatim>\<open>grasp_resolution\<close>, as \<^verbatim>\<open>x_increment\<close> and
      \<^verbatim>\<open>y_increment\<close> have in the source.\<close>
  "xy_increment grasp_data = grasp_resolution grasp_data"

definition xy_min :: "GraspData \<Rightarrow> real" where
  \<comment> \<open>Modelled from the spec: the source uses \<^verbatim>\<open>xy_min\<close> without declaring it; the
      spec gives it the value of \<^verbatim>\<open>grasp_resolution\<close>, as \<^verbatim>\<open>x_min\<close> and
      \<^verbatim>\<open>y_min\<close> have in the source.\<close>
  "xy_min grasp_data = xy_increment grasp_data"

definition suction_grasp_poses ::
  "GraspGenerator \<Rightarrow> Isometry3d \<Rightarrow> real \<Rightarrow> real \<Rightarrow> real \<Rightarrow> GraspData \<Rightarrow> Isometry3d list option" where
  \<comment> \<open>The vector \<^verbatim>\<open>grasp_poses\<close> of \<^verbatim>\<open>generateSuctionGrasps\<close> after the four
      expansion stages.\<close>
  "suction_grasp_poses gen cuboid_top_pose depth width height grasp_data =
     (let grasp_poses = [center_grasp_pose gen cuboid_top_pose grasp_data];
          z_increment = grasp_depth_resolution grasp_data;
          z_min = z_increment;
          z_max = grasp_max_depth grasp_data - grasp_min_depth grasp_data;
          yaw_increment = pi * (real_of_int (angle_resolution grasp_data) / 180);
          yaw_min = yaw_increment;
          yaw_max = 2 * pi
      in do {
           yaws \<leftarrow> for_lt yaw_min yaw_max yaw_increment;
           let grasp_poses =
             expand_poses (\<lambda>pose yaw. [rotate_pose pose (AngleAxisZ yaw)]) yaws grasp_poses;
           zs \<leftarrow> for_le z_min z_max z_increment;
           let grasp_poses =
             expand_poses (\<lambda>pose z. [translate_local pose (0, 0, z)]) zs grasp_poses;
           xys \<leftarrow> for_le (xy_min grasp_data) (xy_max depth width grasp_data)
                    (xy_increment grasp_data);
           let grasp_poses =
             expand_poses (\<lambda>pose y. [translate_local pose (0, y, 0),
                                       translate_local pose (0, - y, 0)]) xys grasp_poses;
           let grasp_poses =
             expand_poses (\<lambda>pose x. [translate_local pose (x, 0, 0),
                                       translate_local pose (- x, 0, 0)]) xys grasp_poses;
           Some grasp_poses
         })"

definition generateSuctionGrasps ::
  "External \<Rightarrow> GraspGenerator \<Rightarrow> Isometry3d \<Rightarrow> real \<Rightarrow> real \<Rightarrow> real \<Rightarrow> GraspData
     \<Rightarrow> GraspCandidate list \<Rightarrow> GraspCandidateConfig
     \<Rightarrow> (GraspGenerator \<times> GraspCandidate list) option" where
  \<comment> \<open>\<^verbatim>\<open>grasp_candidates.clear()\<close> comes first: the candidates are collected from
      the empty vector. \<^verbatim>\<open>setIdealGraspPose\<close> stores the ideal pose moved to the top
      pose in the generator.\<close>
  "generateSuctionGrasps ext gen cuboid_top_pose depth width height grasp_data
       grasp_candidates config =
     (let grasp_candidates = [];
          ideal_grasp = (ideal_grasp_pose gen)\<lparr>translation := translation cuboid_top_pose\<rparr>;
          gen' = gen\<lparr>ideal_grasp_pose := ideal_grasp\<rparr>
      in do {
           grasp_poses \<leftarrow> suction_grasp_poses gen cuboid_top_pose depth width height grasp_data;
           Some (gen',
                 add_all_grasps ext gen' grasp_data cuboid_top_pose (depth, width, height) 0
                   grasp_poses grasp_candidates)
         })"

section \<open>Example inputs\<close>

definition setGraspWidth_interpolated :: "GraspData \<Rightarrow> real \<Rightarrow> real \<Rightarrow> JointTrajectory option" where
  \<comment> \<open>Modelled from the spec: \<^verbatim>\<open>GraspData::setGraspWidth\<close> is declared in grasp\_data.h
      and defined outside the sources. The finger separation is taken \<open>percent_open\<close> of
      the way from the minimum opening required (object width plus padding, at least the
      minimum finger width) to the maximum finger width. A separation outside the
      achievable range, or one that does not reach the minimum opening required, is
      refused. The posture is the separation.\<close>
  "setGraspWidth_interpolated grasp_data percent_open min_width =
     (if percent_open < 0 \<or> percent_open > 1 then None
      else
        (let lowest = max min_width (min_finger_width grasp_data);
             distance_btw_fingers =
               lowest + (max_finger_width grasp_data - lowest) * percent_open
         in if distance_btw_fingers > max_finger_width grasp_data \<or>
               distance_btw_fingers < min_finger_width grasp_data \<or>
               distance_btw_fingers < min_width
            then None
            else Some [distance_btw_fingers]))"

definition example_external :: External where
  \<comment> \<open>Sub-scores that are constants in \<open>[0, 1]\<close>; the width score is the opening.\<close>
  "example_external =
     \<lparr>scoreGraspWidth = (\<lambda>grasp_data percent_open. percent_open),
      scoreRotationsFromDesired = (\<lambda>grasp_pose ideal. (1 / 2, 1 / 2, 1)),
      scoreDistanceToPalm = (\<lambda>grasp_pose grasp_data object_pose lo hi. 1 / 2),
      scoreGraspTranslationRange = (\<lambda>grasp_pose lo hi. (1 / 4, 1 / 2, 0)),
      scoreGraspTranslationIdeal = (\<lambda>grasp_pose ideal. (1 / 2, 1 / 2, 1 / 2)),
      scoreGraspOverhang = (\<lambda>grasp_pose grasp_data cuboid_pose object_size. (1, 1 / 2)),
      setGraspWidth = setGraspWidth_interpolated\<rparr>"

definition example_weights :: GraspScoreWeights where
  "example_weights =
     \<lparr>orientation_x_score_weight = 1, orientation_y_score_weight = 1,
      orientation_z_score_weight = 1, translation_x_score_weight = 1,
      translation_y_score_weight = 1, translation_z_score_weight = 1,
      depth_score_weight = 1, width_score_weight = 1, overhang_score_weight = 1\<rparr>"

definition example_generator :: GraspGenerator where
  "example_generator =
     \<lparr>ideal_grasp_pose = Identity, grasp_score_weights = example_weights,
      min_grasp_distance = 0, max_grasp_distance = 0,
      min_translations = (0, 0, 0), max_translations = (0, 0, 0)\<rparr>"

definition example_finger_data :: GraspData where
  "example_finger_data =
     \<lparr>end_effector_type = FINGER,
      grasp_pose_to_eef_pose = Identity\<lparr>translation := (0, 0, - 0.1)\<rparr>,
      pre_grasp_posture = [0.2],
      grasp_posture = [0],
      angle_resolution = 40,
      grasp_resolution = 0.25,
      grasp_depth_resolution = 0.1,
      grasp_min_depth = 0.01,
      grasp_max_depth = 0.06,
      approach_distance_desired = 0.1,
      retreat_distance_desired = 0.1,
      lift_distance_desired = 0.02,
      grasp_padding_on_approach = 0.005,
      max_grasp_width = 1,
      max_finger_width = 1,
      min_finger_width = 0.01,
      gripper_finger_width = 0.1,
      active_suction_range_x = 0,
      active_suction_range_y = 0\<rparr>"

definition example_suction_data :: GraspData where
  "example_suction_data =
     \<lparr>end_effector_type = SUCTION,
      grasp_pose_to_eef_pose = Identity\<lparr>translation := (0, 0, - 0.1)\<rparr>,
      pre_grasp_posture = [],
      grasp_posture = [],
      angle_resolution = 360,
      grasp_resolution = 0.01,
      grasp_depth_resolution = 0.01,
      grasp_min_depth = 0.01,
      grasp_max_depth = 0.01,
      approach_distance_desired = 0.1,
      retreat_distance_desired = 0.1,
      lift_distance_desired = 0.02,
      grasp_padding_on_approach = 0,
      max_grasp_width = 0,
      max_finger_width = 0,
      min_finger_width = 0,
      gripper_finger_width = 0,
      active_suction_range_x = 0.1,
      active_suction_range_y = 0.1\<rparr>"

definition example_config :: GraspCandidateConfig where
  "example_config =
     \<lparr>enable_corner_grasps = False, enable_face_grasps = True,
      enable_variable_angle_grasps = False, enable_edge_grasps = False,
      generate_x_axis_grasps = False, generate_y_axis_grasps = False,
      generate_z_axis_grasps = True\<rparr>"

definition example_candidate :: GraspCandidate where
  \<comment> \<open>An entry left in the output collection by an earlier call.\<close>
  "example_candidate =
     \<lparr>c_grasp =
        \<lparr>g_grasp_pose = Identity, g_pre_grasp_posture = [], g_grasp_posture = [],
         g_grasp_quality = Some 1, g_pre_grasp_approach_desired_distance = 0,
         g_post_grasp_retreat_desired_distance = 0\<rparr>,
      c_grasp_data = example_finger_data, c_cuboid_pose = Identity\<rparr>"

section \<open>Properties\<close>

text \<open>
  C2. \<^verbatim>\<open>intersectionHelper\<close> returns true exactly when \<open>t\<close> lies in \<open>[0, 1]\<close> and the
  interpolated point \<open>(u1 + t * (u2 - u1), v1 + t * (v2 - v1))\<close> has its first coordinate
  in \<open>[-a/2, a/2]\<close> and its second in \<open>[-b/2, b/2]\<close>; when it returns true, the outputs
  \<open>u\<close> and \<open>v\<close> are those interpolated coordinates.
\<close>

theorem intersectionHelper_iff:
  "(fst (intersectionHelper t u1 v1 u2 v2 a b u v) \<longleftrightarrow>
      0 \<le> t \<and> t \<le> 1 \<and>
      - a / 2 \<le> u1 + t * (u2 - u1) \<and> u1 + t * (u2 - u1) \<le> a / 2 \<and>
      - b / 2 \<le> v1 + t * (v2 - v1) \<and> v1 + t * (v2 - v1) \<le> b / 2) \<and>
   (fst (intersectionHelper t u1 v1 u2 v2 a b u v) \<longrightarrow>
      snd (intersectionHelper t u1 v1 u2 v2 a b u v) =
        (u1 + t * (u2 - u1), v1 + t * (v2 - v1)))"
  by (auto simp: intersectionHelper_def Let_def)

theorem intersectionHelper_iff_witness:
  "fst (intersectionHelper (1 / 2) 0 0 2 1 4 4 7 7) \<and>
   snd (intersectionHelper (1 / 2) 0 0 2 1 4 4 7 7) = (1, 1 / 2)"
  using intersectionHelper_iff [of "1 / 2" 0 0 2 1 4 4 7 7] by simp

subsection \<open>Weighted average of the sub-scores\<close>

lemma accumulate_scores_sum:
  "length ws = length ss \<Longrightarrow>
   accumulate_scores ws ss (t, h) = (t + sum_list (map2 (*) ws ss), h + sum_list ws)"
  by (induction ws ss arbitrary: t h rule: list_induct2) simp_all

lemma weighted_products_bounds:
  "length ws = length ss \<Longrightarrow> \<forall>w\<in>set ws. (0::real) \<le> w \<Longrightarrow> \<forall>s\<in>set ss. 0 \<le> s \<and> s \<le> 1 \<Longrightarrow>
   0 \<le> sum_list (map2 (*) ws ss) \<and> sum_list (map2 (*) ws ss) \<le> sum_list ws"
proof (induction ws ss rule: list_induct2)
  case Nil
  show ?case by simp
next
  case (Cons w ws s ss)
  then have ih: "0 \<le> sum_list (map2 (*) ws ss) \<and> sum_list (map2 (*) ws ss) \<le> sum_list ws"
    by simp
  have w: "0 \<le> w" and s: "0 \<le> s" "s \<le> 1" using Cons.prems by simp_all
  have "0 \<le> w * s" using w s by simp
  moreover have "w * s \<le> w" using w s by (simp add: mult_left_le)
  ultimately show ?case using ih by simp
qed

lemma weights_sum_pos:
  "\<forall>w\<in>set ws. (0::real) \<le> w \<Longrightarrow> \<exists>w\<in>set ws. w \<noteq> 0 \<Longrightarrow> 0 < sum_list ws"
proof (induction ws)
  case Nil
  then show ?case by simp
next
  case (Cons w ws)
  have nn: "0 \<le> sum_list ws" using Cons.prems(1) by (simp add: sum_list_nonneg)
  show ?case
  proof (cases "w = 0")
    case True
    then show ?thesis using Cons by simp
  next
    case False
    then have "0 < w" using Cons.prems(1) by simp
    then show ?thesis using nn by simp
  qed
qed

lemma weighted_total_unit:
  assumes len: "length ws = length ss"
    and w: "\<forall>w\<in>set ws. 0 \<le> w"
    and s: "\<forall>s\<in>set ss. 0 \<le> s \<and> s \<le> 1"
    and nz: "\<exists>w\<in>set ws. w \<noteq> 0"
  shows "\<exists>q. weighted_total ws ss = Some q \<and>
           q = sum_list (map2 (*) ws ss) / sum_list ws \<and> 0 \<le> q \<and> q \<le> 1"
proof -
  have pos: "0 < sum_list ws" using w nz by (rule weights_sum_pos)
  have b: "0 \<le> sum_list (map2 (*) ws ss) \<and> sum_list (map2 (*) ws ss) \<le> sum_list ws"
    using len w s by (rule weighted_products_bounds)
  have "weighted_total ws ss = Some (sum_list (map2 (*) ws ss) / sum_list ws)"
    using pos by (simp add: weighted_total_def accumulate_scores_sum [OF len])
  moreover have "0 \<le> sum_list (map2 (*) ws ss) / sum_list ws" using pos b by simp
  moreover have "sum_list (map2 (*) ws ss) / sum_list ws \<le> 1" using pos b by simp
  ultimately show ?thesis by simp
qed

lemma finger_lengths:
  "length (finger_weights gen) = length (finger_scores ext gen p gd op po)"
  by (simp add: finger_weights_def finger_scores_def Let_def)

lemma suction_lengths:
  "length (suction_weights gen) = length (suction_scores ext gen p2 gd2 cp os)"
  by (simp add: suction_weights_def suction_scores_def Let_def)

lemma addGrasp_qualities:
  "\<exists>new. snd (addGrasp ext gen p gd cands op os ow) = cands @ new \<and>
     (\<forall>c\<in>set new.
        g_grasp_quality (c_grasp c) \<in>
          (case end_effector_type gd of
             FINGER \<Rightarrow> {scoreFingerGrasp ext gen p gd op 1,
                        scoreFingerGrasp ext gen p gd op (1 / 2),
                        scoreFingerGrasp ext gen p gd op 0}
           | SUCTION \<Rightarrow> {scoreSuctionGrasp ext gen p gd op os}))"
proof (cases "end_effector_type gd")
  case SUCTION
  then show ?thesis by (simp add: addGrasp_def)
next
  case FINGER
  let ?m = "ow + 2 * grasp_padding_on_approach gd"
  show ?thesis
  proof (cases "setGraspWidth ext gd 1 ?m")
    case None
    then show ?thesis using FINGER by (simp add: addGrasp_def Let_def)
  next
    case s1: (Some p1)
    show ?thesis
    proof (cases "setGraspWidth ext gd (1 / 2) ?m")
      case None
      then show ?thesis using FINGER s1 by (simp add: addGrasp_def Let_def)
    next
      case s2: (Some p2)
      show ?thesis
      proof (cases "setGraspWidth ext gd 0 ?m")
        case None
        then show ?thesis using FINGER s1 s2 by (simp add: addGrasp_def Let_def)
      next
        case (Some p3)
        then show ?thesis using FINGER s1 s2 by (simp add: addGrasp_def Let_def)
      qed
    qed
  qed
qed

lemma add_all_grasps_qualities:
  "\<exists>new. add_all_grasps ext gen gd op os ow poses cands = cands @ new \<and>
     (\<forall>c\<in>set new. \<exists>p\<in>set poses.
        g_grasp_quality (c_grasp c) \<in>
          (case end_effector_type gd of
              FINGER \<Rightarrow> {scoreFingerGrasp ext gen p gd op 1,
                         scoreFingerGrasp ext gen p gd op (1 / 2),
                         scoreFingerGrasp ext gen p gd op 0}
            | SUCTION \<Rightarrow> {scoreSuctionGrasp ext gen p gd op os}))"
proof (induction poses arbitrary: cands)
  case Nil
  show ?case by (simp add: add_all_grasps_def)
next
  case (Cons p ps)
  from addGrasp_qualities [of ext gen p gd cands op os ow]
  obtain new1 where n1: "snd (addGrasp ext gen p gd cands op os ow) = cands @ new1"
    and q1: "\<forall>c\<in>set new1. g_grasp_quality (c_grasp c) \<in>
          (case end_effector_type gd of
              FINGER \<Rightarrow> {scoreFingerGrasp ext gen p gd op 1,
                         scoreFingerGrasp ext gen p gd op (1 / 2),
                         scoreFingerGrasp ext gen p gd op 0}
            | SUCTION \<Rightarrow> {scoreSuctionGrasp ext gen p gd op os})"
    by blast
  from Cons.IH [of "cands @ new1"]
  obtain new2 where n2: "add_all_grasps ext gen gd op os ow ps (cands @ new1) =
      (cands @ new1) @ new2"
    and q2: "\<forall>c\<in>set new2. \<exists>p\<in>set ps. g_grasp_quality (c_grasp c) \<in>
          (case end_effector_type gd of
              FINGER \<Rightarrow> {scoreFingerGrasp ext gen p gd op 1,
                         scoreFingerGrasp ext gen p gd op (1 / 2),
                         scoreFingerGrasp ext gen p gd op 0}
            | SUCTION \<Rightarrow> {scoreSuctionGrasp ext gen p gd op os})"
    by blast
  have "add_all_grasps ext gen gd op os ow (p # ps) cands = cands @ (new1 @ new2)"
    using n1 n2 by (simp add: add_all_grasps_def)
  moreover have "\<forall>c\<in>set (new1 @ new2). \<exists>p\<in>set (p # ps).
      g_grasp_quality (c_grasp c) \<in>
          (case end_effector_type gd of
              FINGER \<Rightarrow> {scoreFingerGrasp ext gen p gd op 1,
                         scoreFingerGrasp ext gen p gd op (1 / 2),
                         scoreFingerGrasp ext gen p gd op 0}
            | SUCTION \<Rightarrow> {scoreSuctionGrasp ext gen p gd op os})"
  proof
    fix c
    assume "c \<in> set (new1 @ new2)"
    then consider "c \<in> set new1" | "c \<in> set new2" by auto
    then show "\<exists>p\<in>set (p # ps). g_grasp_quality (c_grasp c) \<in>
          (case end_effector_type gd of
              FINGER \<Rightarrow> {scoreFingerGrasp ext gen p gd op 1,
                         scoreFingerGrasp ext gen p gd op (1 / 2),
                         scoreFingerGrasp ext gen p gd op 0}
            | SUCTION \<Rightarrow> {scoreSuctionGrasp ext gen p gd op os})"
    proof cases
      case 1
      with q1 have "g_grasp_quality (c_grasp c) \<in>
          (case end_effector_type gd of
              FINGER \<Rightarrow> {scoreFingerGrasp ext gen p gd op 1,
                         scoreFingerGrasp ext gen p gd op (1 / 2),
                         scoreFingerGrasp ext gen p gd op 0}
            | SUCTION \<Rightarrow> {scoreSuctionGrasp ext gen p gd op os})"
        by (rule bspec)
      then show ?thesis by (rule bexI) simp
    next
      case 2
      with q2 obtain p' where "p' \<in> set ps" and "g_grasp_quality (c_grasp c) \<in>
          (case end_effector_type gd of
              FINGER \<Rightarrow> {scoreFingerGrasp ext gen p' gd op 1,
                         scoreFingerGrasp ext gen p' gd op (1 / 2),
                         scoreFingerGrasp ext gen p' gd op 0}
            | SUCTION \<Rightarrow> {scoreSuctionGrasp ext gen p' gd op os})"
        by blast
      then show ?thesis by (intro bexI [of _ p']) simp_all
    qed
  qed
  ultimately show ?case by blast
qed

lemma scoreFingerGrasp_average:
  assumes W: "grasp_score_weights gen =
      \<lparr>orientation_x_score_weight = wox, orientation_y_score_weight = woy,
        orientation_z_score_weight = woz, translation_x_score_weight = wtx,
        translation_y_score_weight = wty, translation_z_score_weight = wtz,
        depth_score_weight = wd, width_score_weight = ww, overhang_score_weight = wov\<rparr>"
    and h: "scoreGraspWidth ext gd po = sw \<and>
    scoreRotationsFromDesired ext p (ideal_grasp_pose gen) = (ox, oy, oz) \<and>
    scoreDistanceToPalm ext p gd op (min_grasp_distance gen) (max_grasp_distance gen) = sd \<and>
    scoreGraspTranslationRange ext p (min_translations gen) (max_translations gen) =
      (tx, ty, tz) \<and>
    0 \<le> sw \<and> sw \<le> 1 \<and> 0 \<le> ox \<and> ox \<le> 1 \<and> 0 \<le> oy \<and> oy \<le> 1 \<and> 0 \<le> oz \<and> oz \<le> 1 \<and>
    0 \<le> sd \<and> sd \<le> 1 \<and> 0 \<le> tx \<and> tx \<le> 1 \<and> 0 \<le> ty \<and> ty \<le> 1 \<and> 0 \<le> tz \<and> tz \<le> 1 \<and>
    0 \<le> ww \<and> 0 \<le> wox \<and> 0 \<le> woy \<and> 0 \<le> woz \<and> 0 \<le> wd \<and> 0 \<le> wtx \<and> 0 \<le> wty \<and> 0 \<le> wtz \<and>
    \<not> (ww = 0 \<and> wox = 0 \<and> woy = 0 \<and> woz = 0 \<and> wd = 0 \<and> wtx = 0 \<and> wty = 0 \<and> wtz = 0)"
  shows "scoreFingerGrasp ext gen p gd op po =
        Some ((ww * sw + wox * ox + woy * oy + woz * oz + wd * sd +
               wtx * (1 - tx) + wty * (1 - ty) + wtz * (1 - tz)) /
              (ww + wox + woy + woz + wd + wtx + wty + wtz)) \<and>
      0 \<le> (ww * sw + wox * ox + woy * oy + woz * oz + wd * sd +
               wtx * (1 - tx) + wty * (1 - ty) + wtz * (1 - tz)) /
              (ww + wox + woy + woz + wd + wtx + wty + wtz) \<and>
      (ww * sw + wox * ox + woy * oy + woz * oz + wd * sd +
               wtx * (1 - tx) + wty * (1 - ty) + wtz * (1 - tz)) /
              (ww + wox + woy + woz + wd + wtx + wty + wtz) \<le> 1"
proof -
  have fw: "finger_weights gen = [ww, wox, woy, woz, wd, wtx, wty, wtz]"
    by (simp add: finger_weights_def W)
  have fs: "finger_scores ext gen p gd op po =
      [sw, ox, oy, oz, sd, 1 - tx, 1 - ty, 1 - tz]"
    using h by (simp add: finger_scores_def vadd_def smul_def vx_def vy_def vz_def)
  have "\<exists>q. weighted_total [ww, wox, woy, woz, wd, wtx, wty, wtz]
             [sw, ox, oy, oz, sd, 1 - tx, 1 - ty, 1 - tz] = Some q \<and>
           q = sum_list (map2 (*) [ww, wox, woy, woz, wd, wtx, wty, wtz]
                           [sw, ox, oy, oz, sd, 1 - tx, 1 - ty, 1 - tz]) /
               sum_list [ww, wox, woy, woz, wd, wtx, wty, wtz] \<and> 0 \<le> q \<and> q \<le> 1"
    by (rule weighted_total_unit) (use h in auto)
  then show ?thesis
    unfolding scoreFingerGrasp_def fw fs by (simp add: add.assoc)
qed

lemma scoreSuctionGrasp_average:
  assumes W: "grasp_score_weights gen =
      \<lparr>orientation_x_score_weight = wox, orientation_y_score_weight = woy,
        orientation_z_score_weight = woz, translation_x_score_weight = wtx,
        translation_y_score_weight = wty, translation_z_score_weight = wtz,
        depth_score_weight = wd, width_score_weight = ww, overhang_score_weight = wov\<rparr>"
    and h: "scoreRotationsFromDesired ext p2
      ((ideal_grasp_pose gen)\<lparr>translation := translation cp\<rparr>) = (rx, ry, rz) \<and>
    scoreGraspTranslationIdeal ext p2
      ((ideal_grasp_pose gen)\<lparr>translation := translation cp\<rparr>) = (ux, uy, uz) \<and>
    scoreGraspOverhang ext p2 gd2 cp os = (hx, hy) \<and>
    0 \<le> rx \<and> rx \<le> 1 \<and> 0 \<le> ry \<and> ry \<le> 1 \<and> 0 \<le> rz \<and> rz \<le> 1 \<and>
    0 \<le> ux \<and> ux \<le> 1 \<and> 0 \<le> uy \<and> uy \<le> 1 \<and> 0 \<le> uz \<and> uz \<le> 1 \<and>
    0 \<le> hx \<and> hx \<le> 1 \<and> 0 \<le> hy \<and> hy \<le> 1 \<and>
    0 \<le> wox \<and> 0 \<le> woy \<and> 0 \<le> woz \<and> 0 \<le> wtx \<and> 0 \<le> wty \<and> 0 \<le> wtz \<and> 0 \<le> wov \<and>
    \<not> (wox = 0 \<and> woy = 0 \<and> woz = 0 \<and> wtx = 0 \<and> wty = 0 \<and> wtz = 0 \<and> wov = 0)"
  shows "scoreSuctionGrasp ext gen p2 gd2 cp os =
        Some ((wox * rx + woy * ry + woz * rz + wtx * ux + wty * uy + wtz * uz +
               wov * hx + wov * hy) /
              (wox + woy + woz + wtx + wty + wtz + wov + wov)) \<and>
      0 \<le> (wox * rx + woy * ry + woz * rz + wtx * ux + wty * uy + wtz * uz +
               wov * hx + wov * hy) /
              (wox + woy + woz + wtx + wty + wtz + wov + wov) \<and>
      (wox * rx + woy * ry + woz * rz + wtx * ux + wty * uy + wtz * uz +
               wov * hx + wov * hy) /
              (wox + woy + woz + wtx + wty + wtz + wov + wov) \<le> 1"
proof -
  have sw': "suction_weights gen = [wox, woy, woz, wtx, wty, wtz, wov, wov]"
    by (simp add: suction_weights_def W)
  have ss: "suction_scores ext gen p2 gd2 cp os = [rx, ry, rz, ux, uy, uz, hx, hy]"
    using h by (simp add: suction_scores_def vx_def vy_def vz_def)
  have "\<exists>q. weighted_total [wox, woy, woz, wtx, wty, wtz, wov, wov]
             [rx, ry, rz, ux, uy, uz, hx, hy] = Some q \<and>
           q = sum_list (map2 (*) [wox, woy, woz, wtx, wty, wtz, wov, wov]
                           [rx, ry, rz, ux, uy, uz, hx, hy]) /
               sum_list [wox, woy, woz, wtx, wty, wtz, wov, wov] \<and> 0 \<le> q \<and> q \<le> 1"
    by (rule weighted_total_unit) (use h in auto)
  then show ?thesis
    unfolding scoreSuctionGrasp_def sw' ss by (simp add: add.assoc)
qed

lemma scoreFingerGrasp_unit:
  assumes W: "grasp_score_weights gen =
      \<lparr>orientation_x_score_weight = wox, orientation_y_score_weight = woy,
        orientation_z_score_weight = woz, translation_x_score_weight = wtx,
        translation_y_score_weight = wty, translation_z_score_weight = wtz,
        depth_score_weight = wd, width_score_weight = ww, overhang_score_weight = wov\<rparr>"
    and e: "(\<forall>g po. 0 \<le> po \<and> po \<le> 1 \<longrightarrow>
       0 \<le> scoreGraspWidth ext g po \<and> scoreGraspWidth ext g po \<le> 1) \<and>
    (\<forall>q i. \<exists>x y z. scoreRotationsFromDesired ext q i = (x, y, z) \<and>
       0 \<le> x \<and> x \<le> 1 \<and> 0 \<le> y \<and> y \<le> 1 \<and> 0 \<le> z \<and> z \<le> 1) \<and>
    (\<forall>q g b lo hi. 0 \<le> scoreDistanceToPalm ext q g b lo hi \<and>
       scoreDistanceToPalm ext q g b lo hi \<le> 1) \<and>
    (\<forall>q lo hi. \<exists>x y z. scoreGraspTranslationRange ext q lo hi = (x, y, z) \<and>
       0 \<le> x \<and> x \<le> 1 \<and> 0 \<le> y \<and> y \<le> 1 \<and> 0 \<le> z \<and> z \<le> 1)"
    and w: "0 \<le> ww \<and> 0 \<le> wox \<and> 0 \<le> woy \<and> 0 \<le> woz \<and> 0 \<le> wd \<and> 0 \<le> wtx \<and> 0 \<le> wty \<and> 0 \<le> wtz \<and>
    \<not> (ww = 0 \<and> wox = 0 \<and> woy = 0 \<and> woz = 0 \<and> wd = 0 \<and> wtx = 0 \<and> wty = 0 \<and> wtz = 0)"
    and po: "0 \<le> po \<and> po \<le> 1"
  shows "\<exists>q. scoreFingerGrasp ext gen p gd op po = Some q \<and> 0 \<le> q \<and> q \<le> 1"
proof -
  from e po have "0 \<le> scoreGraspWidth ext gd po \<and> scoreGraspWidth ext gd po \<le> 1" by blast
  moreover from e obtain ox oy oz where
    "scoreRotationsFromDesired ext p (ideal_grasp_pose gen) = (ox, oy, oz) \<and>
     0 \<le> ox \<and> ox \<le> 1 \<and> 0 \<le> oy \<and> oy \<le> 1 \<and> 0 \<le> oz \<and> oz \<le> 1"
    by blast
  moreover from e have
    "0 \<le> scoreDistanceToPalm ext p gd op (min_grasp_distance gen) (max_grasp_distance gen) \<and>
     scoreDistanceToPalm ext p gd op (min_grasp_distance gen) (max_grasp_distance gen) \<le> 1"
    by blast
  moreover from e obtain tx ty tz where
    "scoreGraspTranslationRange ext p (min_translations gen) (max_translations gen) =
       (tx, ty, tz) \<and> 0 \<le> tx \<and> tx \<le> 1 \<and> 0 \<le> ty \<and> ty \<le> 1 \<and> 0 \<le> tz \<and> tz \<le> 1"
    by blast
  ultimately have "scoreGraspWidth ext gd po = scoreGraspWidth ext gd po \<and>
    scoreRotationsFromDesired ext p (ideal_grasp_pose gen) = (ox, oy, oz) \<and>
    scoreDistanceToPalm ext p gd op (min_grasp_distance gen) (max_grasp_distance gen) =
      scoreDistanceToPalm ext p gd op (min_grasp_distance gen) (max_grasp_distance gen) \<and>
    scoreGraspTranslationRange ext p (min_translations gen) (max_translations gen) =
      (tx, ty, tz) \<and>
    0 \<le> scoreGraspWidth ext gd po \<and> scoreGraspWidth ext gd po \<le> 1 \<and>
    0 \<le> ox \<and> ox \<le> 1 \<and> 0 \<le> oy \<and> oy \<le> 1 \<and> 0 \<le> oz \<and> oz \<le> 1 \<and>
    0 \<le> scoreDistanceToPalm ext p gd op (min_grasp_distance gen) (max_grasp_distance gen) \<and>
    scoreDistanceToPalm ext p gd op (min_grasp_distance gen) (max_grasp_distance gen) \<le> 1 \<and>
    0 \<le> tx \<and> tx \<le> 1 \<and> 0 \<le> ty \<and> ty \<le> 1 \<and> 0 \<le> tz \<and> tz \<le> 1 \<and>
    0 \<le> ww \<and> 0 \<le> wox \<and> 0 \<le> woy \<and> 0 \<le> woz \<and> 0 \<le> wd \<and> 0 \<le> wtx \<and> 0 \<le> wty \<and> 0 \<le> wtz \<and>
    \<not> (ww = 0 \<and> wox = 0 \<and> woy = 0 \<and> woz = 0 \<and> wd = 0 \<and> wtx = 0 \<and> wty = 0 \<and> wtz = 0)"
    using w by simp
  from scoreFingerGrasp_average [OF W this] show ?thesis by blast
qed

lemma scoreSuctionGrasp_unit:
  assumes W: "grasp_score_weights gen =
      \<lparr>orientation_x_score_weight = wox, orientation_y_score_weight = woy,
        orientation_z_score_weight = woz, translation_x_score_weight = wtx,
        translation_y_score_weight = wty, translation_z_score_weight = wtz,
        depth_score_weight = wd, width_score_weight = ww, overhang_score_weight = wov\<rparr>"
    and e: "(\<forall>q i. \<exists>x y z. scoreRotationsFromDesired ext q i = (x, y, z) \<and>
       0 \<le> x \<and> x \<le> 1 \<and> 0 \<le> y \<and> y \<le> 1 \<and> 0 \<le> z \<and> z \<le> 1) \<and>
    (\<forall>q i. \<exists>x y z. scoreGraspTranslationIdeal ext q i = (x, y, z) \<and>
       0 \<le> x \<and> x \<le> 1 \<and> 0 \<le> y \<and> y \<le> 1 \<and> 0 \<le> z \<and> z \<le> 1) \<and>
    (\<forall>q g b sz. \<exists>x y. scoreGraspOverhang ext q g b sz = (x, y) \<and>
       0 \<le> x \<and> x \<le> 1 \<and> 0 \<le> y \<and> y \<le> 1)"
    and w: "0 \<le> wox \<and> 0 \<le> woy \<and> 0 \<le> woz \<and> 0 \<le> wtx \<and> 0 \<le> wty \<and> 0 \<le> wtz \<and> 0 \<le> wov \<and>
    \<not> (wox = 0 \<and> woy = 0 \<and> woz = 0 \<and> wtx = 0 \<and> wty = 0 \<and> wtz = 0 \<and> wov = 0)"
  shows "\<exists>q. scoreSuctionGrasp ext gen p2 gd2 cp os = Some q \<and> 0 \<le> q \<and> q \<le> 1"
proof -
  from e obtain rx ry rz where
    "scoreRotationsFromDesired ext p2
       ((ideal_grasp_pose gen)\<lparr>translation := translation cp\<rparr>) = (rx, ry, rz) \<and>
     0 \<le> rx \<and> rx \<le> 1 \<and> 0 \<le> ry \<and> ry \<le> 1 \<and> 0 \<le> rz \<and> rz \<le> 1"
    by blast
  moreover from e obtain ux uy uz where
    "scoreGraspTranslationIdeal ext p2
       ((ideal_grasp_pose gen)\<lparr>translation := translation cp\<rparr>) = (ux, uy, uz) \<and>
     0 \<le> ux \<and> ux \<le> 1 \<and> 0 \<le> uy \<and> uy \<le> 1 \<and> 0 \<le> uz \<and> uz \<le> 1"
    by blast
  moreover from e obtain hx hy where
    "scoreGraspOverhang ext p2 gd2 cp os = (hx, hy) \<and>
     0 \<le> hx \<and> hx \<le> 1 \<and> 0 \<le> hy \<and> hy \<le> 1"
    by blast
  ultimately have "scoreRotationsFromDesired ext p2
      ((ideal_grasp_pose gen)\<lparr>translation := translation cp\<rparr>) = (rx, ry, rz) \<and>
    scoreGraspTranslationIdeal ext p2
      ((ideal_grasp_pose gen)\<lparr>translation := translation cp\<rparr>) = (ux, uy, uz) \<and>
    scoreGraspOverhang ext p2 gd2 cp os = (hx, hy) \<and>
    0 \<le> rx \<and> rx \<le> 1 \<and> 0 \<le> ry \<and> ry \<le> 1 \<and> 0 \<le> rz \<and> rz \<le> 1 \<and>
    0 \<le> ux \<and> ux \<le> 1 \<and> 0 \<le> uy \<and> uy \<le> 1 \<and> 0 \<le> uz \<and> uz \<le> 1 \<and>
    0 \<le> hx \<and> hx \<le> 1 \<and> 0 \<le> hy \<and> hy \<le> 1 \<and>
    0 \<le> wox \<and> 0 \<le> woy \<and> 0 \<le> woz \<and> 0 \<le> wtx \<and> 0 \<le> wty \<and> 0 \<le> wtz \<and> 0 \<le> wov \<and>
    \<not> (wox = 0 \<and> woy = 0 \<and> woz = 0 \<and> wtx = 0 \<and> wty = 0 \<and> wtz = 0 \<and> wov = 0)"
    using w by simp
  from scoreSuctionGrasp_average [OF W this] show ?thesis by blast
qed

text \<open>
  C5, as the code has it. \<^verbatim>\<open>scoreFingerGrasp\<close> returns the average of the width score,
  the three orientation scores, the distance score and the three translation scores, the
  latter as \<open>1 - x\<close>, weighted by the width, orientation, depth and translation weights.
  \<^verbatim>\<open>scoreSuctionGrasp\<close> returns the average of the three orientation scores, the three
  translation scores and the two overhang scores, weighted by the orientation and
  translation weights and twice by the overhang weight. When each of these sub-scores is
  in \<open>[0, 1]\<close> and the weights that the function uses are non-negative and not all zero,
  the result is a number in \<open>[0, 1]\<close>. A weight that the function does not use (overhang
  for finger grasps, width and depth for suction grasps) does not count. Every candidate
  that \<^verbatim>\<open>addGrasp\<close> appends carries the result of the scoring function of its profile;
  so, when the scorer keeps its sub-scores in \<open>[0, 1]\<close> and the weights used for the
  profile are non-negative and not all zero, every candidate that the loop over the poses
  appends has a quality in \<open>[0, 1]\<close>.
\<close>

theorem score_is_weighted_average:
  "grasp_score_weights gen =
      \<lparr>orientation_x_score_weight = wox, orientation_y_score_weight = woy,
        orientation_z_score_weight = woz, translation_x_score_weight = wtx,
        translation_y_score_weight = wty, translation_z_score_weight = wtz,
        depth_score_weight = wd, width_score_weight = ww, overhang_score_weight = wov\<rparr> \<Longrightarrow>
   (scoreGraspWidth ext gd po = sw \<and>
    scoreRotationsFromDesired ext p (ideal_grasp_pose gen) = (ox, oy, oz) \<and>
    scoreDistanceToPalm ext p gd op (min_grasp_distance gen) (max_grasp_distance gen) = sd \<and>
    scoreGraspTranslationRange ext p (min_translations gen) (max_translations gen) =
      (tx, ty, tz) \<and>
    0 \<le> sw \<and> sw \<le> 1 \<and> 0 \<le> ox \<and> ox \<le> 1 \<and> 0 \<le> oy \<and> oy \<le> 1 \<and> 0 \<le> oz \<and> oz \<le> 1 \<and>
    0 \<le> sd \<and> sd \<le> 1 \<and> 0 \<le> tx \<and> tx \<le> 1 \<and> 0 \<le> ty \<and> ty \<le> 1 \<and> 0 \<le> tz \<and> tz \<le> 1 \<and>
    0 \<le> ww \<and> 0 \<le> wox \<and> 0 \<le> woy \<and> 0 \<le> woz \<and> 0 \<le> wd \<and> 0 \<le> wtx \<and> 0 \<le> wty \<and> 0 \<le> wtz \<and>
    \<not> (ww = 0 \<and> wox = 0 \<and> woy = 0 \<and> woz = 0 \<and> wd = 0 \<and> wtx = 0 \<and> wty = 0 \<and> wtz = 0) \<longrightarrow>
      scoreFingerGrasp ext gen p gd op po =
        Some ((ww * sw + wox * ox + woy * oy + woz * oz + wd * sd +
               wtx * (1 - tx) + wty * (1 - ty) + wtz * (1 - tz)) /
              (ww + wox + woy + woz + wd + wtx + wty + wtz)) \<and>
      0 \<le> (ww * sw + wox * ox + woy * oy + woz * oz + wd * sd +
               wtx * (1 - tx) + wty * (1 - ty) + wtz * (1 - tz)) /
              (ww + wox + woy + woz + wd + wtx + wty + wtz) \<and>
      (ww * sw + wox * ox + woy * oy + woz * oz + wd * sd +
               wtx * (1 - tx) + wty * (1 - ty) + wtz * (1 - tz)) /
              (ww + wox + woy + woz + wd + wtx + wty + wtz) \<le> 1) \<and>
   (scoreRotationsFromDesired ext p2
      ((ideal_grasp_pose gen)\<lparr>translation := translation cp\<rparr>) = (rx, ry, rz) \<and>
    scoreGraspTranslationIdeal ext p2
      ((ideal_grasp_pose gen)\<lparr>translation := translation cp\<rparr>) = (ux, uy, uz) \<and>
    scoreGraspOverhang ext p2 gd2 cp os = (hx, hy) \<and>
    0 \<le> rx \<and> rx \<le> 1 \<and> 0 \<le> ry \<and> ry \<le> 1 \<and> 0 \<le> rz \<and> rz \<le> 1 \<and>
    0 \<le> ux \<and> ux \<le> 1 \<and> 0 \<le> uy \<and> uy \<le> 1 \<and> 0 \<le> uz \<and> uz \<le> 1 \<and>
    0 \<le> hx \<and> hx \<le> 1 \<and> 0 \<le> hy \<and> hy \<le> 1 \<and>
    0 \<le> wox \<and> 0 \<le> woy \<and> 0 \<le> woz \<and> 0 \<le> wtx \<and> 0 \<le> wty \<and> 0 \<le> wtz \<and> 0 \<le> wov \<and>
    \<not> (wox = 0 \<and> woy = 0 \<and> woz = 0 \<and> wtx = 0 \<and> wty = 0 \<and> wtz = 0 \<and> wov = 0) \<longrightarrow>
      scoreSuctionGrasp ext gen p2 gd2 cp os =
        Some ((wox * rx + woy * ry + woz * rz + wtx * ux + wty * uy + wtz * uz +
               wov * hx + wov * hy) /
              (wox + woy + woz + wtx + wty + wtz + wov + wov)) \<and>
      0 \<le> (wox * rx + woy * ry + woz * rz + wtx * ux + wty * uy + wtz * uz +
               wov * hx + wov * hy) /
              (wox + woy + woz + wtx + wty + wtz + wov + wov) \<and>
      (wox * rx + woy * ry + woz * rz + wtx * ux + wty * uy + wtz * uz +
               wov * hx + wov * hy) /
              (wox + woy + woz + wtx + wty + wtz + wov + wov) \<le> 1) \<and>
   (\<exists>new. snd (addGrasp ext gen p3 gd3 cands op3 os3 ow) = cands @ new \<and>
      (\<forall>c\<in>set new.
         g_grasp_quality (c_grasp c) \<in>
           (case end_effector_type gd3 of
              FINGER \<Rightarrow> {scoreFingerGrasp ext gen p3 gd3 op3 1,
                         scoreFingerGrasp ext gen p3 gd3 op3 (1 / 2),
                         scoreFingerGrasp ext gen p3 gd3 op3 0}
            | SUCTION \<Rightarrow> {scoreSuctionGrasp ext gen p3 gd3 op3 os3}))) \<and>
   ((end_effector_type gd4 = FINGER \<longrightarrow>
      (\<forall>g po. 0 \<le> po \<and> po \<le> 1 \<longrightarrow>
       0 \<le> scoreGraspWidth ext g po \<and> scoreGraspWidth ext g po \<le> 1) \<and>
      (\<forall>q i. \<exists>x y z. scoreRotationsFromDesired ext q i = (x, y, z) \<and>
         0 \<le> x \<and> x \<le> 1 \<and> 0 \<le> y \<and> y \<le> 1 \<and> 0 \<le> z \<and> z \<le> 1) \<and>
      (\<forall>q g b lo hi. 0 \<le> scoreDistanceToPalm ext q g b lo hi \<and>
         scoreDistanceToPalm ext q g b lo hi \<le> 1) \<and>
      (\<forall>q lo hi. \<exists>x y z. scoreGraspTranslationRange ext q lo hi = (x, y, z) \<and>
         0 \<le> x \<and> x \<le> 1 \<and> 0 \<le> y \<and> y \<le> 1 \<and> 0 \<le> z \<and> z \<le> 1) \<and>
      0 \<le> ww \<and> 0 \<le> wox \<and> 0 \<le> woy \<and> 0 \<le> woz \<and> 0 \<le> wd \<and> 0 \<le> wtx \<and> 0 \<le> wty \<and> 0 \<le> wtz \<and>
      \<not> (ww = 0 \<and> wox = 0 \<and> woy = 0 \<and> woz = 0 \<and> wd = 0 \<and> wtx = 0 \<and> wty = 0 \<and> wtz = 0)) \<and>
    (end_effector_type gd4 = SUCTION \<longrightarrow>
      (\<forall>q i. \<exists>x y z. scoreRotationsFromDesired ext q i = (x, y, z) \<and>
         0 \<le> x \<and> x \<le> 1 \<and> 0 \<le> y \<and> y \<le> 1 \<and> 0 \<le> z \<and> z \<le> 1) \<and>
      (\<forall>q i. \<exists>x y z. scoreGraspTranslationIdeal ext q i = (x, y, z) \<and>
         0 \<le> x \<and> x \<le> 1 \<and> 0 \<le> y \<and> y \<le> 1 \<and> 0 \<le> z \<and> z \<le> 1) \<and>
      (\<forall>q g b sz. \<exists>x y. scoreGraspOverhang ext q g b sz = (x, y) \<and>
         0 \<le> x \<and> x \<le> 1 \<and> 0 \<le> y \<and> y \<le> 1) \<and>
      0 \<le> wox \<and> 0 \<le> woy \<and> 0 \<le> woz \<and> 0 \<le> wtx \<and> 0 \<le> wty \<and> 0 \<le> wtz \<and> 0 \<le> wov \<and>
      \<not> (wox = 0 \<and> woy = 0 \<and> woz = 0 \<and> wtx = 0 \<and> wty = 0 \<and> wtz = 0 \<and> wov = 0)) \<longrightarrow>
      (\<exists>new. add_all_grasps ext gen gd4 op4 os4 ow4 poses cands4 = cands4 @ new \<and>
         (\<forall>c\<in>set new. \<exists>q. g_grasp_quality (c_grasp c) = Some q \<and> 0 \<le> q \<and> q \<le> 1)))"
proof -
  assume W: "grasp_score_weights gen =
      \<lparr>orientation_x_score_weight = wox, orientation_y_score_weight = woy,
        orientation_z_score_weight = woz, translation_x_score_weight = wtx,
        translation_y_score_weight = wty, translation_z_score_weight = wtz,
        depth_score_weight = wd, width_score_weight = ww, overhang_score_weight = wov\<rparr>"
  have finger: "scoreFingerGrasp ext gen p gd op po =
        Some ((ww * sw + wox * ox + woy * oy + woz * oz + wd * sd +
               wtx * (1 - tx) + wty * (1 - ty) + wtz * (1 - tz)) /
              (ww + wox + woy + woz + wd + wtx + wty + wtz)) \<and>
      0 \<le> (ww * sw + wox * ox + woy * oy + woz * oz + wd * sd +
               wtx * (1 - tx) + wty * (1 - ty) + wtz * (1 - tz)) /
              (ww + wox + woy + woz + wd + wtx + wty + wtz) \<and>
      (ww * sw + wox * ox + woy * oy + woz * oz + wd * sd +
               wtx * (1 - tx) + wty * (1 - ty) + wtz * (1 - tz)) /
              (ww + wox + woy + woz + wd + wtx + wty + wtz) \<le> 1"
    if "scoreGraspWidth ext gd po = sw \<and>
    scoreRotationsFromDesired ext p (ideal_grasp_pose gen) = (ox, oy, oz) \<and>
    scoreDistanceToPalm ext p gd op (min_grasp_distance gen) (max_grasp_distance gen) = sd \<and>
    scoreGraspTranslationRange ext p (min_translations gen) (max_translations gen) =
      (tx, ty, tz) \<and>
    0 \<le> sw \<and> sw \<le> 1 \<and> 0 \<le> ox \<and> ox \<le> 1 \<and> 0 \<le> oy \<and> oy \<le> 1 \<and> 0 \<le> oz \<and> oz \<le> 1 \<and>
    0 \<le> sd \<and> sd \<le> 1 \<and> 0 \<le> tx \<and> tx \<le> 1 \<and> 0 \<le> ty \<and> ty \<le> 1 \<and> 0 \<le> tz \<and> tz \<le> 1 \<and>
    0 \<le> ww \<and> 0 \<le> wox \<and> 0 \<le> woy \<and> 0 \<le> woz \<and> 0 \<le> wd \<and> 0 \<le> wtx \<and> 0 \<le> wty \<and> 0 \<le> wtz \<and>
    \<not> (ww = 0 \<and> wox = 0 \<and> woy = 0 \<and> woz = 0 \<and> wd = 0 \<and> wtx = 0 \<and> wty = 0 \<and> wtz = 0)"
    using W that by (rule scoreFingerGrasp_average)
  have suction: "scoreSuctionGrasp ext gen p2 gd2 cp os =
        Some ((wox * rx + woy * ry + woz * rz + wtx * ux + wty * uy + wtz * uz +
               wov * hx + wov * hy) /
              (wox + woy + woz + wtx + wty + wtz + wov + wov)) \<and>
      0 \<le> (wox * rx + woy * ry + woz * rz + wtx * ux + wty * uy + wtz * uz +
               wov * hx + wov * hy) /
              (wox + woy + woz + wtx + wty + wtz + wov + wov) \<and>
      (wox * rx + woy * ry + woz * rz + wtx * ux + wty * uy + wtz * uz +
               wov * hx + wov * hy) /
              (wox + woy + woz + wtx + wty + wtz + wov + wov) \<le> 1"
    if "scoreRotationsFromDesired ext p2
      ((ideal_grasp_pose gen)\<lparr>translation := translation cp\<rparr>) = (rx, ry, rz) \<and>
    scoreGraspTranslationIdeal ext p2
      ((ideal_grasp_pose gen)\<lparr>translation := translation cp\<rparr>) = (ux, uy, uz) \<and>
    scoreGraspOverhang ext p2 gd2 cp os = (hx, hy) \<and>
    0 \<le> rx \<and> rx \<le> 1 \<and> 0 \<le> ry \<and> ry \<le> 1 \<and> 0 \<le> rz \<and> rz \<le> 1 \<and>
    0 \<le> ux \<and> ux \<le> 1 \<and> 0 \<le> uy \<and> uy \<le> 1 \<and> 0 \<le> uz \<and> uz \<le> 1 \<and>
    0 \<le> hx \<and> hx \<le> 1 \<and> 0 \<le> hy \<and> hy \<le> 1 \<and>
    0 \<le> wox \<and> 0 \<le> woy \<and> 0 \<le> woz \<and> 0 \<le> wtx \<and> 0 \<le> wty \<and> 0 \<le> wtz \<and> 0 \<le> wov \<and>
    \<not> (wox = 0 \<and> woy = 0 \<and> woz = 0 \<and> wtx = 0 \<and> wty = 0 \<and> wtz = 0 \<and> wov = 0)"
    using W that by (rule scoreSuctionGrasp_average)
  have emitted: "\<exists>new. add_all_grasps ext gen gd4 op4 os4 ow4 poses cands4 = cands4 @ new \<and>
         (\<forall>c\<in>set new. \<exists>q. g_grasp_quality (c_grasp c) = Some q \<and> 0 \<le> q \<and> q \<le> 1)"
    if e: "(end_effector_type gd4 = FINGER \<longrightarrow>
      (\<forall>g po. 0 \<le> po \<and> po \<le> 1 \<longrightarrow>
       0 \<le> scoreGraspWidth ext g po \<and> scoreGraspWidth ext g po \<le> 1) \<and>
      (\<forall>q i. \<exists>x y z. scoreRotationsFromDesired ext q i = (x, y, z) \<and>
         0 \<le> x \<and> x \<le> 1 \<and> 0 \<le> y \<and> y \<le> 1 \<and> 0 \<le> z \<and> z \<le> 1) \<and>
      (\<forall>q g b lo hi. 0 \<le> scoreDistanceToPalm ext q g b lo hi \<and>
         scoreDistanceToPalm ext q g b lo hi \<le> 1) \<and>
      (\<forall>q lo hi. \<exists>x y z. scoreGraspTranslationRange ext q lo hi = (x, y, z) \<and>
         0 \<le> x \<and> x \<le> 1 \<and> 0 \<le> y \<and> y \<le> 1 \<and> 0 \<le> z \<and> z \<le> 1) \<and>
      0 \<le> ww \<and> 0 \<le> wox \<and> 0 \<le> woy \<and> 0 \<le> woz \<and> 0 \<le> wd \<and> 0 \<le> wtx \<and> 0 \<le> wty \<and> 0 \<le> wtz \<and>
      \<not> (ww = 0 \<and> wox = 0 \<and> woy = 0 \<and> woz = 0 \<and> wd = 0 \<and> wtx = 0 \<and> wty = 0 \<and> wtz = 0)) \<and>
    (end_effector_type gd4 = SUCTION \<longrightarrow>
      (\<forall>q i. \<exists>x y z. scoreRotationsFromDesired ext q i = (x, y, z) \<and>
         0 \<le> x \<and> x \<le> 1 \<and> 0 \<le> y \<and> y \<le> 1 \<and> 0 \<le> z \<and> z \<le> 1) \<and>
      (\<forall>q i. \<exists>x y z. scoreGraspTranslationIdeal ext q i = (x, y, z) \<and>
         0 \<le> x \<and> x \<le> 1 \<and> 0 \<le> y \<and> y \<le> 1 \<and> 0 \<le> z \<and> z \<le> 1) \<and>
      (\<forall>q g b sz. \<exists>x y. scoreGraspOverhang ext q g b sz = (x, y) \<and>
         0 \<le> x \<and> x \<le> 1 \<and> 0 \<le> y \<and> y \<le> 1) \<and>
      0 \<le> wox \<and> 0 \<le> woy \<and> 0 \<le> woz \<and> 0 \<le> wtx \<and> 0 \<le> wty \<and> 0 \<le> wtz \<and> 0 \<le> wov \<and>
      \<not> (wox = 0 \<and> woy = 0 \<and> woz = 0 \<and> wtx = 0 \<and> wty = 0 \<and> wtz = 0 \<and> wov = 0))"
  proof -
    from add_all_grasps_qualities [of ext gen gd4 op4 os4 ow4 poses cands4]
    obtain new where n: "add_all_grasps ext gen gd4 op4 os4 ow4 poses cands4 = cands4 @ new"
      and q: "\<forall>c\<in>set new. \<exists>p\<in>set poses.
        g_grasp_quality (c_grasp c) \<in>
          (case end_effector_type gd4 of
              FINGER \<Rightarrow> {scoreFingerGrasp ext gen p gd4 op4 1,
                         scoreFingerGrasp ext gen p gd4 op4 (1 / 2),
                         scoreFingerGrasp ext gen p gd4 op4 0}
            | SUCTION \<Rightarrow> {scoreSuctionGrasp ext gen p gd4 op4 os4})"
      by blast
    have "\<exists>q. g_grasp_quality (c_grasp c) = Some q \<and> 0 \<le> q \<and> q \<le> 1" if c: "c \<in> set new" for c
    proof (cases "end_effector_type gd4")
      case FINGER
      with q c obtain p po where
        "g_grasp_quality (c_grasp c) = scoreFingerGrasp ext gen p gd4 op4 po"
        and po: "0 \<le> po \<and> po \<le> 1"
        by fastforce
      moreover have "\<exists>q. scoreFingerGrasp ext gen p gd4 op4 po = Some q \<and> 0 \<le> q \<and> q \<le> 1"
        using e FINGER po by (intro scoreFingerGrasp_unit [OF W]) simp_all
      ultimately show ?thesis by simp
    next
      case SUCTION
      with q c obtain p where "g_grasp_quality (c_grasp c) = scoreSuctionGrasp ext gen p gd4 op4 os4"
        by fastforce
      moreover have "\<exists>q. scoreSuctionGrasp ext gen p gd4 op4 os4 = Some q \<and> 0 \<le> q \<and> q \<le> 1"
        using e SUCTION by (intro scoreSuctionGrasp_unit [OF W]) simp_all
      ultimately show ?thesis by simp
    qed
    with n show ?thesis by blast
  qed
  from finger suction emitted addGrasp_qualities [of ext gen p3 gd3 cands op3 os3 ow]
  show ?thesis by blast
qed

theorem score_is_weighted_average_witness:
  "scoreFingerGrasp example_external example_generator Identity example_finger_data Identity 1
     = Some (23 / 32) \<and>
   scoreSuctionGrasp example_external example_generator Identity example_suction_data Identity
     (1, 1, 1) = Some (5 / 8) \<and>
   map (\<lambda>c. g_grasp_quality (c_grasp c))
     (add_all_grasps example_external example_generator example_finger_data Identity
        (7 / 10, 2 / 5, 3 / 10) (3 / 10) [Identity] []) =
     [Some (23 / 32), Some (21 / 32), Some (19 / 32)] \<and>
   list_all (\<lambda>c. \<exists>q. g_grasp_quality (c_grasp c) = Some q \<and> 0 \<le> q \<and> q \<le> 1)
     (add_all_grasps example_external example_generator example_finger_data Identity
        (7 / 10, 2 / 5, 3 / 10) (3 / 10) [Identity] [])"
proof -
  have W: "grasp_score_weights example_generator =
      \<lparr>orientation_x_score_weight = 1, orientation_y_score_weight = 1,
        orientation_z_score_weight = 1, translation_x_score_weight = 1,
        translation_y_score_weight = 1, translation_z_score_weight = 1,
        depth_score_weight = 1, width_score_weight = 1, overhang_score_weight = 1\<rparr>"
    by (simp add: example_generator_def example_weights_def)
  have f: "scoreGraspWidth example_external example_finger_data po = po"
    "scoreRotationsFromDesired example_external Identity (ideal_grasp_pose example_generator)
       = (1 / 2, 1 / 2, 1)"
    "scoreDistanceToPalm example_external Identity example_finger_data Identity
       (min_grasp_distance example_generator) (max_grasp_distance example_generator) = 1 / 2"
    "scoreGraspTranslationRange example_external Identity (min_translations example_generator)
       (max_translations example_generator) = (1 / 4, 1 / 2, 0)"
    "scoreRotationsFromDesired example_external Identity
       ((ideal_grasp_pose example_generator)\<lparr>translation := translation Identity\<rparr>)
       = (1 / 2, 1 / 2, 1)"
    "scoreGraspTranslationIdeal example_external Identity
       ((ideal_grasp_pose example_generator)\<lparr>translation := translation Identity\<rparr>)
       = (1 / 2, 1 / 2, 1 / 2)"
    "scoreGraspOverhang example_external Identity example_suction_data Identity (1, 1, 1)
       = (1, 1 / 2)" for po
    by (simp_all add: example_external_def)
  have fin: "end_effector_type example_finger_data = FINGER"
    by (simp add: example_finger_data_def)
  have e1: "0 \<le> po \<and> po \<le> 1 \<longrightarrow>
      0 \<le> scoreGraspWidth example_external g po \<and> scoreGraspWidth example_external g po \<le> 1"
    for g po
    by (simp add: example_external_def)
  have e2: "\<exists>x y z. scoreRotationsFromDesired example_external q i = (x, y, z) \<and>
      0 \<le> x \<and> x \<le> 1 \<and> 0 \<le> y \<and> y \<le> 1 \<and> 0 \<le> z \<and> z \<le> 1" for q i
    by (rule exI [of _ "1 / 2"], rule exI [of _ "1 / 2"], rule exI [of _ 1])
      (simp add: example_external_def)
  have e3: "0 \<le> scoreDistanceToPalm example_external q g b lo hi \<and>
      scoreDistanceToPalm example_external q g b lo hi \<le> 1" for q g b lo hi
    by (simp add: example_external_def)
  have e4: "\<exists>x y z. scoreGraspTranslationRange example_external q lo hi = (x, y, z) \<and>
      0 \<le> x \<and> x \<le> 1 \<and> 0 \<le> y \<and> y \<le> 1 \<and> 0 \<le> z \<and> z \<le> 1" for q lo hi
    by (rule exI [of _ "1 / 4"], rule exI [of _ "1 / 2"], rule exI [of _ 0])
      (simp add: example_external_def)
  have vals: "grasp_padding_on_approach example_finger_data = 1 / 200"
    "max_finger_width example_finger_data = 1"
    "min_finger_width example_finger_data = 1 / 100"
    by (simp_all add: example_finger_data_def)
  have s: "setGraspWidth example_external example_finger_data 1 (31 / 100) = Some [1]"
    "setGraspWidth example_external example_finger_data (1 / 2) (31 / 100) = Some [131 / 200]"
    "setGraspWidth example_external example_finger_data 0 (31 / 100) = Some [31 / 100]"
    by (simp_all add: example_external_def setGraspWidth_interpolated_def vals Let_def)
  note t = score_is_weighted_average [OF W, where ext = example_external
      and gd = example_finger_data and p = Identity and op = Identity
      and ox = "1 / 2" and oy = "1 / 2" and oz = 1 and sd = "1 / 2"
      and tx = "1 / 4" and ty = "1 / 2" and tz = 0
      and ?p2.0 = Identity and cp = Identity and ?gd2.0 = example_suction_data
      and os = "(1, 1, 1)" and rx = "1 / 2" and ry = "1 / 2" and rz = 1
      and ux = "1 / 2" and uy = "1 / 2" and uz = "1 / 2" and hx = 1 and hy = "1 / 2"
      and ?gd4.0 = example_finger_data and ?op4.0 = Identity
      and ?os4.0 = "(7 / 10, 2 / 5, 3 / 10)" and ?ow4.0 = "3 / 10" and poses = "[Identity]"
      and ?cands4.0 = "[]"]
  from t [where po = 1 and sw = 1]
  have one: "scoreFingerGrasp example_external example_generator Identity example_finger_data
      Identity 1 = Some (23 / 32)"
    and suction: "scoreSuctionGrasp example_external example_generator Identity
      example_suction_data Identity (1, 1, 1) = Some (5 / 8)"
    by (simp_all add: f)
  from t [where po = "1 / 2" and sw = "1 / 2"]
  have half: "scoreFingerGrasp example_external example_generator Identity example_finger_data
      Identity (1 / 2) = Some (21 / 32)"
    by (simp add: f)
  from t [where po = 0 and sw = 0]
  have zero: "scoreFingerGrasp example_external example_generator Identity example_finger_data
      Identity 0 = Some (19 / 32)"
    by (simp add: f)
  have q: "map (\<lambda>c. g_grasp_quality (c_grasp c))
     (add_all_grasps example_external example_generator example_finger_data Identity
        (7 / 10, 2 / 5, 3 / 10) (3 / 10) [Identity] []) =
     [Some (23 / 32), Some (21 / 32), Some (19 / 32)]"
    by (simp add: add_all_grasps_def addGrasp_def fin vals s one half zero Let_def)
  from t [where po = 1 and sw = 1]
  have "\<exists>new. add_all_grasps example_external example_generator example_finger_data Identity
        (7 / 10, 2 / 5, 3 / 10) (3 / 10) [Identity] [] = [] @ new \<and>
      (\<forall>c\<in>set new. \<exists>q. g_grasp_quality (c_grasp c) = Some q \<and> 0 \<le> q \<and> q \<le> 1)"
    by (simp add: fin e1 e2 e3 e4)
  then have all: "list_all (\<lambda>c. \<exists>q. g_grasp_quality (c_grasp c) = Some q \<and> 0 \<le> q \<and> q \<le> 1)
     (add_all_grasps example_external example_generator example_finger_data Identity
        (7 / 10, 2 / 5, 3 / 10) (3 / 10) [Identity] [])"
    by (simp add: list_all_iff)
  from one suction q all show ?thesis by (intro conjI)
qed

theorem score_is_weighted_average_counterexample:
  "scoreGraspWidth example_external example_finger_data 1 = 1 \<and>
   scoreRotationsFromDesired example_external Identity Identity = (1 / 2, 1 / 2, 1) \<and>
   scoreDistanceToPalm example_external Identity example_finger_data Identity 0 0 = 1 / 2 \<and>
   scoreGraspTranslationRange example_external Identity (0, 0, 0) (0, 0, 0) = (1 / 4, 1 / 2, 0) \<and>
   scoreFingerGrasp example_external
     \<lparr>ideal_grasp_pose = Identity,
      grasp_score_weights =
        \<lparr>orientation_x_score_weight = 0, orientation_y_score_weight = 0,
         orientation_z_score_weight = 0, translation_x_score_weight = 0,
         translation_y_score_weight = 0, translation_z_score_weight = 0,
         depth_score_weight = 0, width_score_weight = 0, overhang_score_weight = 1\<rparr>,
      min_grasp_distance = 0, max_grasp_distance = 0,
      min_translations = (0, 0, 0), max_translations = (0, 0, 0)\<rparr>
     Identity example_finger_data Identity 1 = None"
  by (simp add: example_external_def scoreFingerGrasp_def finger_weights_def
      finger_scores_def weighted_total_def Let_def vadd_def smul_def vx_def vy_def vz_def)

subsection \<open>Width variants of a finger grasp\<close>

lemma add_all_grasps_Cons:
  "add_all_grasps ext gen gd op os ow (p # ps) cands =
   add_all_grasps ext gen gd op os ow ps (snd (addGrasp ext gen p gd cands op os ow))"
  by (simp add: add_all_grasps_def)

lemma addGrasp_finger_prefix:
  "end_effector_type gd = FINGER \<Longrightarrow>
   \<exists>new k.
     addGrasp ext gen p gd cands op os ow = (k = 3, cands @ new) \<and>
     k = (if setGraspWidth ext gd 1 (ow + 2 * grasp_padding_on_approach gd) = None then 0
          else if setGraspWidth ext gd (1 / 2) (ow + 2 * grasp_padding_on_approach gd) = None
          then 1
          else if setGraspWidth ext gd 0 (ow + 2 * grasp_padding_on_approach gd) = None then 2
          else (3::nat)) \<and>
     length new = k \<and>
     map (\<lambda>c. Some (g_pre_grasp_posture (c_grasp c))) new =
       take k [setGraspWidth ext gd 1 (ow + 2 * grasp_padding_on_approach gd),
               setGraspWidth ext gd (1 / 2) (ow + 2 * grasp_padding_on_approach gd),
               setGraspWidth ext gd 0 (ow + 2 * grasp_padding_on_approach gd)] \<and>
     map (\<lambda>c. g_grasp_quality (c_grasp c)) new =
       take k [scoreFingerGrasp ext gen p gd op 1, scoreFingerGrasp ext gen p gd op (1 / 2),
               scoreFingerGrasp ext gen p gd op 0] \<and>
     (\<forall>c\<in>set new. g_grasp_pose (c_grasp c) = compose p (grasp_pose_to_eef_pose gd)) \<and>
     add_all_grasps ext gen gd op os ow (p # ps) cands =
       add_all_grasps ext gen gd op os ow ps (cands @ new)"
proof -
  assume fin: "end_effector_type gd = FINGER"
  let ?m = "ow + 2 * grasp_padding_on_approach gd"
  show ?thesis
  proof (cases "setGraspWidth ext gd 1 ?m")
    case None
    then show ?thesis
      using fin by (simp add: addGrasp_def add_all_grasps_Cons Let_def)
  next
    case s1: (Some p1)
    show ?thesis
    proof (cases "setGraspWidth ext gd (1 / 2) ?m")
      case None
      then show ?thesis
        using fin s1 by (simp add: addGrasp_def add_all_grasps_Cons Let_def)
    next
      case s2: (Some p2)
      show ?thesis
      proof (cases "setGraspWidth ext gd 0 ?m")
        case None
        then show ?thesis
          using fin s1 s2 by (simp add: addGrasp_def add_all_grasps_Cons Let_def)
      next
        case s3: (Some p3)
        then show ?thesis
          using fin s1 s2 by (simp add: addGrasp_def add_all_grasps_Cons Let_def)
      qed
    qed
  qed
qed






subsection \<open>Lengths of the enumeration stages\<close>

lemma length_push_translated [simp]: "length (push_translated p d n) = n"
  by (induction n arbitrary: p) simp_all

lemma length_push_rotated [simp]: "length (push_rotated p a n) = n"
  by (induction n arbitrary: p) simp_all

lemma push_rotated_funpow:
  "push_rotated p a n =
   map (\<lambda>k. ((\<lambda>q. rotate_pose q (AngleAxisY a)) ^^ k) (rotate_pose p (AngleAxisY a))) [0..<n]"
proof (induction n arbitrary: p)
  case 0
  show ?case by simp
next
  case (Suc n)
  have u: "[0..<Suc n] = 0 # map Suc [0..<n]"
    by (simp add: upt_conv_Cons map_Suc_upt del: upt_Suc)
  have sw: "\<And>k x. rotate_pose (((\<lambda>q. rotate_pose q (AngleAxisY a)) ^^ k) x) (AngleAxisY a) =
      ((\<lambda>q. rotate_pose q (AngleAxisY a)) ^^ k) (rotate_pose x (AngleAxisY a))"
    using funpow_swap1 [of "\<lambda>q. rotate_pose q (AngleAxisY a)"] by simp
  show ?case
    unfolding u by (simp add: Suc.IH comp_def sw)
qed

lemma length_addCornerGraspsHelper:
  "length (addCornerGraspsHelper pose angles t r n poses) = length poses + n"
  by (simp add: addCornerGraspsHelper_def Let_def)

lemma length_addFaceGraspsHelper:
  "length (addFaceGraspsHelper pose angles t d r n poses) = length poses + n"
  by (simp add: addFaceGraspsHelper_def Let_def)

lemma length_addEdgeGraspsHelper:
  "length (addEdgeGraspsHelper pose angles t d r n poses cr) = length poses + n"
  by (simp add: addEdgeGraspsHelper_def Let_def)

lemma length_corner_grasps:
  "length (corner_grasps cp fr off n poses) = length poses + 4 * (if n = 0 then 1 else n)"
  by (simp add: corner_grasps_def Let_def length_addCornerGraspsHelper)

lemma length_face_grasps:
  "length (face_grasps cp fr gd off da db nb poses) = length poses + 4 * nb"
  by (simp add: face_grasps_def Let_def length_addFaceGraspsHelper)

lemma length_edge_grasps:
  "length (edge_grasps cp fr axis gd off da db nb poses) = length poses + 4 * nb"
  by (simp add: edge_grasps_def Let_def length_addEdgeGraspsHelper)

lemma quarter_turn_ratio:
  assumes "0 < n"
  shows "(pi / 2) / (real_of_int n * pi / 180) = 90 / real_of_int n"
  using assms by (simp add: field_simps)

lemma radial_count_positive:
  assumes "0 < angle_resolution gd"
  shows "radial_count gd = Some (nat \<lceil>(pi / 2) / angle_res_of gd\<rceil>)"
    and "0 < nat \<lceil>(pi / 2) / angle_res_of gd\<rceil>"
proof -
  let ?n = "angle_resolution gd"
  have ne: "angle_res_of gd \<noteq> 0" using assms by (simp add: angle_res_of_def)
  have q: "(pi / 2) / angle_res_of gd = 90 / real_of_int ?n"
    unfolding angle_res_of_def using assms by (rule quarter_turn_ratio)
  have pos: "0 < 90 / real_of_int ?n" using assms by simp
  have "1 \<le> real_of_int ?n" using assms by simp
  then have le: "90 / real_of_int ?n \<le> 90" using assms by (simp add: field_simps)
  have c0: "0 < \<lceil>90 / real_of_int ?n\<rceil>" using pos by linarith
  have c1: "\<lceil>90 / real_of_int ?n\<rceil> \<le> 90" using le by (simp add: ceiling_le_iff)
  have "real_of_int \<lceil>90 / real_of_int ?n\<rceil> < 2 ^ 64"
  proof -
    have "real_of_int \<lceil>90 / real_of_int ?n\<rceil> \<le> 90" using c1 by linarith
    then show ?thesis by simp
  qed
  moreover have "- 1 < real_of_int \<lceil>90 / real_of_int ?n\<rceil>" using c0 by linarith
  ultimately have "size_t_of_double (real_of_int \<lceil>90 / real_of_int ?n\<rceil>) =
      Some (nat \<lceil>90 / real_of_int ?n\<rceil>)"
    by (simp add: size_t_of_double_def)
  moreover have "ddiv (pi / 2) (angle_res_of gd) = Some (90 / real_of_int ?n)"
    using ne q by (simp add: ddiv_def)
  ultimately show "radial_count gd = Some (nat \<lceil>(pi / 2) / angle_res_of gd\<rceil>)"
    unfolding q by (simp add: radial_count_def)
  show "0 < nat \<lceil>(pi / 2) / angle_res_of gd\<rceil>" unfolding q using c0 by simp
qed

lemma example_quarter_turn:
  "nat \<lceil>(pi / 2) / angle_res_of example_finger_data\<rceil> = 3"
proof -
  have e: "(pi / 2) / angle_res_of example_finger_data = 90 / real_of_int 40"
    unfolding angle_res_of_def by (simp add: example_finger_data_def)
  have c: "\<lceil>(90::real) / real_of_int 40\<rceil> = 3" by (simp add: ceiling_eq_iff)
  show ?thesis unfolding e c by simp
qed

lemma example_radial_count: "radial_count example_finger_data = Some 3"
proof -
  have n: "0 < angle_resolution example_finger_data"
    by (simp add: example_finger_data_def)
  show ?thesis
    by (simp only: radial_count_positive(1) [OF n] example_quarter_turn)
qed

text \<open>
  C8, as the code has it. With corner grasps enabled and a positive angle resolution,
  every corner contributes exactly \<open>N = ceil((pi/2) / angle_res)\<close> poses, all of them
  rotated: the pose placed at the corner is turned about Y by \<open>(pi/2) / (N + 1)\<close> before
  each push, so that pose itself is not pushed. The corner stage adds \<open>4 * N\<close> poses.
\<close>

theorem corner_stage_rotated_only:
  "0 < angle_resolution gd \<Longrightarrow> enable_corner_grasps config \<Longrightarrow>
   \<exists>N. radial_count gd = Some N \<and> N = nat \<lceil>(pi / 2) / angle_res_of gd\<rceil> \<and> 0 < N \<and>
       (\<forall>pose angles t r poses.
          addCornerGraspsHelper pose angles t r N poses =
            poses @
            map (\<lambda>k. ((\<lambda>q. rotate_pose q (AngleAxisY ((pi / 2) / real (N + 1)))) ^^ k)
                       (rotate_pose (aligned_pose pose angles r t)
                          (AngleAxisY ((pi / 2) / real (N + 1)))))
              [0..<N]) \<and>
       (\<exists>poses. corner_stage cp d w h axis gd config = Some poses \<and> length poses = 4 * N)"
proof -
  assume n: "0 < angle_resolution gd" and en: "enable_corner_grasps config"
  let ?N = "nat \<lceil>(pi / 2) / angle_res_of gd\<rceil>"
  have rc: "radial_count gd = Some ?N" and pos: "0 < ?N"
    using radial_count_positive [OF n] by simp_all
  have helper: "\<forall>pose angles t r poses.
          addCornerGraspsHelper pose angles t r ?N poses =
            poses @
            map (\<lambda>k. ((\<lambda>q. rotate_pose q (AngleAxisY ((pi / 2) / real (?N + 1)))) ^^ k)
                       (rotate_pose (aligned_pose pose angles r t)
                          (AngleAxisY ((pi / 2) / real (?N + 1)))))
              [0..<?N]"
    by (simp add: addCornerGraspsHelper_def Let_def push_rotated_funpow)
  have "corner_stage cp d w h axis gd config =
          Some (corner_grasps cp (axis_frame cp d w h axis) 0.001 ?N [])"
    using en by (simp add: corner_stage_def rc)
  moreover have "length (corner_grasps cp (axis_frame cp d w h axis) 0.001 ?N []) = 4 * ?N"
    using pos by (simp add: length_corner_grasps)
  ultimately show ?thesis using rc pos helper by blast
qed

theorem corner_stage_rotated_only_witness:
  "0 < angle_resolution example_finger_data \<and>
   enable_corner_grasps (example_config\<lparr>enable_corner_grasps := True\<rparr>) \<and>
   radial_count example_finger_data = Some 3 \<and>
   map_option length
     (corner_stage Identity 0.7 0.4 0.3 Z_AXIS example_finger_data
        (example_config\<lparr>enable_corner_grasps := True\<rparr>)) = Some 12"
proof -
  have n: "0 < angle_resolution example_finger_data"
    by (simp add: example_finger_data_def)
  have en: "enable_corner_grasps (example_config\<lparr>enable_corner_grasps := True\<rparr>)"
    by simp
  show ?thesis
    using corner_stage_rotated_only [OF n en, of Identity "0.7" "0.4" "0.3" Z_AXIS] n
    by (auto simp: example_radial_count)
qed

theorem corner_stage_counterexample:
  "map_option length
     (corner_stage Identity 0.7 0.4 0.3 Z_AXIS example_finger_data
        (example_config\<lparr>enable_corner_grasps := True\<rparr>)) = Some 12 \<and>
   4 * (1 + nat \<lceil>(pi / 2) / angle_res_of example_finger_data\<rceil>) = 16"
proof -
  have "map_option length
     (corner_stage Identity 0.7 0.4 0.3 Z_AXIS example_finger_data
        (example_config\<lparr>enable_corner_grasps := True\<rparr>)) = Some 12"
    by (simp add: corner_stage_def example_radial_count length_corner_grasps)
  then show ?thesis
    unfolding example_quarter_turn by simp
qed

subsection \<open>Face stage\<close>

lemma example_axis_frame:
  "axis_frame Identity (7 / 10) (2 / 5) (3 / 10) Z_AXIS =
     \<lparr>length_along_a = 7 / 10, length_along_b = 2 / 5, length_along_c = 3 / 10,
      a_dir = (1, 0, 0), b_dir = (0, 1, 0), c_dir = (0, 0, 1),
      rotation_angles = (pi / 2, pi / 2, 0), object_width = 3 / 10\<rparr>"
  by (simp add: axis_frame_def Identity_def mat_identity_def normalized_def squaredNorm_def
      norm3_def dot_def mat_vec_def row1_def row2_def row3_def UnitX_def UnitY_def UnitZ_def
      smul_def vx_def vy_def vz_def)

lemma example_face_counts:
  "face_counts (axis_frame Identity (7 / 10) (2 / 5) (3 / 10) Z_AXIS) example_finger_data =
     Some \<lparr>num_grasps_along_a = 3, num_grasps_along_b = 2, delta_a = 3 / 10, delta_b = 3 / 10\<rparr>"
proof -
  have fa: "\<lfloor>(12::real) / 5\<rfloor> = 2" by (simp add: floor_eq_iff)
  have fb: "\<lfloor>(6::real) / 5\<rfloor> = 1" by (simp add: floor_eq_iff)
  show ?thesis
    by (simp add: example_axis_frame face_counts_def ddiv_def size_t_of_double_def
        example_finger_data_def fa fb)
qed

lemma face_stage_structure:
  assumes "corner_stage cp d w h axis gd config = Some corner"
    and "face_counts (axis_frame cp d w h axis) gd = Some fc"
    and "enable_face_grasps config"
  shows "\<exists>f1 f2 f3 f4.
           face_stage cp d w h axis gd config = Some (corner @ f1 @ f2 @ f3 @ f4) \<and>
           length f1 = num_grasps_along_b fc \<and> length f2 = num_grasps_along_b fc \<and>
           length f3 = num_grasps_along_b fc \<and> length f4 = num_grasps_along_b fc"
  using assms
  apply (simp add: face_stage_def face_grasps_def addFaceGraspsHelper_def Let_def)
  apply (intro exI conjI)
      apply (rule refl)
     apply simp_all
  done

lemma translation_aligned_pose [simp]:
  "translation (aligned_pose pose angles r t) = vadd (translation pose) t"
  by (simp add: aligned_pose_def Let_def translate_global_def rotate_pose_def
      align_to_axis_def)

lemma face_counts_narrow_face:
  "face_counts (axis_frame Identity (1 / 20) (2 / 5) (3 / 10) Z_AXIS)
     (example_finger_data\<lparr>grasp_resolution := 1 / 100\<rparr>) = None"
proof -
  have "length_along_a (axis_frame Identity (1 / 20) (2 / 5) (3 / 10) Z_AXIS) = 1 / 20"
    by (simp add: axis_frame_def)
  then show ?thesis
    by (simp add: face_counts_def ddiv_def size_t_of_double_def example_finger_data_def)
qed

text \<open>
  C1 at a cuboid of depth 0.7 and width 0.4 grasped about Z, with finger width 0.1 and
  resolution 0.25. The count along \<open>a\<close> is 3 and the count along \<open>b\<close> is 2, and every
  face receives 2 poses: the faces \<open>y = 0.2005\<close> and \<open>y = - 0.2005\<close>, swept along \<open>a\<close> in
  steps of \<open>delta_a = 0.3\<close>, stop after two of their three positions.
\<close>

theorem face_stage_ignores_count_along_a:
  "map_option num_grasps_along_a
     (face_counts (axis_frame Identity (7 / 10) (2 / 5) (3 / 10) Z_AXIS) example_finger_data)
     = Some 3 \<and>
   map_option num_grasps_along_b
     (face_counts (axis_frame Identity (7 / 10) (2 / 5) (3 / 10) Z_AXIS) example_finger_data)
     = Some 2 \<and>
   map_option (map translation)
     (face_stage Identity (7 / 10) (2 / 5) (3 / 10) Z_AXIS example_finger_data example_config)
     = Some [(- (701 / 2000), - (3 / 20), 0), (- (701 / 2000), 3 / 20, 0),
             (3 / 10, 401 / 2000, 0), (0, 401 / 2000, 0),
             (701 / 2000, 3 / 20, 0), (701 / 2000, - (3 / 20), 0),
             (- (3 / 10), - (401 / 2000), 0), (0, - (401 / 2000), 0)]"
proof -
  have "map_option (map translation)
     (face_stage Identity (7 / 10) (2 / 5) (3 / 10) Z_AXIS example_finger_data example_config)
     = Some [(- (701 / 2000), - (3 / 20), 0), (- (701 / 2000), 3 / 20, 0),
             (3 / 10, 401 / 2000, 0), (0, 401 / 2000, 0),
             (701 / 2000, 3 / 20, 0), (701 / 2000, - (3 / 20), 0),
             (- (3 / 10), - (401 / 2000), 0), (0, - (401 / 2000), 0)]"
    apply (simp add: face_stage_def corner_stage_def example_radial_count example_face_counts
        example_config_def)
    apply (simp add: face_grasps_def addFaceGraspsHelper_def Let_def example_axis_frame
        numeral_2_eq_2 translate_global_def)
    apply (simp add: example_finger_data_def vadd_def vsub_def vneg_def smul_def vx_def
        vy_def vz_def Identity_def)
    done
  then show ?thesis by (simp add: example_face_counts)
qed

subsection \<open>The variable-angle loop\<close>

lemma variable_angle_loop_takeWhile:
  "iterations \<le> max_iterations \<Longrightarrow>
   variable_angle_loop intersects angle max_iterations grasp_pose iterations =
   takeWhile intersects
     (map (\<lambda>k. ((\<lambda>q. rotate_pose q (AngleAxisY angle)) ^^ k) grasp_pose)
        [0..<Suc max_iterations - iterations])"
proof (induction intersects angle max_iterations grasp_pose iterations
    rule: variable_angle_loop.induct)
  case (1 intersects angle max_iterations grasp_pose iterations)
  let ?f = "\<lambda>q. rotate_pose q (AngleAxisY angle)"
  have sw: "\<And>k x. (?f ^^ k) (rotate_pose x (AngleAxisY angle)) =
      rotate_pose ((?f ^^ k) x) (AngleAxisY angle)"
    using funpow_swap1 [of ?f] by simp
  obtain m where m: "Suc max_iterations - iterations = Suc m"
    and m': "m = max_iterations - iterations"
    using "1.prems" by (simp add: Suc_diff_le)
  have u: "[0..<Suc m] = 0 # map Suc [0..<m]"
    by (simp add: upt_conv_Cons map_Suc_upt del: upt_Suc)
  show ?case
  proof (cases "intersects grasp_pose")
    case False
    then show ?thesis
      unfolding m u by (simp add: variable_angle_loop.simps [of intersects angle max_iterations grasp_pose iterations])
  next
    case True
    show ?thesis
    proof (cases "iterations + 1 > max_iterations")
      case over: True
      then have "m = 0" using m' by simp
      then show ?thesis
        unfolding m using True over
        by (simp add: variable_angle_loop.simps [of intersects angle max_iterations grasp_pose iterations])
    next
      case under: False
      then have le: "iterations + 1 \<le> max_iterations" by simp
      have m2: "Suc max_iterations - (iterations + 1) = m" using m by simp
      have ih: "variable_angle_loop intersects angle max_iterations
                  (rotate_pose grasp_pose (AngleAxisY angle)) (iterations + 1) =
                takeWhile intersects
                  (map (\<lambda>k. (?f ^^ k) (rotate_pose grasp_pose (AngleAxisY angle))) [0..<m])"
        using "1.IH" [OF True under le] unfolding m2 .
      have ih': "variable_angle_loop intersects angle max_iterations
                  (rotate_pose grasp_pose (AngleAxisY angle)) (Suc iterations) =
                takeWhile intersects
                  (map (\<lambda>k. rotate_pose ((?f ^^ k) grasp_pose) (AngleAxisY angle)) [0..<m])"
        using ih by (simp add: sw)
      show ?thesis
        unfolding m u using True under
        by (simp add: variable_angle_loop.simps [of intersects angle max_iterations grasp_pose iterations]
            ih' comp_def del: upt_Suc)
    qed
  qed
qed

lemma variable_angle_loop_from_zero:
  "variable_angle_loop intersects angle max_iterations grasp_pose 0 =
   takeWhile intersects
     (map (\<lambda>k. ((\<lambda>q. rotate_pose q (AngleAxisY angle)) ^^ k) grasp_pose)
        [0..<Suc max_iterations])"
  using variable_angle_loop_takeWhile [of 0 max_iterations intersects angle grasp_pose]
  by simp

lemma length_variable_angle_loop:
  "length (variable_angle_loop intersects angle max_iterations grasp_pose 0)
     \<le> max_iterations + 1"
proof -
  have "length (takeWhile intersects
     (map (\<lambda>k. ((\<lambda>q. rotate_pose q (AngleAxisY angle)) ^^ k) grasp_pose)
        [0..<Suc max_iterations])) \<le> length (map (\<lambda>k. ((\<lambda>q. rotate_pose q (AngleAxisY angle)) ^^ k) grasp_pose)
        [0..<Suc max_iterations])"
    by (rule length_takeWhile_le)
  then show ?thesis by (simp add: variable_angle_loop_from_zero del: upt_Suc)
qed

lemma length_variable_angle_loop_always:
  "length (variable_angle_loop (\<lambda>pose. True) angle max_iterations grasp_pose 0)
     = max_iterations + 1"
proof -
  have tw: "\<And>xs :: Isometry3d list. takeWhile (\<lambda>pose. True) xs = xs"
    by (simp add: takeWhile_eq_all_conv)
  show ?thesis
    by (simp add: variable_angle_loop_from_zero tw del: upt_Suc)
qed

lemma variable_angle_loop_all_intersect:
  "\<forall>pose\<in>set (variable_angle_loop intersects angle max_iterations grasp_pose 0).
     intersects pose"
  by (auto simp: variable_angle_loop_from_zero dest: set_takeWhileD simp del: upt_Suc)

lemma half_turn_ratio:
  assumes "0 < n"
  shows "pi / (real_of_int n * pi / 180) = 180 / real_of_int n"
  using assms by (simp add: field_simps)

lemma max_iterations_positive:
  assumes "0 < angle_resolution gd"
  shows "size_t_of_double (pi / angle_res_of gd + 1) =
           Some (nat \<lfloor>pi / angle_res_of gd\<rfloor> + 1)"
proof -
  let ?n = "angle_resolution gd"
  have q: "pi / angle_res_of gd = 180 / real_of_int ?n"
    unfolding angle_res_of_def using assms by (rule half_turn_ratio)
  have pos: "0 < 180 / real_of_int ?n" using assms by simp
  have "1 \<le> real_of_int ?n" using assms by simp
  then have le: "180 / real_of_int ?n \<le> 180" using assms by (simp add: field_simps)
  have lt: "180 / real_of_int ?n + 1 < 2 ^ 64" using le by simp
  have f0: "0 \<le> \<lfloor>180 / real_of_int ?n\<rfloor>" using pos by simp
  have "\<lfloor>180 / real_of_int ?n + 1\<rfloor> = \<lfloor>180 / real_of_int ?n\<rfloor> + 1" by simp
  then have "nat \<lfloor>180 / real_of_int ?n + 1\<rfloor> = nat \<lfloor>180 / real_of_int ?n\<rfloor> + 1"
    using f0 by (simp add: nat_add_distrib)
  moreover have "- 1 < 180 / real_of_int ?n + 1" using pos by linarith
  ultimately show ?thesis
    unfolding q size_t_of_double_def using lt by simp
qed

lemma length_variable_angle_sweep:
  "length (variable_angle_sweep cp d w h gd angle max_iterations base)
     \<le> 2 * (max_iterations + 1)"
  using length_variable_angle_loop
    [of "\<lambda>pose. graspIntersectionHelper cp d w h pose gd" angle max_iterations
      "rotate_pose base (AngleAxisY angle)"]
    length_variable_angle_loop
    [of "\<lambda>pose. graspIntersectionHelper cp d w h pose gd" "- angle" max_iterations
      "rotate_pose base (AngleAxisY (- angle))"]
  by (simp add: variable_angle_sweep_def)

text \<open>
  C4, as the code has it. For a positive angle resolution \<^verbatim>\<open>max_iterations\<close> is
  \<open>floor(pi / angle_res) + 1\<close>, and the loop leaves when \<^verbatim>\<open>iterations > max_iterations\<close>
  after a push. So, whatever the loop condition answers, a direction pushes at most
  \<open>floor(pi / angle_res) + 2\<close> poses, and exactly that many when the condition never
  fails. This is \<open>ceil(pi / angle_res) + 1\<close> unless \<open>pi / angle_res\<close> is an integer.
\<close>

theorem variable_angle_loop_bound:
  "0 < angle_resolution gd \<Longrightarrow>
   \<exists>M. size_t_of_double (pi / angle_res_of gd + 1) = Some M \<and>
       M = nat \<lfloor>pi / angle_res_of gd\<rfloor> + 1 \<and>
       (\<forall>intersects angle pose.
          length (variable_angle_loop intersects angle M pose 0)
            \<le> nat \<lfloor>pi / angle_res_of gd\<rfloor> + 2) \<and>
       (\<forall>angle pose.
          length (variable_angle_loop (\<lambda>p. True) angle M pose 0)
            = nat \<lfloor>pi / angle_res_of gd\<rfloor> + 2) \<and>
       (\<forall>cp d w h base.
          length (variable_angle_sweep cp d w h gd (angle_res_of gd) M base)
            \<le> 2 * (nat \<lfloor>pi / angle_res_of gd\<rfloor> + 2)) \<and>
       (pi / angle_res_of gd \<notin> \<int> \<longrightarrow>
          nat \<lfloor>pi / angle_res_of gd\<rfloor> + 2 = nat \<lceil>pi / angle_res_of gd\<rceil> + 1)"
proof -
  assume n: "0 < angle_resolution gd"
  let ?x = "pi / angle_res_of gd"
  let ?M = "nat \<lfloor>?x\<rfloor> + 1"
  have conv: "size_t_of_double (?x + 1) = Some ?M"
    using n by (rule max_iterations_positive)
  have b1: "\<forall>intersects angle pose.
      length (variable_angle_loop intersects angle ?M pose 0) \<le> nat \<lfloor>?x\<rfloor> + 2"
  proof (intro allI)
    fix intersects angle pose
    show "length (variable_angle_loop intersects angle ?M pose 0) \<le> nat \<lfloor>?x\<rfloor> + 2"
      using length_variable_angle_loop [of intersects angle ?M pose] by simp
  qed
  have b2: "\<forall>angle pose.
      length (variable_angle_loop (\<lambda>p. True) angle ?M pose 0) = nat \<lfloor>?x\<rfloor> + 2"
    by (simp add: length_variable_angle_loop_always)
  have b3: "\<forall>cp d w h base.
      length (variable_angle_sweep cp d w h gd (angle_res_of gd) ?M base)
        \<le> 2 * (nat \<lfloor>?x\<rfloor> + 2)"
  proof (intro allI)
    fix cp d w h base
    show "length (variable_angle_sweep cp d w h gd (angle_res_of gd) ?M base)
        \<le> 2 * (nat \<lfloor>?x\<rfloor> + 2)"
      using length_variable_angle_sweep [of cp d w h gd "angle_res_of gd" ?M base] by simp
  qed
  have xpos: "0 < ?x" using n by (simp add: angle_res_of_def)
  have b4: "?x \<notin> \<int> \<longrightarrow> nat \<lfloor>?x\<rfloor> + 2 = nat \<lceil>?x\<rceil> + 1"
  proof
    assume ni: "?x \<notin> \<int>"
    then have "?x \<noteq> of_int \<lfloor>?x\<rfloor>" by (metis Ints_of_int)
    then have c: "\<lceil>?x\<rceil> = \<lfloor>?x\<rfloor> + 1" by (simp add: ceiling_altdef)
    have "0 \<le> \<lfloor>?x\<rfloor>" using xpos by simp
    then show "nat \<lfloor>?x\<rfloor> + 2 = nat \<lceil>?x\<rceil> + 1"
      unfolding c by (simp add: nat_add_distrib)
  qed
  show ?thesis using conv b1 b2 b3 b4 by blast
qed

lemma example_half_turn:
  "pi / angle_res_of example_finger_data = 9 / 2"
  unfolding angle_res_of_def by (simp add: example_finger_data_def)

lemma right_angle_half_turn:
  "pi / angle_res_of (example_finger_data\<lparr>angle_resolution := 90\<rparr>) = 2"
  unfolding angle_res_of_def by simp

theorem variable_angle_loop_bound_witness:
  "0 < angle_resolution example_finger_data \<and>
   size_t_of_double (pi / angle_res_of example_finger_data + 1) = Some 5 \<and>
   length (variable_angle_loop (\<lambda>p. True) (angle_res_of example_finger_data) 5 Identity 0) = 6"
proof -
  have n: "0 < angle_resolution example_finger_data"
    by (simp add: example_finger_data_def)
  have f: "\<lfloor>(9::real) / 2\<rfloor> = 4" by (simp add: floor_eq_iff)
  show ?thesis
    using variable_angle_loop_bound [OF n] n unfolding example_half_turn f
    by auto
qed

theorem variable_angle_loop_counterexample:
  "size_t_of_double (pi / angle_res_of (example_finger_data\<lparr>angle_resolution := 90\<rparr>) + 1)
     = Some 3 \<and>
   length (variable_angle_loop (\<lambda>p. True)
             (angle_res_of (example_finger_data\<lparr>angle_resolution := 90\<rparr>)) 3 Identity 0) = 4 \<and>
   nat \<lceil>pi / angle_res_of (example_finger_data\<lparr>angle_resolution := 90\<rparr>)\<rceil> + 1 = 3"
proof -
  have "length (variable_angle_loop (\<lambda>p. True)
             (angle_res_of (example_finger_data\<lparr>angle_resolution := 90\<rparr>)) 3 Identity 0) = 4"
    by (simp add: length_variable_angle_loop_always)
  then show ?thesis
    unfolding right_angle_half_turn by (simp add: size_t_of_double_def)
qed

subsection \<open>Variable-angle sweep\<close>

lemma graspIntersectionHelper_last_face:
  "face_hit
     (plane_parameter (- depth / 2)
        (vx (inverse_apply cp (translation gp)))
        (vx (inverse_apply cp
               (vadd (translation gp)
                  (smul (grasp_max_depth gd) (mat_vec (rotation gp) UnitZ))))))
     (vy (inverse_apply cp (translation gp)))
     (vz (inverse_apply cp (translation gp)))
     (vy (inverse_apply cp
            (vadd (translation gp) (smul (grasp_max_depth gd) (mat_vec (rotation gp) UnitZ)))))
     (vz (inverse_apply cp
            (vadd (translation gp) (smul (grasp_max_depth gd) (mat_vec (rotation gp) UnitZ)))))
     width height \<Longrightarrow>
   graspIntersectionHelper cp depth width height gp gd"
  by (simp add: graspIntersectionHelper_def Let_def)

lemma face_counts_angle_resolution [simp]:
  "face_counts fr (gd\<lparr>angle_resolution := n\<rparr>) = face_counts fr gd"
  by (simp add: face_counts_def Let_def cong: if_cong)

lemma example_sweep_angle:
  "angle_res_of (example_finger_data\<lparr>angle_resolution := 45\<rparr>) = pi / 4"
  by (simp add: angle_res_of_def)

lemma example_face_stage_head:
  "\<exists>rest. face_stage Identity (7 / 10) (2 / 5) (3 / 10) Z_AXIS
            (example_finger_data\<lparr>angle_resolution := 45\<rparr>)
            (example_config\<lparr>enable_variable_angle_grasps := True\<rparr>) =
          Some (\<lparr>rotation = ((0, 0, 1), (1, 0, 0), (0, 1, 0)),
                  translation = (- (701 / 2000), - (3 / 20), 0)\<rparr> # rest)"
proof -
  have n: "0 < angle_resolution (example_finger_data\<lparr>angle_resolution := 45\<rparr>)" by simp
  have rc: "corner_stage Identity (7 / 10) (2 / 5) (3 / 10) Z_AXIS
            (example_finger_data\<lparr>angle_resolution := 45\<rparr>)
            (example_config\<lparr>enable_variable_angle_grasps := True\<rparr>) = Some []"
    by (simp add: corner_stage_def radial_count_positive(1) [OF n] example_config_def)
  have rot: "rotation (aligned_pose Identity (pi / 2, pi / 2, 0) 0 t) =
      ((0, 0, 1), (1, 0, 0), (0, 1, 0))" for t
    by (simp add: aligned_pose_def Let_def translate_global_def rotate_pose_def
        align_to_axis_def Identity_def mat_identity_def mat_mul_def mat_vec_def
        mat_transpose_def AngleAxisX_def AngleAxisY_def AngleAxisZ_def dot_def row1_def
        row2_def row3_def vx_def vy_def vz_def)
  show ?thesis
    apply (simp add: face_stage_def rc example_face_counts)
    apply (simp add: example_config_def face_grasps_def addFaceGraspsHelper_def Let_def
        example_axis_frame numeral_2_eq_2 translate_global_def)
    apply (rule Isometry3d.equality)
    apply (simp_all add: rot)
    apply (simp add: example_finger_data_def vadd_def vsub_def vneg_def smul_def vx_def
        vy_def vz_def Identity_def)
    done
qed

lemma sqrt2_scaled: "1 \<le> 60 * sqrt 2"
proof -
  have "1 < sqrt 2" by simp
  then show ?thesis by linarith
qed

lemma example_rotated_pose_intersects:
  "graspIntersectionHelper Identity (7 / 10) (2 / 5) (3 / 10)
     (rotate_pose \<lparr>rotation = ((0, 0, 1), (1, 0, 0), (0, 1, 0)),
                    translation = (- (701 / 2000), - (3 / 20), 0)\<rparr> (AngleAxisY (pi / 4)))
     (example_finger_data\<lparr>angle_resolution := 45\<rparr>)"
proof (rule graspIntersectionHelper_last_face)
  let ?gp = "rotate_pose \<lparr>rotation = ((0, 0, 1), (1, 0, 0), (0, 1, 0)),
                    translation = (- (701 / 2000), - (3 / 20), 0)\<rparr> (AngleAxisY (pi / 4))"
  let ?gd = "example_finger_data\<lparr>angle_resolution := 45\<rparr>"
  have pa: "inverse_apply Identity (translation ?gp) = (- (701 / 2000), - (3 / 20), 0)"
    by (simp add: inverse_apply_def Identity_def mat_identity_def rotate_pose_def
        mat_transpose_def mat_vec_def vsub_def dot_def row1_def row2_def row3_def vx_def
        vy_def vz_def)
  have pb: "inverse_apply Identity
              (vadd (translation ?gp)
                 (smul (grasp_max_depth ?gd) (mat_vec (rotation ?gp) UnitZ))) =
            (- (701 / 2000) + 3 / 50 * (sqrt 2 / 2), - (3 / 20) + 3 / 50 * (sqrt 2 / 2), 0)"
    by (simp add: inverse_apply_def Identity_def mat_identity_def rotate_pose_def
        mat_transpose_def mat_vec_def mat_mul_def AngleAxisY_def vsub_def vadd_def smul_def
        dot_def row1_def row2_def row3_def vx_def vy_def vz_def UnitZ_def
        example_finger_data_def cos_45 sin_45)
  show "face_hit
     (plane_parameter (- (7 / 10) / 2)
        (vx (inverse_apply Identity (translation ?gp)))
        (vx (inverse_apply Identity
               (vadd (translation ?gp)
                  (smul (grasp_max_depth ?gd) (mat_vec (rotation ?gp) UnitZ))))))
     (vy (inverse_apply Identity (translation ?gp)))
     (vz (inverse_apply Identity (translation ?gp)))
     (vy (inverse_apply Identity
            (vadd (translation ?gp) (smul (grasp_max_depth ?gd) (mat_vec (rotation ?gp) UnitZ)))))
     (vz (inverse_apply Identity
            (vadd (translation ?gp) (smul (grasp_max_depth ?gd) (mat_vec (rotation ?gp) UnitZ)))))
     (2 / 5) (3 / 10)"
    unfolding pa pb
    by (simp add: face_hit_def plane_parameter_def intersectionHelper_def vx_def vy_def
        vz_def Let_def sqrt2_scaled)
qed

lemma variable_angle_loop_first:
  "intersects pose \<Longrightarrow>
   \<exists>rest. variable_angle_loop intersects angle max_iterations pose 0 = pose # rest"
  by (subst variable_angle_loop.simps) simp

lemma variable_angle_sweep_first:
  "graspIntersectionHelper cp d w h (rotate_pose base (AngleAxisY angle)) gd \<Longrightarrow>
   \<exists>rest. variable_angle_sweep cp d w h gd angle max_iterations base =
            rotate_pose base (AngleAxisY angle) # rest"
proof -
  assume "graspIntersectionHelper cp d w h (rotate_pose base (AngleAxisY angle)) gd"
  then obtain r where
    "variable_angle_loop (\<lambda>p. graspIntersectionHelper cp d w h p gd) angle max_iterations
       (rotate_pose base (AngleAxisY angle)) 0 = rotate_pose base (AngleAxisY angle) # r"
    using variable_angle_loop_first
      [of "\<lambda>p. graspIntersectionHelper cp d w h p gd" "rotate_pose base (AngleAxisY angle)"]
    by blast
  then show ?thesis by (simp add: variable_angle_sweep_def)
qed

lemma graspIntersectionHelper_explicit:
  assumes pax: "pax = c11 * (gx - cx) + c21 * (gy - cy) + c31 * (gz - cz)"
    and pay: "pay = c12 * (gx - cx) + c22 * (gy - cy) + c32 * (gz - cz)"
    and paz: "paz = c13 * (gx - cx) + c23 * (gy - cy) + c33 * (gz - cz)"
    and pbx: "pbx = c11 * (gx + grasp_max_depth gd * g13 - cx) +
                    c21 * (gy + grasp_max_depth gd * g23 - cy) +
                    c31 * (gz + grasp_max_depth gd * g33 - cz)"
    and pby: "pby = c12 * (gx + grasp_max_depth gd * g13 - cx) +
                    c22 * (gy + grasp_max_depth gd * g23 - cy) +
                    c32 * (gz + grasp_max_depth gd * g33 - cz)"
    and pbz: "pbz = c13 * (gx + grasp_max_depth gd * g13 - cx) +
                    c23 * (gy + grasp_max_depth gd * g23 - cy) +
                    c33 * (gz + grasp_max_depth gd * g33 - cz)"
    and tz1: "tz1 = (h / 2 - paz) / (pbz - paz)"
    and tz2: "tz2 = (- h / 2 - paz) / (pbz - paz)"
    and ty1: "ty1 = (w / 2 - pay) / (pby - pay)"
    and ty2: "ty2 = (- w / 2 - pay) / (pby - pay)"
    and tx1: "tx1 = (d / 2 - pax) / (pbx - pax)"
    and tx2: "tx2 = (- d / 2 - pax) / (pbx - pax)"
  shows "graspIntersectionHelper
      \<lparr>rotation = ((c11, c12, c13), (c21, c22, c23), (c31, c32, c33)),
       translation = (cx, cy, cz)\<rparr> d w h
      \<lparr>rotation = ((g11, g12, g13), (g21, g22, g23), (g31, g32, g33)),
       translation = (gx, gy, gz)\<rparr> gd \<longleftrightarrow>
     (pbz \<noteq> paz \<and> 0 \<le> tz1 \<and> tz1 \<le> 1 \<and>
        - d / 2 \<le> pax + tz1 * (pbx - pax) \<and> pax + tz1 * (pbx - pax) \<le> d / 2 \<and>
        - w / 2 \<le> pay + tz1 * (pby - pay) \<and> pay + tz1 * (pby - pay) \<le> w / 2) \<or>
     (pbz \<noteq> paz \<and> 0 \<le> tz2 \<and> tz2 \<le> 1 \<and>
        - d / 2 \<le> pax + tz2 * (pbx - pax) \<and> pax + tz2 * (pbx - pax) \<le> d / 2 \<and>
        - w / 2 \<le> pay + tz2 * (pby - pay) \<and> pay + tz2 * (pby - pay) \<le> w / 2) \<or>
     (pby \<noteq> pay \<and> 0 \<le> ty1 \<and> ty1 \<le> 1 \<and>
        - d / 2 \<le> pax + ty1 * (pbx - pax) \<and> pax + ty1 * (pbx - pax) \<le> d / 2 \<and>
        - h / 2 \<le> paz + ty1 * (pbz - paz) \<and> paz + ty1 * (pbz - paz) \<le> h / 2) \<or>
     (pby \<noteq> pay \<and> 0 \<le> ty2 \<and> ty2 \<le> 1 \<and>
        - d / 2 \<le> pax + ty2 * (pbx - pax) \<and> pax + ty2 * (pbx - pax) \<le> d / 2 \<and>
        - h / 2 \<le> paz + ty2 * (pbz - paz) \<and> paz + ty2 * (pbz - paz) \<le> h / 2) \<or>
     (pbx \<noteq> pax \<and> 0 \<le> tx1 \<and> tx1 \<le> 1 \<and>
        - w / 2 \<le> pay + tx1 * (pby - pay) \<and> pay + tx1 * (pby - pay) \<le> w / 2 \<and>
        - h / 2 \<le> paz + tx1 * (pbz - paz) \<and> paz + tx1 * (pbz - paz) \<le> h / 2) \<or>
     (pbx \<noteq> pax \<and> 0 \<le> tx2 \<and> tx2 \<le> 1 \<and>
        - w / 2 \<le> pay + tx2 * (pby - pay) \<and> pay + tx2 * (pby - pay) \<le> w / 2 \<and>
        - h / 2 \<le> paz + tx2 * (pbz - paz) \<and> paz + tx2 * (pbz - paz) \<le> h / 2)"
proof -
  let ?cp = "\<lparr>rotation = ((c11, c12, c13), (c21, c22, c23), (c31, c32, c33)),
       translation = (cx, cy, cz)\<rparr>"
  let ?gp = "\<lparr>rotation = ((g11, g12, g13), (g21, g22, g23), (g31, g32, g33)),
       translation = (gx, gy, gz)\<rparr>"
  have pa: "inverse_apply ?cp (translation ?gp) = (pax, pay, paz)"
    by (simp add: inverse_apply_def mat_transpose_def mat_vec_def vsub_def dot_def row1_def
        row2_def row3_def vx_def vy_def vz_def pax pay paz)
  have pb: "inverse_apply ?cp
              (vadd (translation ?gp)
                 (smul (grasp_max_depth gd) (mat_vec (rotation ?gp) UnitZ))) =
            (pbx, pby, pbz)"
    by (simp add: inverse_apply_def mat_transpose_def mat_vec_def vsub_def vadd_def smul_def
        dot_def row1_def row2_def row3_def vx_def vy_def vz_def UnitZ_def pbx pby pbz)
  have hit: "face_hit (plane_parameter offset a b) u1 v1 u2 v2 ea eb \<longleftrightarrow>
      (b \<noteq> a \<and> 0 \<le> (offset - a) / (b - a) \<and> (offset - a) / (b - a) \<le> 1 \<and>
       - ea / 2 \<le> u1 + (offset - a) / (b - a) * (u2 - u1) \<and>
       u1 + (offset - a) / (b - a) * (u2 - u1) \<le> ea / 2 \<and>
       - eb / 2 \<le> v1 + (offset - a) / (b - a) * (v2 - v1) \<and>
       v1 + (offset - a) / (b - a) * (v2 - v1) \<le> eb / 2)"
    for offset a b u1 v1 u2 v2 ea eb :: real
    by (auto simp: face_hit_def plane_parameter_def intersectionHelper_def Let_def)
  have sel: "vx (pax, pay, paz) = pax" "vy (pax, pay, paz) = pay" "vz (pax, pay, paz) = paz"
    "vx (pbx, pby, pbz) = pbx" "vy (pbx, pby, pbz) = pby" "vz (pbx, pby, pbz) = pbz"
    by (simp_all add: vx_def vy_def vz_def)
  have chain: "(if a then True else if b then True else if c then True else if d then True
                else if e then True else if f then True else False) =
               (a \<or> b \<or> c \<or> d \<or> e \<or> f)" for a b c d e f
    by simp
  show ?thesis
    unfolding graspIntersectionHelper_def Let_def pa pb sel hit tz1 tz2 ty1 ty2 tx1 tx2
    by (rule chain)
qed

lemma rotate_pose_explicit:
  "rotate_pose \<lparr>rotation = ((g11, g12, g13), (g21, g22, g23), (g31, g32, g33)),
                translation = t\<rparr> (AngleAxisY a) =
   \<lparr>rotation = ((g11 * cos a - g13 * sin a, g12, g11 * sin a + g13 * cos a),
                (g21 * cos a - g23 * sin a, g22, g21 * sin a + g23 * cos a),
                (g31 * cos a - g33 * sin a, g32, g31 * sin a + g33 * cos a)),
    translation = t\<rparr>"
  by (simp add: rotate_pose_def AngleAxisY_def mat_mul_def mat_vec_def mat_transpose_def
      dot_def row1_def row2_def row3_def vx_def vy_def vz_def)

lemma face_grasps_append:
  "face_grasps cp fr gd off da db n poses = poses @ face_grasps cp fr gd off da db n []"
  by (simp add: face_grasps_def addFaceGraspsHelper_def Let_def)

lemma edge_grasps_append:
  "edge_grasps cp fr axis gd off da db n poses =
   poses @ edge_grasps cp fr axis gd off da db n []"
  by (simp add: edge_grasps_def addEdgeGraspsHelper_def Let_def)

lemma sweep_stage_structure:
  assumes n: "0 < angle_resolution gd"
    and fc: "face_counts (axis_frame cp d w h axis) gd = Some fc"
    and va: "enable_variable_angle_grasps config"
    and faces: "faces = (if enable_face_grasps config
                  then face_grasps cp (axis_frame cp d w h axis) gd 0.001 (delta_a fc)
                         (delta_b fc) (num_grasps_along_b fc) []
                  else [])"
    and edges: "edges = (if enable_edge_grasps config
                  then edge_grasps cp (axis_frame cp d w h axis) axis gd 0.001 (delta_a fc)
                         (delta_b fc) (num_grasps_along_b fc) []
                  else [])"
  shows "\<exists>corner.
      corner_stage cp d w h axis gd config = Some corner \<and>
      face_stage cp d w h axis gd config = Some (corner @ faces) \<and>
      variable_angle_stage cp d w h axis gd config =
        Some (corner @ faces @
              concat (map (variable_angle_sweep cp d w h gd (angle_res_of gd)
                             (nat \<lfloor>pi / angle_res_of gd\<rfloor> + 1)) faces)) \<and>
      edge_stage cp d w h axis gd config =
        Some (corner @ faces @
              concat (map (variable_angle_sweep cp d w h gd (angle_res_of gd)
                             (nat \<lfloor>pi / angle_res_of gd\<rfloor> + 1)) faces) @ edges)"
proof -
  obtain corner where cs: "corner_stage cp d w h axis gd config = Some corner"
    by (simp add: corner_stage_def radial_count_positive(1) [OF n])
  have fs: "face_stage cp d w h axis gd config = Some (corner @ faces)"
    using face_grasps_append [of cp "axis_frame cp d w h axis" gd "0.001" "delta_a fc"
        "delta_b fc" "num_grasps_along_b fc" corner]
    by (simp add: face_stage_def cs fc faces)
  have vs: "variable_angle_stage cp d w h axis gd config =
        Some (corner @ faces @
              concat (map (variable_angle_sweep cp d w h gd (angle_res_of gd)
                             (nat \<lfloor>pi / angle_res_of gd\<rfloor> + 1)) faces))"
    by (simp add: variable_angle_stage_def cs fs va variable_angle_grasps_def
        max_iterations_positive [OF n])
  have es: "edge_stage cp d w h axis gd config =
        Some (corner @ faces @
              concat (map (variable_angle_sweep cp d w h gd (angle_res_of gd)
                             (nat \<lfloor>pi / angle_res_of gd\<rfloor> + 1)) faces) @ edges)"
    using edge_grasps_append [of cp "axis_frame cp d w h axis" axis gd "0.001" "delta_a fc"
        "delta_b fc" "num_grasps_along_b fc"
        "corner @ faces @
         concat (map (variable_angle_sweep cp d w h gd (angle_res_of gd)
                        (nat \<lfloor>pi / angle_res_of gd\<rfloor> + 1)) faces)"]
    by (simp add: edge_stage_def vs fc edges)
  from cs fs vs es show ?thesis by blast
qed


lemma variable_angle_sweep_takeWhile:
  "variable_angle_sweep cp d w h gd angle max_iterations base =
     takeWhile (\<lambda>p. graspIntersectionHelper cp d w h p gd)
       (map (\<lambda>k. ((\<lambda>q. rotate_pose q (AngleAxisY angle)) ^^ k)
                  (rotate_pose base (AngleAxisY angle)))
          [0..<Suc max_iterations]) @
     takeWhile (\<lambda>p. graspIntersectionHelper cp d w h p gd)
       (map (\<lambda>k. ((\<lambda>q. rotate_pose q (AngleAxisY (- angle))) ^^ k)
                  (rotate_pose base (AngleAxisY (- angle))))
          [0..<Suc max_iterations])"
  unfolding variable_angle_sweep_def variable_angle_loop_from_zero ..

lemma variable_angle_sweep_all_cross:
  "\<forall>p\<in>set (variable_angle_sweep cp d w h gd angle max_iterations base).
      graspIntersectionHelper cp d w h p gd"
proof
  fix p
  assume "p \<in> set (variable_angle_sweep cp d w h gd angle max_iterations base)"
  then have "p \<in> set (variable_angle_loop (\<lambda>p. graspIntersectionHelper cp d w h p gd)
                      angle max_iterations (rotate_pose base (AngleAxisY angle)) 0) \<or>
             p \<in> set (variable_angle_loop (\<lambda>p. graspIntersectionHelper cp d w h p gd)
                      (- angle) max_iterations (rotate_pose base (AngleAxisY (- angle))) 0)"
    unfolding variable_angle_sweep_def set_append Un_iff .
  then show "graspIntersectionHelper cp d w h p gd"
  proof
    assume "p \<in> set (variable_angle_loop (\<lambda>p. graspIntersectionHelper cp d w h p gd)
                      angle max_iterations (rotate_pose base (AngleAxisY angle)) 0)"
    with variable_angle_loop_all_intersect show ?thesis by (rule bspec)
  next
    assume "p \<in> set (variable_angle_loop (\<lambda>p. graspIntersectionHelper cp d w h p gd)
                      (- angle) max_iterations (rotate_pose base (AngleAxisY (- angle))) 0)"
    with variable_angle_loop_all_intersect show ?thesis by (rule bspec)
  qed
qed

text \<open>
  C3, as the code has it. \<^verbatim>\<open>graspIntersectionHelper\<close> takes the segment from the grasp
  point \<open>a\<close> to the fingertip \<open>b\<close> at maximum depth along the Z axis of the grasp pose, both
  in the frame of the cuboid, and is true exactly when the segment crosses one of the six
  faces: the plane of the face is met at a parameter in \<open>[0, 1]\<close> and the point met lies
  within the two half-extents of the face. It is the condition of the two loops of the
  sweep, and each loop step turns the pose about its Y axis. So in each direction the
  successive rotations of the base pose are added as long as the segment crosses a face;
  the direction stops at the first rotation whose segment crosses no face, which is not
  added, or at the iteration cap, and every pose the sweep adds has a segment that
  crosses a face. The base poses are the poses of the face stage: the corner poses come
  before them and are skipped, and the edge poses are added after the sweep.
\<close>

theorem variable_angle_sweep_keeps_crossing:
  "cp = \<lparr>rotation = ((c11, c12, c13), (c21, c22, c23), (c31, c32, c33)),
         translation = (cx, cy, cz)\<rparr> \<Longrightarrow>
   gp = \<lparr>rotation = ((g11, g12, g13), (g21, g22, g23), (g31, g32, g33)),
         translation = (gx, gy, gz)\<rparr> \<Longrightarrow>
   pax = c11 * (gx - cx) + c21 * (gy - cy) + c31 * (gz - cz) \<Longrightarrow>
   pay = c12 * (gx - cx) + c22 * (gy - cy) + c32 * (gz - cz) \<Longrightarrow>
   paz = c13 * (gx - cx) + c23 * (gy - cy) + c33 * (gz - cz) \<Longrightarrow>
   pbx = c11 * (gx + grasp_max_depth gd * g13 - cx) +
         c21 * (gy + grasp_max_depth gd * g23 - cy) +
         c31 * (gz + grasp_max_depth gd * g33 - cz) \<Longrightarrow>
   pby = c12 * (gx + grasp_max_depth gd * g13 - cx) +
         c22 * (gy + grasp_max_depth gd * g23 - cy) +
         c32 * (gz + grasp_max_depth gd * g33 - cz) \<Longrightarrow>
   pbz = c13 * (gx + grasp_max_depth gd * g13 - cx) +
         c23 * (gy + grasp_max_depth gd * g23 - cy) +
         c33 * (gz + grasp_max_depth gd * g33 - cz) \<Longrightarrow>
   tz1 = (h / 2 - paz) / (pbz - paz) \<Longrightarrow>
   tz2 = (- h / 2 - paz) / (pbz - paz) \<Longrightarrow>
   ty1 = (w / 2 - pay) / (pby - pay) \<Longrightarrow>
   ty2 = (- w / 2 - pay) / (pby - pay) \<Longrightarrow>
   tx1 = (d / 2 - pax) / (pbx - pax) \<Longrightarrow>
   tx2 = (- d / 2 - pax) / (pbx - pax) \<Longrightarrow>
   faces = (if enable_face_grasps config
            then face_grasps cp (axis_frame cp d w h axis) gd 0.001 (delta_a fc) (delta_b fc)
                   (num_grasps_along_b fc) []
            else []) \<Longrightarrow>
   edges = (if enable_edge_grasps config
            then edge_grasps cp (axis_frame cp d w h axis) axis gd 0.001 (delta_a fc)
                   (delta_b fc) (num_grasps_along_b fc) []
            else []) \<Longrightarrow>
   (graspIntersectionHelper cp d w h gp gd \<longleftrightarrow>
     (pbz \<noteq> paz \<and> 0 \<le> tz1 \<and> tz1 \<le> 1 \<and>
        - d / 2 \<le> pax + tz1 * (pbx - pax) \<and> pax + tz1 * (pbx - pax) \<le> d / 2 \<and>
        - w / 2 \<le> pay + tz1 * (pby - pay) \<and> pay + tz1 * (pby - pay) \<le> w / 2) \<or>
     (pbz \<noteq> paz \<and> 0 \<le> tz2 \<and> tz2 \<le> 1 \<and>
        - d / 2 \<le> pax + tz2 * (pbx - pax) \<and> pax + tz2 * (pbx - pax) \<le> d / 2 \<and>
        - w / 2 \<le> pay + tz2 * (pby - pay) \<and> pay + tz2 * (pby - pay) \<le> w / 2) \<or>
     (pby \<noteq> pay \<and> 0 \<le> ty1 \<and> ty1 \<le> 1 \<and>
        - d / 2 \<le> pax + ty1 * (pbx - pax) \<and> pax + ty1 * (pbx - pax) \<le> d / 2 \<and>
        - h / 2 \<le> paz + ty1 * (pbz - paz) \<and> paz + ty1 * (pbz - paz) \<le> h / 2) \<or>
     (pby \<noteq> pay \<and> 0 \<le> ty2 \<and> ty2 \<le> 1 \<and>
        - d / 2 \<le> pax + ty2 * (pbx - pax) \<and> pax + ty2 * (pbx - pax) \<le> d / 2 \<and>
        - h / 2 \<le> paz + ty2 * (pbz - paz) \<and> paz + ty2 * (pbz - paz) \<le> h / 2) \<or>
     (pbx \<noteq> pax \<and> 0 \<le> tx1 \<and> tx1 \<le> 1 \<and>
        - w / 2 \<le> pay + tx1 * (pby - pay) \<and> pay + tx1 * (pby - pay) \<le> w / 2 \<and>
        - h / 2 \<le> paz + tx1 * (pbz - paz) \<and> paz + tx1 * (pbz - paz) \<le> h / 2) \<or>
     (pbx \<noteq> pax \<and> 0 \<le> tx2 \<and> tx2 \<le> 1 \<and>
        - w / 2 \<le> pay + tx2 * (pby - pay) \<and> pay + tx2 * (pby - pay) \<le> w / 2 \<and>
        - h / 2 \<le> paz + tx2 * (pbz - paz) \<and> paz + tx2 * (pbz - paz) \<le> h / 2)) \<and>
   rotate_pose gp (AngleAxisY angle) =
     \<lparr>rotation = ((g11 * cos angle - g13 * sin angle, g12, g11 * sin angle + g13 * cos angle),
                  (g21 * cos angle - g23 * sin angle, g22, g21 * sin angle + g23 * cos angle),
                  (g31 * cos angle - g33 * sin angle, g32, g31 * sin angle + g33 * cos angle)),
      translation = (gx, gy, gz)\<rparr> \<and>
   variable_angle_sweep cp d w h gd angle max_iterations base =
     takeWhile (\<lambda>p. graspIntersectionHelper cp d w h p gd)
       (map (\<lambda>k. ((\<lambda>q. rotate_pose q (AngleAxisY angle)) ^^ k)
                  (rotate_pose base (AngleAxisY angle)))
          [0..<Suc max_iterations]) @
     takeWhile (\<lambda>p. graspIntersectionHelper cp d w h p gd)
       (map (\<lambda>k. ((\<lambda>q. rotate_pose q (AngleAxisY (- angle))) ^^ k)
                  (rotate_pose base (AngleAxisY (- angle))))
          [0..<Suc max_iterations]) \<and>
   (\<forall>p\<in>set (variable_angle_sweep cp d w h gd angle max_iterations base).
      graspIntersectionHelper cp d w h p gd) \<and>
   (0 < angle_resolution gd \<and> face_counts (axis_frame cp d w h axis) gd = Some fc \<and>
    enable_variable_angle_grasps config \<longrightarrow>
      (\<exists>corner.
        corner_stage cp d w h axis gd config = Some corner \<and>
        face_stage cp d w h axis gd config = Some (corner @ faces) \<and>
        variable_angle_stage cp d w h axis gd config =
          Some (corner @ faces @
                concat (map (variable_angle_sweep cp d w h gd (angle_res_of gd)
                               (nat \<lfloor>pi / angle_res_of gd\<rfloor> + 1)) faces)) \<and>
        edge_stage cp d w h axis gd config =
          Some (corner @ faces @
                concat (map (variable_angle_sweep cp d w h gd (angle_res_of gd)
                               (nat \<lfloor>pi / angle_res_of gd\<rfloor> + 1)) faces) @ edges)))"
proof -
  assume cp_eq: "cp = \<lparr>rotation = ((c11, c12, c13), (c21, c22, c23), (c31, c32, c33)),
         translation = (cx, cy, cz)\<rparr>"
    and gp_eq: "gp = \<lparr>rotation = ((g11, g12, g13), (g21, g22, g23), (g31, g32, g33)),
         translation = (gx, gy, gz)\<rparr>"
    and pax_eq: "pax = c11 * (gx - cx) + c21 * (gy - cy) + c31 * (gz - cz)"
    and pay_eq: "pay = c12 * (gx - cx) + c22 * (gy - cy) + c32 * (gz - cz)"
    and paz_eq: "paz = c13 * (gx - cx) + c23 * (gy - cy) + c33 * (gz - cz)"
    and pbx_eq: "pbx = c11 * (gx + grasp_max_depth gd * g13 - cx) +
         c21 * (gy + grasp_max_depth gd * g23 - cy) +
         c31 * (gz + grasp_max_depth gd * g33 - cz)"
    and pby_eq: "pby = c12 * (gx + grasp_max_depth gd * g13 - cx) +
         c22 * (gy + grasp_max_depth gd * g23 - cy) +
         c32 * (gz + grasp_max_depth gd * g33 - cz)"
    and pbz_eq: "pbz = c13 * (gx + grasp_max_depth gd * g13 - cx) +
         c23 * (gy + grasp_max_depth gd * g23 - cy) +
         c33 * (gz + grasp_max_depth gd * g33 - cz)"
    and tz1_eq: "tz1 = (h / 2 - paz) / (pbz - paz)"
    and tz2_eq: "tz2 = (- h / 2 - paz) / (pbz - paz)"
    and ty1_eq: "ty1 = (w / 2 - pay) / (pby - pay)"
    and ty2_eq: "ty2 = (- w / 2 - pay) / (pby - pay)"
    and tx1_eq: "tx1 = (d / 2 - pax) / (pbx - pax)"
    and tx2_eq: "tx2 = (- d / 2 - pax) / (pbx - pax)"
    and faces_eq: "faces = (if enable_face_grasps config
            then face_grasps cp (axis_frame cp d w h axis) gd 0.001 (delta_a fc) (delta_b fc)
                   (num_grasps_along_b fc) []
            else [])"
    and edges_eq: "edges = (if enable_edge_grasps config
            then edge_grasps cp (axis_frame cp d w h axis) axis gd 0.001 (delta_a fc)
                   (delta_b fc) (num_grasps_along_b fc) []
            else [])"
  have c1: "graspIntersectionHelper cp d w h gp gd \<longleftrightarrow>
     (pbz \<noteq> paz \<and> 0 \<le> tz1 \<and> tz1 \<le> 1 \<and>
        - d / 2 \<le> pax + tz1 * (pbx - pax) \<and> pax + tz1 * (pbx - pax) \<le> d / 2 \<and>
        - w / 2 \<le> pay + tz1 * (pby - pay) \<and> pay + tz1 * (pby - pay) \<le> w / 2) \<or>
     (pbz \<noteq> paz \<and> 0 \<le> tz2 \<and> tz2 \<le> 1 \<and>
        - d / 2 \<le> pax + tz2 * (pbx - pax) \<and> pax + tz2 * (pbx - pax) \<le> d / 2 \<and>
        - w / 2 \<le> pay + tz2 * (pby - pay) \<and> pay + tz2 * (pby - pay) \<le> w / 2) \<or>
     (pby \<noteq> pay \<and> 0 \<le> ty1 \<and> ty1 \<le> 1 \<and>
        - d / 2 \<le> pax + ty1 * (pbx - pax) \<and> pax + ty1 * (pbx - pax) \<le> d / 2 \<and>
        - h / 2 \<le> paz + ty1 * (pbz - paz) \<and> paz + ty1 * (pbz - paz) \<le> h / 2) \<or>
     (pby \<noteq> pay \<and> 0 \<le> ty2 \<and> ty2 \<le> 1 \<and>
        - d / 2 \<le> pax + ty2 * (pbx - pax) \<and> pax + ty2 * (pbx - pax) \<le> d / 2 \<and>
        - h / 2 \<le> paz + ty2 * (pbz - paz) \<and> paz + ty2 * (pbz - paz) \<le> h / 2) \<or>
     (pbx \<noteq> pax \<and> 0 \<le> tx1 \<and> tx1 \<le> 1 \<and>
        - w / 2 \<le> pay + tx1 * (pby - pay) \<and> pay + tx1 * (pby - pay) \<le> w / 2 \<and>
        - h / 2 \<le> paz + tx1 * (pbz - paz) \<and> paz + tx1 * (pbz - paz) \<le> h / 2) \<or>
     (pbx \<noteq> pax \<and> 0 \<le> tx2 \<and> tx2 \<le> 1 \<and>
        - w / 2 \<le> pay + tx2 * (pby - pay) \<and> pay + tx2 * (pby - pay) \<le> w / 2 \<and>
        - h / 2 \<le> paz + tx2 * (pbz - paz) \<and> paz + tx2 * (pbz - paz) \<le> h / 2)"
    unfolding cp_eq gp_eq
    by (rule graspIntersectionHelper_explicit
        [OF pax_eq pay_eq paz_eq pbx_eq pby_eq pbz_eq tz1_eq tz2_eq ty1_eq ty2_eq tx1_eq tx2_eq])
  have c2: "rotate_pose gp (AngleAxisY angle) =
     \<lparr>rotation = ((g11 * cos angle - g13 * sin angle, g12, g11 * sin angle + g13 * cos angle),
                  (g21 * cos angle - g23 * sin angle, g22, g21 * sin angle + g23 * cos angle),
                  (g31 * cos angle - g33 * sin angle, g32, g31 * sin angle + g33 * cos angle)),
      translation = (gx, gy, gz)\<rparr>"
    unfolding gp_eq by (rule rotate_pose_explicit)
  have c3: "variable_angle_sweep cp d w h gd angle max_iterations base =
     takeWhile (\<lambda>p. graspIntersectionHelper cp d w h p gd)
       (map (\<lambda>k. ((\<lambda>q. rotate_pose q (AngleAxisY angle)) ^^ k)
                  (rotate_pose base (AngleAxisY angle)))
          [0..<Suc max_iterations]) @
     takeWhile (\<lambda>p. graspIntersectionHelper cp d w h p gd)
       (map (\<lambda>k. ((\<lambda>q. rotate_pose q (AngleAxisY (- angle))) ^^ k)
                  (rotate_pose base (AngleAxisY (- angle))))
          [0..<Suc max_iterations])"
    by (rule variable_angle_sweep_takeWhile)
  have c4: "\<forall>p\<in>set (variable_angle_sweep cp d w h gd angle max_iterations base).
      graspIntersectionHelper cp d w h p gd"
    by (rule variable_angle_sweep_all_cross)
  have c5: "\<exists>corner.
        corner_stage cp d w h axis gd config = Some corner \<and>
        face_stage cp d w h axis gd config = Some (corner @ faces) \<and>
        variable_angle_stage cp d w h axis gd config =
          Some (corner @ faces @
                concat (map (variable_angle_sweep cp d w h gd (angle_res_of gd)
                               (nat \<lfloor>pi / angle_res_of gd\<rfloor> + 1)) faces)) \<and>
        edge_stage cp d w h axis gd config =
          Some (corner @ faces @
                concat (map (variable_angle_sweep cp d w h gd (angle_res_of gd)
                               (nat \<lfloor>pi / angle_res_of gd\<rfloor> + 1)) faces) @ edges)"
    if "0 < angle_resolution gd \<and> face_counts (axis_frame cp d w h axis) gd = Some fc \<and>
    enable_variable_angle_grasps config"
    using that sweep_stage_structure [OF _ _ _ faces_eq edges_eq] by blast
  from c1 c2 c3 c4 c5 show ?thesis by blast
qed


theorem variable_angle_sweep_keeps_crossing_witness:
  "graspIntersectionHelper Identity (7 / 10) (2 / 5) (3 / 10)
     \<lparr>rotation = ((1, 0, 0), (0, 1, 0), (0, 0, 1)), translation = (0, 0, - (9 / 50))\<rparr>
     (example_finger_data\<lparr>angle_resolution := 45\<rparr>) \<and>
   \<not> graspIntersectionHelper Identity (7 / 10) (2 / 5) (3 / 10)
     \<lparr>rotation = ((1, 0, 0), (0, 1, 0), (0, 0, 1)), translation = (0, 0, - 1)\<rparr>
     (example_finger_data\<lparr>angle_resolution := 45\<rparr>) \<and>
   rotate_pose \<lparr>rotation = ((1, 0, 0), (0, 1, 0), (0, 0, 1)),
                 translation = (0, 0, - (9 / 50))\<rparr> (AngleAxisY (pi / 2)) =
     \<lparr>rotation = ((0, 0, 1), (0, 1, 0), (- 1, 0, 0)), translation = (0, 0, - (9 / 50))\<rparr> \<and>
   (\<exists>corner faces.
      face_stage Identity (7 / 10) (2 / 5) (3 / 10) Z_AXIS (example_finger_data\<lparr>angle_resolution := 45\<rparr>) (example_config\<lparr>enable_variable_angle_grasps := True\<rparr>) = Some (corner @ faces) \<and>
      variable_angle_stage Identity (7 / 10) (2 / 5) (3 / 10) Z_AXIS (example_finger_data\<lparr>angle_resolution := 45\<rparr>) (example_config\<lparr>enable_variable_angle_grasps := True\<rparr>) =
        Some (corner @ faces @
              concat (map (variable_angle_sweep Identity (7 / 10) (2 / 5) (3 / 10) (example_finger_data\<lparr>angle_resolution := 45\<rparr>)
                             (angle_res_of (example_finger_data\<lparr>angle_resolution := 45\<rparr>)) (nat \<lfloor>pi / angle_res_of (example_finger_data\<lparr>angle_resolution := 45\<rparr>)\<rfloor> + 1))
                        faces)))"
proof -
  let ?gd = "(example_finger_data\<lparr>angle_resolution := 45\<rparr>)"
  let ?cfg = "(example_config\<lparr>enable_variable_angle_grasps := True\<rparr>)"
  let ?fc = "\<lparr>num_grasps_along_a = 3, num_grasps_along_b = 2, delta_a = 3 / 10,
              delta_b = 3 / 10\<rparr>"
  have cp: "Identity = \<lparr>rotation = ((1, 0, 0), (0, 1, 0), (0, 0, 1)),
                         translation = (0, 0, 0)\<rparr>"
    by (simp add: Identity_def mat_identity_def)
  have D: "grasp_max_depth ?gd = 3 / 50"
    by (simp add: example_finger_data_def)
  have n: "0 < angle_resolution ?gd" by simp
  have fc: "face_counts (axis_frame Identity (7 / 10) (2 / 5) (3 / 10) Z_AXIS) ?gd = Some ?fc"
    by (simp add: example_face_counts)
  have va: "enable_variable_angle_grasps ?cfg" by simp
  note inside = variable_angle_sweep_keeps_crossing
    [where cp = Identity and ?c11.0 = 1 and ?c12.0 = 0 and ?c13.0 = 0 and ?c21.0 = 0
      and ?c22.0 = 1 and ?c23.0 = 0 and ?c31.0 = 0 and ?c32.0 = 0 and ?c33.0 = 1
      and cx = 0 and cy = 0 and cz = 0
      and ?g11.0 = 1 and ?g12.0 = 0 and ?g13.0 = 0 and ?g21.0 = 0 and ?g22.0 = 1
      and ?g23.0 = 0 and ?g31.0 = 0 and ?g32.0 = 0 and ?g33.0 = 1
      and gx = 0 and gy = 0 and gz = "- (9 / 50)"
      and d = "7 / 10" and w = "2 / 5" and h = "3 / 10" and gd = ?gd and angle = "pi / 2"
      and config = ?cfg and axis = Z_AXIS and fc = ?fc,
      OF cp refl refl refl refl refl refl refl refl refl refl refl refl refl refl refl]
  note outside = variable_angle_sweep_keeps_crossing
    [where cp = Identity and ?c11.0 = 1 and ?c12.0 = 0 and ?c13.0 = 0 and ?c21.0 = 0
      and ?c22.0 = 1 and ?c23.0 = 0 and ?c31.0 = 0 and ?c32.0 = 0 and ?c33.0 = 1
      and cx = 0 and cy = 0 and cz = 0
      and ?g11.0 = 1 and ?g12.0 = 0 and ?g13.0 = 0 and ?g21.0 = 0 and ?g22.0 = 1
      and ?g23.0 = 0 and ?g31.0 = 0 and ?g32.0 = 0 and ?g33.0 = 1
      and gx = 0 and gy = 0 and gz = "- 1"
      and d = "7 / 10" and w = "2 / 5" and h = "3 / 10" and gd = ?gd and angle = "pi / 2"
      and config = ?cfg and axis = Z_AXIS and fc = ?fc,
      OF cp refl refl refl refl refl refl refl refl refl refl refl refl refl refl refl]
  have a: "graspIntersectionHelper Identity (7 / 10) (2 / 5) (3 / 10)
     \<lparr>rotation = ((1, 0, 0), (0, 1, 0), (0, 0, 1)), translation = (0, 0, - (9 / 50))\<rparr> ?gd"
    using inside [THEN conjunct1] by (simp add: D)
  have b: "\<not> graspIntersectionHelper Identity (7 / 10) (2 / 5) (3 / 10)
     \<lparr>rotation = ((1, 0, 0), (0, 1, 0), (0, 0, 1)), translation = (0, 0, - 1)\<rparr> ?gd"
    using outside [THEN conjunct1] by (simp add: D)
  have c: "rotate_pose \<lparr>rotation = ((1, 0, 0), (0, 1, 0), (0, 0, 1)),
                 translation = (0, 0, - (9 / 50))\<rparr> (AngleAxisY (pi / 2)) =
     \<lparr>rotation = ((0, 0, 1), (0, 1, 0), (- 1, 0, 0)), translation = (0, 0, - (9 / 50))\<rparr>"
    using inside [THEN conjunct2, THEN conjunct1] by simp
  from inside [THEN conjunct2, THEN conjunct2, THEN conjunct2, THEN conjunct2] n fc va
  have e: "\<exists>corner faces.
      face_stage Identity (7 / 10) (2 / 5) (3 / 10) Z_AXIS ?gd ?cfg = Some (corner @ faces) \<and>
      variable_angle_stage Identity (7 / 10) (2 / 5) (3 / 10) Z_AXIS ?gd ?cfg =
        Some (corner @ faces @
              concat (map (variable_angle_sweep Identity (7 / 10) (2 / 5) (3 / 10) ?gd
                             (angle_res_of ?gd) (nat \<lfloor>pi / angle_res_of ?gd\<rfloor> + 1))
                        faces))"
    by blast
  from a b c e show ?thesis by (intro conjI)
qed

theorem variable_angle_sweep_counterexample:
  "graspIntersectionHelper Identity (7 / 10) (2 / 5) (3 / 10)
     (rotate_pose \<lparr>rotation = ((0, 0, 1), (1, 0, 0), (0, 1, 0)),
                    translation = (- (701 / 2000), - (3 / 20), 0)\<rparr> (AngleAxisY (pi / 4)))
     (example_finger_data\<lparr>angle_resolution := 45\<rparr>) \<and>
   map_option
     (\<lambda>poses. rotate_pose \<lparr>rotation = ((0, 0, 1), (1, 0, 0), (0, 1, 0)),
                             translation = (- (701 / 2000), - (3 / 20), 0)\<rparr>
                 (AngleAxisY (pi / 4)) \<in> set poses)
     (variable_angle_stage Identity (7 / 10) (2 / 5) (3 / 10) Z_AXIS
        (example_finger_data\<lparr>angle_resolution := 45\<rparr>)
        (example_config\<lparr>enable_variable_angle_grasps := True\<rparr>)) = Some True"
proof -
  let ?gd = "example_finger_data\<lparr>angle_resolution := 45\<rparr>"
  let ?cfg = "example_config\<lparr>enable_variable_angle_grasps := True\<rparr>"
  let ?base = "\<lparr>rotation = ((0, 0, 1), (1, 0, 0), (0, 1, 0)),
                translation = (- (701 / 2000), - (3 / 20), 0)\<rparr>"
  have n: "0 < angle_resolution ?gd" by simp
  from example_face_stage_head
  obtain rest where fs: "face_stage Identity (7 / 10) (2 / 5) (3 / 10) Z_AXIS ?gd ?cfg =
      Some (?base # rest)" ..
  have cs: "corner_stage Identity (7 / 10) (2 / 5) (3 / 10) Z_AXIS ?gd ?cfg = Some []"
    by (simp add: corner_stage_def radial_count_positive(1) [OF n] example_config_def)
  obtain M where M: "size_t_of_double (pi / angle_res_of ?gd + 1) = Some M"
    using max_iterations_positive [OF n] by simp
  from variable_angle_sweep_first [OF example_rotated_pose_intersects, of M]
  obtain r where sw: "variable_angle_sweep Identity (7 / 10) (2 / 5) (3 / 10) ?gd (pi / 4) M
      ?base = rotate_pose ?base (AngleAxisY (pi / 4)) # r" ..
  have "variable_angle_stage Identity (7 / 10) (2 / 5) (3 / 10) Z_AXIS ?gd ?cfg =
      Some ((?base # rest) @
            concat (map (variable_angle_sweep Identity (7 / 10) (2 / 5) (3 / 10) ?gd
                           (angle_res_of ?gd) M) (?base # rest)))"
    by (simp add: variable_angle_stage_def cs fs variable_angle_grasps_def M)
  then have "map_option
     (\<lambda>poses. rotate_pose ?base (AngleAxisY (pi / 4)) \<in> set poses)
     (variable_angle_stage Identity (7 / 10) (2 / 5) (3 / 10) Z_AXIS ?gd ?cfg) = Some True"
    by (simp add: example_sweep_angle sw)
  with example_rotated_pose_intersects show ?thesis by (rule conjI)
qed

subsection \<open>Normalisation ranges\<close>

lemma max_translations_update_x:
  "vx (max_translations (update_min_max cp g p)) =
     (if vx (translation p) > vx (max_translations g) then vx (translation p)
      else vx (max_translations g))"
  by (simp add: update_min_max_def Let_def vx_def)

lemma max_translations_update_y:
  "vy (max_translations (update_min_max cp g p)) =
     (if vy (translation p) > vy (max_translations g) then vy (translation p)
      else vy (max_translations g))"
  by (simp add: update_min_max_def Let_def vy_def)

lemma max_translations_update_z:
  "vz (max_translations (update_min_max cp g p)) =
     (if vz (translation p) > vz (max_translations g) then vz (translation p)
      else vz (max_translations g))"
  by (simp add: update_min_max_def Let_def vz_def)

lemma max_translations_stays:
  "\<forall>p\<in>set ps. vx (translation p) \<le> vx (max_translations g) \<and>
               vy (translation p) \<le> vy (max_translations g) \<and>
               vz (translation p) \<le> vz (max_translations g) \<Longrightarrow>
   max_translations (foldl (update_min_max cp) g ps) = max_translations g"
proof (induction ps arbitrary: g)
  case Nil
  show ?case by simp
next
  case (Cons p ps)
  have x: "vx (max_translations (update_min_max cp g p)) = vx (max_translations g)"
    and y: "vy (max_translations (update_min_max cp g p)) = vy (max_translations g)"
    and z: "vz (max_translations (update_min_max cp g p)) = vz (max_translations g)"
    using Cons.prems
    by (simp_all add: max_translations_update_x max_translations_update_y
        max_translations_update_z)
  then have same: "max_translations (update_min_max cp g p) = max_translations g"
    by (simp add: vx_def vy_def vz_def prod_eq_iff)
  have "max_translations (foldl (update_min_max cp) (update_min_max cp g p) ps) =
        max_translations (update_min_max cp g p)"
    by (rule Cons.IH) (use Cons.prems same in simp)
  then show ?case by (simp add: same)
qed

lemma max_translations_negative_poses:
  assumes "\<forall>p\<in>set ps. vx (translation p) \<le> 0 \<and> vy (translation p) \<le> 0 \<and>
                       vz (translation p) \<le> 0"
  shows "max_translations (compute_min_max cp gen ps) = (DBL_MIN, DBL_MIN, DBL_MIN)"
proof -
  have pos: "0 \<le> DBL_MIN" by (simp add: DBL_MIN_def)
  have "max_translations (foldl (update_min_max cp) (reset_min_max gen) ps) =
        max_translations (reset_min_max gen)"
  proof (rule max_translations_stays, intro ballI)
    fix p assume "p \<in> set ps"
    then have "vx (translation p) \<le> 0 \<and> vy (translation p) \<le> 0 \<and> vz (translation p) \<le> 0"
      using assms by blast
    then show "vx (translation p) \<le> vx (max_translations (reset_min_max gen)) \<and>
               vy (translation p) \<le> vy (max_translations (reset_min_max gen)) \<and>
               vz (translation p) \<le> vz (max_translations (reset_min_max gen))"
      using pos by (simp add: reset_min_max_def vx_def vy_def vz_def)
  qed
  then show ?thesis by (simp add: compute_min_max_def reset_min_max_def)
qed

lemma translation_rotate_pose [simp]: "translation (rotate_pose p r) = translation p"
  by (simp add: rotate_pose_def)

lemma rotation_translate_global [simp]: "rotation (translate_global p d) = rotation p"
  by (simp add: translate_global_def)

lemma translation_translate_global [simp]:
  "translation (translate_global p d) = vadd (translation p) d"
  by (simp add: translate_global_def)

lemma axis_frame_translation [simp]:
  "axis_frame (cp\<lparr>translation := t\<rparr>) d w h axis = axis_frame cp d w h axis"
  by (cases axis) (simp_all add: axis_frame_def)

lemma aligned_pose_z_direction:
  "mat_vec (rotation (aligned_pose (Identity\<lparr>translation := t\<rparr>) (pi / 2, pi / 2, 0) r tr))
     UnitZ = (cos r, sin r, 0)"
  by (simp add: aligned_pose_def Let_def rotate_pose_def align_to_axis_def Identity_def
      mat_identity_def mat_mul_def mat_vec_def mat_transpose_def AngleAxisX_def
      AngleAxisY_def AngleAxisZ_def dot_def row1_def row2_def row3_def vx_def vy_def vz_def
      UnitZ_def)

lemma example_depth_count: "depth_count example_finger_data = Some 1"
proof -
  have c: "\<lceil>(1::real) / 2\<rceil> = 1" by (simp add: ceiling_eq_iff)
  show ?thesis
    by (simp add: depth_count_def ddiv_def size_t_of_double_def example_finger_data_def c)
qed

lemma translation_bidirectional:
  "map translation (bidirectional_grasps ps) = map translation ps @ map translation ps"
  by (simp add: bidirectional_grasps_def comp_def)

lemma example_negative_translations:
  "map_option (map translation)
     (cuboid_axis_poses (Identity\<lparr>translation := (- 1, - 1, - 1)\<rparr>) (7 / 10) (2 / 5)
        (3 / 10) Z_AXIS example_finger_data example_config) =
   Some [(- (2701 / 2000), - (23 / 20), - 1),
       (- (2701 / 2000), - (17 / 20), - 1),
       (- (7 / 10), - (1599 / 2000), - 1), (- 1, - (1599 / 2000), - 1),
       (- (1299 / 2000), - (17 / 20), - 1),
       (- (1299 / 2000), - (23 / 20), - 1),
       (- (13 / 10), - (2401 / 2000), - 1), (- 1, - (2401 / 2000), - 1),
       (- (2601 / 2000), - (23 / 20), - 1),
       (- (2601 / 2000), - (17 / 20), - 1),
       (- (7 / 10), - (1699 / 2000), - 1), (- 1, - (1699 / 2000), - 1),
       (- (1399 / 2000), - (17 / 20), - 1),
       (- (1399 / 2000), - (23 / 20), - 1),
       (- (13 / 10), - (2301 / 2000), - 1), (- 1, - (2301 / 2000), - 1),
       (- (2701 / 2000), - (23 / 20), - 1),
       (- (2701 / 2000), - (17 / 20), - 1),
       (- (7 / 10), - (1599 / 2000), - 1), (- 1, - (1599 / 2000), - 1),
       (- (1299 / 2000), - (17 / 20), - 1),
       (- (1299 / 2000), - (23 / 20), - 1),
       (- (13 / 10), - (2401 / 2000), - 1), (- 1, - (2401 / 2000), - 1),
       (- (2601 / 2000), - (23 / 20), - 1),
       (- (2601 / 2000), - (17 / 20), - 1),
       (- (7 / 10), - (1699 / 2000), - 1), (- 1, - (1699 / 2000), - 1),
       (- (1399 / 2000), - (17 / 20), - 1),
       (- (1399 / 2000), - (23 / 20), - 1),
       (- (13 / 10), - (2301 / 2000), - 1), (- 1, - (2301 / 2000), - 1)]"
  apply (simp add: cuboid_axis_poses_def edge_stage_def variable_angle_stage_def
      face_stage_def corner_stage_def example_radial_count example_face_counts
      example_depth_count)
  apply (simp add: example_config_def translation_bidirectional depth_grasps_def
      face_grasps_def addFaceGraspsHelper_def Let_def example_axis_frame numeral_2_eq_2
      aligned_pose_z_direction)
  apply (simp add: example_finger_data_def vadd_def vsub_def vneg_def smul_def vx_def
      vy_def vz_def Identity_def)
  done

text \<open>
  C7 at a cuboid centred at \<open>(-1, -1, -1)\<close>. All 32 generated poses have negative
  translation coordinates, at most \<open>-0.6495\<close>, \<open>-0.7995\<close> and \<open>-1\<close>. The maxima start
  from \<^verbatim>\<open>std::numeric_limits<double>::min()\<close>, the smallest positive double, and no
  coordinate exceeds it: \<^verbatim>\<open>max_translations_\<close> ends as that positive number on
  every axis, not as the true maxima.
\<close>

theorem max_translations_negative_cuboid:
  "map_option (\<lambda>r. max_translations (fst r))
     (generateCuboidAxisGrasps example_external example_generator
        (Identity\<lparr>translation := (- 1, - 1, - 1)\<rparr>) (7 / 10) (2 / 5) (3 / 10) Z_AXIS
        example_finger_data example_config []) = Some (DBL_MIN, DBL_MIN, DBL_MIN) \<and>
   0 < DBL_MIN \<and>
   map_option
     (\<lambda>poses. (Max (set (map (\<lambda>p. vx (translation p)) poses)),
                Max (set (map (\<lambda>p. vy (translation p)) poses)),
                Max (set (map (\<lambda>p. vz (translation p)) poses))))
     (cuboid_axis_poses (Identity\<lparr>translation := (- 1, - 1, - 1)\<rparr>) (7 / 10) (2 / 5)
        (3 / 10) Z_AXIS example_finger_data example_config) =
   Some (- (1299 / 2000), - (1599 / 2000), - 1)"
proof -
  let ?cp = "Identity\<lparr>translation := (- 1, - 1, - 1)\<rparr>"
  let ?L = "[(- (2701 / 2000), - (23 / 20), - 1),
       (- (2701 / 2000), - (17 / 20), - 1),
       (- (7 / 10), - (1599 / 2000), - 1), (- 1, - (1599 / 2000), - 1),
       (- (1299 / 2000), - (17 / 20), - 1),
       (- (1299 / 2000), - (23 / 20), - 1),
       (- (13 / 10), - (2401 / 2000), - 1), (- 1, - (2401 / 2000), - 1),
       (- (2601 / 2000), - (23 / 20), - 1),
       (- (2601 / 2000), - (17 / 20), - 1),
       (- (7 / 10), - (1699 / 2000), - 1), (- 1, - (1699 / 2000), - 1),
       (- (1399 / 2000), - (17 / 20), - 1),
       (- (1399 / 2000), - (23 / 20), - 1),
       (- (13 / 10), - (2301 / 2000), - 1), (- 1, - (2301 / 2000), - 1),
       (- (2701 / 2000), - (23 / 20), - 1),
       (- (2701 / 2000), - (17 / 20), - 1),
       (- (7 / 10), - (1599 / 2000), - 1), (- 1, - (1599 / 2000), - 1),
       (- (1299 / 2000), - (17 / 20), - 1),
       (- (1299 / 2000), - (23 / 20), - 1),
       (- (13 / 10), - (2401 / 2000), - 1), (- 1, - (2401 / 2000), - 1),
       (- (2601 / 2000), - (23 / 20), - 1),
       (- (2601 / 2000), - (17 / 20), - 1),
       (- (7 / 10), - (1699 / 2000), - 1), (- 1, - (1699 / 2000), - 1),
       (- (1399 / 2000), - (17 / 20), - 1),
       (- (1399 / 2000), - (23 / 20), - 1),
       (- (13 / 10), - (2301 / 2000), - 1), (- 1, - (2301 / 2000), - 1)]"
  obtain ps where ps: "cuboid_axis_poses ?cp (7 / 10) (2 / 5) (3 / 10) Z_AXIS
      example_finger_data example_config = Some ps"
    and tr: "map translation ps = ?L"
    using example_negative_translations by (auto simp: map_option_case split: option.splits)
  have neg: "\<forall>p\<in>set ps. vx (translation p) \<le> 0 \<and> vy (translation p) \<le> 0 \<and>
                       vz (translation p) \<le> 0"
  proof
    fix p assume "p \<in> set ps"
    then have "translation p \<in> set (map translation ps)" by simp
    then have "translation p \<in> set ?L" unfolding tr .
    then show "vx (translation p) \<le> 0 \<and> vy (translation p) \<le> 0 \<and> vz (translation p) \<le> 0"
      by (auto simp: vx_def vy_def vz_def)
  qed
  have mx: "max_translations (compute_min_max ?cp example_generator ps) =
      (DBL_MIN, DBL_MIN, DBL_MIN)"
    using neg by (rule max_translations_negative_poses)
  have computed: "map_option (\<lambda>r. max_translations (fst r))
     (generateCuboidAxisGrasps example_external example_generator ?cp (7 / 10) (2 / 5)
        (3 / 10) Z_AXIS example_finger_data example_config []) = Some (DBL_MIN, DBL_MIN, DBL_MIN)"
    by (simp add: generateCuboidAxisGrasps_def ps mx Let_def del: axis_frame_translation)
  have positive: "0 < DBL_MIN" by (simp add: DBL_MIN_def)
  have x: "map (\<lambda>p. vx (translation p)) ps = map vx ?L"
    and y: "map (\<lambda>p. vy (translation p)) ps = map vy ?L"
    and z: "map (\<lambda>p. vz (translation p)) ps = map vz ?L"
    unfolding tr [symmetric] by simp_all
  have true_max: "(Max (set (map (\<lambda>p. vx (translation p)) ps)),
                Max (set (map (\<lambda>p. vy (translation p)) ps)),
                Max (set (map (\<lambda>p. vz (translation p)) ps))) =
      (- (1299 / 2000), - (1599 / 2000), - 1)"
    unfolding x y z by (simp add: vx_def vy_def vz_def)
  show ?thesis using computed positive true_max by (simp add: ps)
qed

subsection \<open>Suction poses\<close>

lemma expand_poses_no_values [simp]: "expand_poses f [] poses = poses"
  by (simp add: expand_poses_def)

lemma expand_poses_nonempty [simp]: "poses \<noteq> [] \<Longrightarrow> expand_poses f vs poses \<noteq> []"
  by (simp add: expand_poses_def)

lemma hd_expand_poses [simp]: "poses \<noteq> [] \<Longrightarrow> hd (expand_poses f vs poses) = hd poses"
  by (simp add: expand_poses_def)

lemma range_lt_empty: "\<not> x < hi \<Longrightarrow> range_lt x hi inc = []"
  by (subst range_lt.simps) simp

lemma range_le_empty: "\<not> x \<le> hi \<Longrightarrow> range_le x hi inc = []"
  by (subst range_le.simps) simp

lemma for_lt_positive: "0 < inc \<Longrightarrow> for_lt lo hi inc = Some (range_lt lo hi inc)"
  by (simp add: for_lt_def)

lemma for_le_positive: "0 < inc \<Longrightarrow> for_le lo hi inc = Some (range_le lo hi inc)"
  by (simp add: for_le_def)

lemma for_lt_empty: "\<not> lo < hi \<Longrightarrow> for_lt lo hi inc = Some []"
  by (simp add: for_lt_def range_lt_empty)

lemma for_le_empty: "\<not> lo \<le> hi \<Longrightarrow> for_le lo hi inc = Some []"
  by (simp add: for_le_def range_le_empty)

lemma suction_grasp_poses_head:
  assumes "suction_grasp_poses gen cp d w h gd = Some ps"
  shows "ps \<noteq> [] \<and> hd ps = center_grasp_pose gen cp gd"
proof (cases "for_lt (pi * (real_of_int (angle_resolution gd) / 180)) (2 * pi)
                (pi * (real_of_int (angle_resolution gd) / 180))")
  case None
  with assms show ?thesis by (simp add: suction_grasp_poses_def Let_def)
next
  case yaws: (Some yaws)
  show ?thesis
  proof (cases "for_le (grasp_depth_resolution gd) (grasp_max_depth gd - grasp_min_depth gd)
                  (grasp_depth_resolution gd)")
    case None
    with assms yaws show ?thesis by (simp add: suction_grasp_poses_def Let_def)
  next
    case zs: (Some zs)
    show ?thesis
    proof (cases "for_le (xy_min gd) (xy_max d w gd) (xy_increment gd)")
      case None
      with assms yaws zs show ?thesis by (simp add: suction_grasp_poses_def Let_def)
    next
      case xys: (Some xys)
      have "ps = expand_poses (\<lambda>pose x. [translate_local pose (x, 0, 0),
                                       translate_local pose (- x, 0, 0)]) xys
               (expand_poses (\<lambda>pose y. [translate_local pose (0, y, 0),
                                       translate_local pose (0, - y, 0)]) xys
                  (expand_poses (\<lambda>pose z. [translate_local pose (0, 0, z)]) zs
                     (expand_poses (\<lambda>pose yaw. [rotate_pose pose (AngleAxisZ yaw)]) yaws
                        [center_grasp_pose gen cp gd])))"
        using assms yaws zs xys by (simp add: suction_grasp_poses_def Let_def)
      then show ?thesis by simp
    qed
  qed
qed

lemma suction_grasp_poses_total:
  assumes "0 < angle_resolution gd" "0 < grasp_depth_resolution gd" "0 < grasp_resolution gd"
  shows "\<exists>ps. suction_grasp_poses gen cp d w h gd = Some ps"
  using assms
  by (simp add: suction_grasp_poses_def Let_def for_lt_positive for_le_positive
      xy_increment_def)

lemma suction_grasp_poses_empty_ranges:
  assumes "2 * pi \<le> pi * (real_of_int (angle_resolution gd) / 180)"
    and "grasp_max_depth gd - grasp_min_depth gd < grasp_depth_resolution gd"
    and "xy_max d w gd < xy_min gd"
  shows "suction_grasp_poses gen cp d w h gd = Some [center_grasp_pose gen cp gd]"
  using assms
  by (simp add: suction_grasp_poses_def Let_def for_lt_empty for_le_empty)

lemma center_grasp_pose_explicit:
  assumes I: "rotation (ideal_grasp_pose gen) =
      ((i11, i12, i13), (i21, i22, i23), (i31, i32, i33))"
    and sz: "sz = (if c13 * i13 + c23 * i23 + c33 * i33 < 0 then - 1 else 1)"
    and sx: "sx = (if c11 * i11 + c21 * i21 + c31 * i31 < 0 then - 1 else 1)"
  shows "center_grasp_pose gen
      \<lparr>rotation = ((c11, c12, c13), (c21, c22, c23), (c31, c32, c33)),
       translation = (tx, ty, tz)\<rparr> gd =
     \<lparr>rotation = ((sx * c11, sx * sz * c12, sz * c13),
                  (sx * c21, sx * sz * c22, sz * c23),
                  (sx * c31, sx * sz * c32, sz * c33)),
      translation = (tx + grasp_min_depth gd * (sz * c13),
                     ty + grasp_min_depth gd * (sz * c23),
                     tz + grasp_min_depth gd * (sz * c33))\<rparr>"
  unfolding sz sx
  by (simp add: center_grasp_pose_def I Let_def rotate_pose_def translate_local_def
      AngleAxisX_def AngleAxisZ_def mat_mul_def mat_vec_def mat_transpose_def dot_def
      vadd_def row1_def row2_def row3_def vx_def vy_def vz_def UnitX_def UnitZ_def)

text \<open>
  C9, as the code has it. Let the top pose have the rotation columns \<open>c1\<close>, \<open>c2\<close>, \<open>c3\<close>
  and the ideal pose the rotation columns \<open>i1\<close>, \<open>i2\<close>, \<open>i3\<close>; let \<open>sz\<close> be \<open>-1\<close> when
  \<open>c3\<close> opposes \<open>i3\<close> (the Z flip, a half turn about X) and \<open>1\<close> otherwise, and \<open>sx\<close> be
  \<open>-1\<close> when \<open>c1\<close> opposes \<open>i1\<close> (the X flip, a half turn about Z) and \<open>1\<close> otherwise.
  The centre pose has the rotation columns \<open>sx c1\<close>, \<open>sx sz c2\<close>, \<open>sz c3\<close> and the
  translation of the top pose moved by \<^verbatim>\<open>grasp_min_depth_\<close> along \<open>sz c3\<close>. It is the
  first pose of the pose vector whenever the enumeration returns, and it returns for
  positive resolutions. When the yaw, depth and X/Y ranges are all empty, the pose vector
  is that pose alone; the call then yields exactly one candidate, whose grasp pose is the
  centre pose mapped into the effector frame, when the profile is of suction type. For a
  finger profile it yields one candidate for each width variant computed before the
  first failure, up to three.
\<close>

theorem suction_center_pose_first:
  "cp = \<lparr>rotation = ((c11, c12, c13), (c21, c22, c23), (c31, c32, c33)),
         translation = (tx, ty, tz)\<rparr> \<Longrightarrow>
   rotation (ideal_grasp_pose gen) = ((i11, i12, i13), (i21, i22, i23), (i31, i32, i33)) \<Longrightarrow>
   sz = (if c13 * i13 + c23 * i23 + c33 * i33 < 0 then - 1 else 1) \<Longrightarrow>
   sx = (if c11 * i11 + c21 * i21 + c31 * i31 < 0 then - 1 else 1) \<Longrightarrow>
   centre = \<lparr>rotation = ((sx * c11, sx * sz * c12, sz * c13),
                         (sx * c21, sx * sz * c22, sz * c23),
                         (sx * c31, sx * sz * c32, sz * c33)),
             translation = (tx + grasp_min_depth gd * (sz * c13),
                            ty + grasp_min_depth gd * (sz * c23),
                            tz + grasp_min_depth gd * (sz * c33))\<rparr> \<Longrightarrow>
   (\<forall>ps. suction_grasp_poses gen cp d w h gd = Some ps \<longrightarrow> ps \<noteq> [] \<and> hd ps = centre) \<and>
   (0 < angle_resolution gd \<and> 0 < grasp_depth_resolution gd \<and> 0 < grasp_resolution gd \<longrightarrow>
      (\<exists>ps. suction_grasp_poses gen cp d w h gd = Some (centre # ps))) \<and>
   (2 * pi \<le> pi * (real_of_int (angle_resolution gd) / 180) \<and>
    grasp_max_depth gd - grasp_min_depth gd < grasp_depth_resolution gd \<and>
    xy_max d w gd < xy_min gd \<longrightarrow>
      suction_grasp_poses gen cp d w h gd = Some [centre] \<and>
      (end_effector_type gd = SUCTION \<longrightarrow>
         (\<exists>c. generateSuctionGrasps ext gen cp d w h gd cands config =
                 Some (gen\<lparr>ideal_grasp_pose :=
                              (ideal_grasp_pose gen)\<lparr>translation := (tx, ty, tz)\<rparr>\<rparr>, [c]) \<and>
               g_grasp_pose (c_grasp c) = compose centre (grasp_pose_to_eef_pose gd) \<and>
               c_cuboid_pose c = cp)) \<and>
      (end_effector_type gd = FINGER \<longrightarrow>
         (\<exists>gen' new. generateSuctionGrasps ext gen cp d w h gd cands config =
                 Some (gen', new) \<and>
               length new =
                 (if setGraspWidth ext gd 1 (2 * grasp_padding_on_approach gd) = None then 0
                  else if setGraspWidth ext gd (1 / 2) (2 * grasp_padding_on_approach gd) = None
                  then 1
                  else if setGraspWidth ext gd 0 (2 * grasp_padding_on_approach gd) = None
                  then 2 else 3) \<and>
               (\<forall>c\<in>set new.
                  g_grasp_pose (c_grasp c) = compose centre (grasp_pose_to_eef_pose gd)))))"
proof -
  assume cp: "cp = \<lparr>rotation = ((c11, c12, c13), (c21, c22, c23), (c31, c32, c33)),
         translation = (tx, ty, tz)\<rparr>"
    and I: "rotation (ideal_grasp_pose gen) =
      ((i11, i12, i13), (i21, i22, i23), (i31, i32, i33))"
    and sz: "sz = (if c13 * i13 + c23 * i23 + c33 * i33 < 0 then - 1 else 1)"
    and sx: "sx = (if c11 * i11 + c21 * i21 + c31 * i31 < 0 then - 1 else 1)"
    and centre: "centre = \<lparr>rotation = ((sx * c11, sx * sz * c12, sz * c13),
                         (sx * c21, sx * sz * c22, sz * c23),
                         (sx * c31, sx * sz * c32, sz * c33)),
             translation = (tx + grasp_min_depth gd * (sz * c13),
                            ty + grasp_min_depth gd * (sz * c23),
                            tz + grasp_min_depth gd * (sz * c33))\<rparr>"
  have c: "center_grasp_pose gen cp gd = centre"
    unfolding cp centre by (rule center_grasp_pose_explicit [OF I sz sx])
  have tr: "translation cp = (tx, ty, tz)" by (simp add: cp)
  have first: "ps \<noteq> [] \<and> hd ps = centre"
    if "suction_grasp_poses gen cp d w h gd = Some ps" for ps
    using suction_grasp_poses_head [OF that] c by simp
  have total: "\<exists>ps. suction_grasp_poses gen cp d w h gd = Some (centre # ps)"
    if "0 < angle_resolution gd \<and> 0 < grasp_depth_resolution gd \<and> 0 < grasp_resolution gd"
  proof -
    from that suction_grasp_poses_total [of gd gen cp d w h]
    obtain ps where ps: "suction_grasp_poses gen cp d w h gd = Some ps" by blast
    from first [OF ps] have "ps = centre # tl ps" by (cases ps) simp_all
    with ps show ?thesis by metis
  qed
  have empty: "suction_grasp_poses gen cp d w h gd = Some [centre] \<and>
      (end_effector_type gd = SUCTION \<longrightarrow>
         (\<exists>c. generateSuctionGrasps ext gen cp d w h gd cands config =
                 Some (gen\<lparr>ideal_grasp_pose :=
                              (ideal_grasp_pose gen)\<lparr>translation := (tx, ty, tz)\<rparr>\<rparr>, [c]) \<and>
               g_grasp_pose (c_grasp c) = compose centre (grasp_pose_to_eef_pose gd) \<and>
               c_cuboid_pose c = cp)) \<and>
      (end_effector_type gd = FINGER \<longrightarrow>
         (\<exists>gen' new. generateSuctionGrasps ext gen cp d w h gd cands config =
                 Some (gen', new) \<and>
               length new =
                 (if setGraspWidth ext gd 1 (2 * grasp_padding_on_approach gd) = None then 0
                  else if setGraspWidth ext gd (1 / 2) (2 * grasp_padding_on_approach gd) = None
                  then 1
                  else if setGraspWidth ext gd 0 (2 * grasp_padding_on_approach gd) = None
                  then 2 else 3) \<and>
               (\<forall>c\<in>set new.
                  g_grasp_pose (c_grasp c) = compose centre (grasp_pose_to_eef_pose gd))))"
    if e: "2 * pi \<le> pi * (real_of_int (angle_resolution gd) / 180) \<and>
           grasp_max_depth gd - grasp_min_depth gd < grasp_depth_resolution gd \<and>
           xy_max d w gd < xy_min gd"
  proof (intro conjI impI)
    show one: "suction_grasp_poses gen cp d w h gd = Some [centre]"
      using e suction_grasp_poses_empty_ranges [of gd d w gen cp h] c by simp
    {
      assume "end_effector_type gd = SUCTION"
      then show "\<exists>c. generateSuctionGrasps ext gen cp d w h gd cands config =
                 Some (gen\<lparr>ideal_grasp_pose :=
                              (ideal_grasp_pose gen)\<lparr>translation := (tx, ty, tz)\<rparr>\<rparr>, [c]) \<and>
               g_grasp_pose (c_grasp c) = compose centre (grasp_pose_to_eef_pose gd) \<and>
               c_cuboid_pose c = cp"
        by (simp add: generateSuctionGrasps_def Let_def one add_all_grasps_def addGrasp_def tr)
    }
    {
      assume fin: "end_effector_type gd = FINGER"
      let ?gen = "gen\<lparr>ideal_grasp_pose :=
                       (ideal_grasp_pose gen)\<lparr>translation := translation cp\<rparr>\<rparr>"
      from addGrasp_finger_prefix [OF fin, where ext = ext and ow = 0 and gen = ?gen
          and p = centre and cands = "[]" and op = cp and os = "(d, w, h)" and ps = "[]"]
      obtain new k where
        k: "k = (if setGraspWidth ext gd 1 (0 + 2 * grasp_padding_on_approach gd) = None then 0
          else if setGraspWidth ext gd (1 / 2) (0 + 2 * grasp_padding_on_approach gd) = None
          then 1
          else if setGraspWidth ext gd 0 (0 + 2 * grasp_padding_on_approach gd) = None then 2
          else (3::nat))"
        and len: "length new = k"
        and pose: "\<forall>c\<in>set new. g_grasp_pose (c_grasp c) = compose centre (grasp_pose_to_eef_pose gd)"
        and cont: "add_all_grasps ext ?gen gd cp (d, w, h) 0 [centre] [] =
           add_all_grasps ext ?gen gd cp (d, w, h) 0 [] ([] @ new)"
        by blast
      have "add_all_grasps ext ?gen gd cp (d, w, h) 0 [centre] [] = new"
        using cont by (simp add: add_all_grasps_def)
      then have "generateSuctionGrasps ext gen cp d w h gd cands config = Some (?gen, new)"
        by (simp add: generateSuctionGrasps_def Let_def one)
      then show "\<exists>gen' new. generateSuctionGrasps ext gen cp d w h gd cands config =
                 Some (gen', new) \<and>
               length new =
                 (if setGraspWidth ext gd 1 (2 * grasp_padding_on_approach gd) = None then 0
                  else if setGraspWidth ext gd (1 / 2) (2 * grasp_padding_on_approach gd) = None
                  then 1
                  else if setGraspWidth ext gd 0 (2 * grasp_padding_on_approach gd) = None
                  then 2 else 3) \<and>
               (\<forall>c\<in>set new.
                  g_grasp_pose (c_grasp c) = compose centre (grasp_pose_to_eef_pose gd))"
        using len k pose by (intro exI [of _ ?gen] exI [of _ new]) simp
    }
  qed
  from first total empty show ?thesis by blast
qed

theorem suction_center_pose_first_witness:
  "map_option (\<lambda>r. map (\<lambda>c. g_grasp_pose (c_grasp c)) (snd r))
     (generateSuctionGrasps example_external example_generator
        \<lparr>rotation = ((- 1, 0, 0), (0, 1, 0), (0, 0, - 1)), translation = (1, 2, 3)\<rparr>
        (1 / 10) (1 / 10) (1 / 20) example_suction_data [example_candidate] example_config) =
   Some [\<lparr>rotation = ((1, 0, 0), (0, 1, 0), (0, 0, 1)),
          translation = (1, 2, 291 / 100)\<rparr>]"
proof -
  have r: "2 * pi \<le> pi * (real_of_int (angle_resolution example_suction_data) / 180) \<and>
    grasp_max_depth example_suction_data - grasp_min_depth example_suction_data
      < grasp_depth_resolution example_suction_data \<and>
    xy_max (1 / 10) (1 / 10) example_suction_data < xy_min example_suction_data"
    by (simp add: example_suction_data_def xy_max_def xy_min_def xy_increment_def)
  have t: "end_effector_type example_suction_data = SUCTION"
    by (simp add: example_suction_data_def)
  have I: "rotation (ideal_grasp_pose example_generator) = ((1, 0, 0), (0, 1, 0), (0, 0, 1))"
    by (simp add: example_generator_def Identity_def mat_identity_def)
  have md: "grasp_min_depth example_suction_data = 1 / 100"
    by (simp add: example_suction_data_def)
  have c: "compose \<lparr>rotation = ((1, 0, 0), (0, 1, 0), (0, 0, 1)),
                    translation = (1, 2, 301 / 100)\<rparr>
             (grasp_pose_to_eef_pose example_suction_data) =
           \<lparr>rotation = ((1, 0, 0), (0, 1, 0), (0, 0, 1)), translation = (1, 2, 291 / 100)\<rparr>"
    by (simp add: example_suction_data_def Identity_def mat_identity_def compose_def
        mat_vec_def mat_mul_def mat_transpose_def vadd_def dot_def row1_def row2_def row3_def
        vx_def vy_def vz_def)
  from suction_center_pose_first
    [where cp = "\<lparr>rotation = ((- 1, 0, 0), (0, 1, 0), (0, 0, - 1)), translation = (1, 2, 3)\<rparr>"
      and ?c11.0 = "- 1" and ?c12.0 = 0 and ?c13.0 = 0 and ?c21.0 = 0 and ?c22.0 = 1
      and ?c23.0 = 0 and ?c31.0 = 0 and ?c32.0 = 0 and ?c33.0 = "- 1"
      and tx = 1 and ty = 2 and tz = 3 and gen = example_generator
      and ?i11.0 = 1 and ?i12.0 = 0 and ?i13.0 = 0 and ?i21.0 = 0 and ?i22.0 = 1
      and ?i23.0 = 0 and ?i31.0 = 0 and ?i32.0 = 0 and ?i33.0 = 1
      and sz = "- 1" and sx = "- 1" and gd = example_suction_data
      and centre = "\<lparr>rotation = ((1, 0, 0), (0, 1, 0), (0, 0, 1)),
                      translation = (1, 2, 301 / 100)\<rparr>"
      and d = "1 / 10" and w = "1 / 10" and h = "1 / 20" and ext = example_external
      and cands = "[example_candidate]" and config = example_config]
    I r t
  obtain gen' ca where
    "generateSuctionGrasps example_external example_generator
        \<lparr>rotation = ((- 1, 0, 0), (0, 1, 0), (0, 0, - 1)), translation = (1, 2, 3)\<rparr>
        (1 / 10) (1 / 10) (1 / 20) example_suction_data [example_candidate] example_config
       = Some (gen', [ca])"
    and "g_grasp_pose (c_grasp ca) =
           compose \<lparr>rotation = ((1, 0, 0), (0, 1, 0), (0, 0, 1)),
                    translation = (1, 2, 301 / 100)\<rparr>
             (grasp_pose_to_eef_pose example_suction_data)"
    by (auto simp: md)
  then show ?thesis by (simp add: c)
qed

theorem suction_center_pose_first_counterexample:
  "end_effector_type (example_finger_data\<lparr>angle_resolution := 360\<rparr>) = FINGER \<and>
   for_lt (pi * (real_of_int (angle_resolution (example_finger_data\<lparr>angle_resolution := 360\<rparr>))
                  / 180)) (2 * pi)
     (pi * (real_of_int (angle_resolution (example_finger_data\<lparr>angle_resolution := 360\<rparr>))
              / 180)) = Some [] \<and>
   for_le (grasp_depth_resolution (example_finger_data\<lparr>angle_resolution := 360\<rparr>))
     (grasp_max_depth (example_finger_data\<lparr>angle_resolution := 360\<rparr>) -
      grasp_min_depth (example_finger_data\<lparr>angle_resolution := 360\<rparr>))
     (grasp_depth_resolution (example_finger_data\<lparr>angle_resolution := 360\<rparr>)) = Some [] \<and>
   for_le (xy_min (example_finger_data\<lparr>angle_resolution := 360\<rparr>))
     (xy_max (1 / 10) (1 / 10) (example_finger_data\<lparr>angle_resolution := 360\<rparr>))
     (xy_increment (example_finger_data\<lparr>angle_resolution := 360\<rparr>)) = Some [] \<and>
   map_option (\<lambda>r. map (\<lambda>c. (g_grasp_pose (c_grasp c), g_pre_grasp_posture (c_grasp c)))
                 (snd r))
     (generateSuctionGrasps example_external example_generator Identity (1 / 10) (1 / 10)
        (1 / 20) (example_finger_data\<lparr>angle_resolution := 360\<rparr>) [] example_config) =
   Some [(\<lparr>rotation = mat_identity, translation = (0, 0, - (9 / 100))\<rparr>, [1]),
         (\<lparr>rotation = mat_identity, translation = (0, 0, - (9 / 100))\<rparr>, [101 / 200]),
         (\<lparr>rotation = mat_identity, translation = (0, 0, - (9 / 100))\<rparr>, [1 / 100])]"
proof -
  let ?gd = "example_finger_data\<lparr>angle_resolution := 360\<rparr>"
  have vals: "end_effector_type ?gd = FINGER" "angle_resolution ?gd = 360"
    "grasp_depth_resolution ?gd = 1 / 10" "grasp_max_depth ?gd = 3 / 50"
    "grasp_min_depth ?gd = 1 / 100" "grasp_resolution ?gd = 1 / 4"
    "active_suction_range_x ?gd = 0" "active_suction_range_y ?gd = 0"
    "grasp_padding_on_approach ?gd = 1 / 200" "max_finger_width ?gd = 1"
    "min_finger_width ?gd = 1 / 100"
    "grasp_pose_to_eef_pose ?gd = Identity\<lparr>translation := (0, 0, - (1 / 10))\<rparr>"
    by (simp_all add: example_finger_data_def)
  have xm: "xy_max (1 / 10) (1 / 10) ?gd = 1 / 20"
    by (simp add: xy_max_def vals)
  have l1: "for_lt (pi * (real_of_int (angle_resolution ?gd) / 180)) (2 * pi)
              (pi * (real_of_int (angle_resolution ?gd) / 180)) = Some []"
    by (rule for_lt_empty) simp
  have l2: "for_le (grasp_depth_resolution ?gd) (grasp_max_depth ?gd - grasp_min_depth ?gd)
              (grasp_depth_resolution ?gd) = Some []"
    by (rule for_le_empty) (simp add: example_finger_data_def)
  have l3: "for_le (xy_min ?gd) (xy_max (1 / 10) (1 / 10) ?gd) (xy_increment ?gd) = Some []"
    unfolding xm by (rule for_le_empty) (simp add: xy_min_def xy_increment_def vals)
  have poses: "suction_grasp_poses example_generator Identity (1 / 10) (1 / 10) (1 / 20) ?gd =
      Some [center_grasp_pose example_generator Identity ?gd]"
    by (rule suction_grasp_poses_empty_ranges)
      (simp_all add: vals xm xy_min_def xy_increment_def)
  have centre: "center_grasp_pose example_generator Identity ?gd =
      \<lparr>rotation = mat_identity, translation = (0, 0, 1 / 100)\<rparr>"
    by (simp add: center_grasp_pose_def example_generator_def vals Identity_def
        mat_identity_def translate_local_def mat_vec_def dot_def vadd_def row1_def row2_def
        row3_def vx_def vy_def vz_def UnitX_def UnitZ_def Let_def)
  have vals0: "end_effector_type example_finger_data = FINGER"
    "grasp_padding_on_approach example_finger_data = 1 / 200"
    by (simp_all add: example_finger_data_def)
  have eef: "compose \<lparr>rotation = mat_identity, translation = (0, 0, 1 / 100)\<rparr>
               (grasp_pose_to_eef_pose example_finger_data) =
             \<lparr>rotation = mat_identity, translation = (0, 0, - (9 / 100))\<rparr>"
    by (simp add: example_finger_data_def Identity_def mat_identity_def compose_def mat_vec_def
        mat_mul_def mat_transpose_def vadd_def dot_def row1_def row2_def row3_def vx_def
        vy_def vz_def)
  have s: "setGraspWidth_interpolated ?gd 1 (1 / 100) = Some [1]"
    "setGraspWidth_interpolated ?gd (1 / 2) (1 / 100) = Some [101 / 200]"
    "setGraspWidth_interpolated ?gd 0 (1 / 100) = Some [1 / 100]"
    by (simp_all add: setGraspWidth_interpolated_def vals Let_def)
  have sg: "setGraspWidth example_external = setGraspWidth_interpolated"
    by (simp add: example_external_def)
  have gen: "map_option (\<lambda>r. map (\<lambda>c. (g_grasp_pose (c_grasp c),
                                        g_pre_grasp_posture (c_grasp c))) (snd r))
     (generateSuctionGrasps example_external example_generator Identity (1 / 10) (1 / 10)
        (1 / 20) ?gd [] example_config) =
   Some [(\<lparr>rotation = mat_identity, translation = (0, 0, - (9 / 100))\<rparr>, [1]),
         (\<lparr>rotation = mat_identity, translation = (0, 0, - (9 / 100))\<rparr>, [101 / 200]),
         (\<lparr>rotation = mat_identity, translation = (0, 0, - (9 / 100))\<rparr>, [1 / 100])]"
    unfolding generateSuctionGrasps_def Let_def poses centre
    by (simp add: add_all_grasps_def addGrasp_def Let_def sg s eef vals0)
  from vals(1) l1 l2 l3 gen show ?thesis by (intro conjI)
qed

subsection \<open>Effect on the caller's collection\<close>

lemma addGrasp_appends:
  "\<exists>new. snd (addGrasp ext gen p gd cands op os ow) = cands @ new"
proof (cases "end_effector_type gd")
  case SUCTION
  then show ?thesis by (simp add: addGrasp_def)
next
  case FINGER
  let ?m = "ow + 2 * grasp_padding_on_approach gd"
  show ?thesis
  proof (cases "setGraspWidth ext gd 1 ?m")
    case None
    then show ?thesis using FINGER by (simp add: addGrasp_def Let_def)
  next
    case s1: (Some p1)
    show ?thesis
    proof (cases "setGraspWidth ext gd (1 / 2) ?m")
      case None
      then show ?thesis using FINGER s1 by (simp add: addGrasp_def Let_def)
    next
      case s2: (Some p2)
      show ?thesis
      proof (cases "setGraspWidth ext gd 0 ?m")
        case None
        then show ?thesis using FINGER s1 s2 by (simp add: addGrasp_def Let_def)
      next
        case (Some p3)
        then show ?thesis using FINGER s1 s2 by (simp add: addGrasp_def Let_def)
      qed
    qed
  qed
qed

lemma add_all_grasps_appends:
  "\<exists>new. add_all_grasps ext gen gd op os ow ps cands = cands @ new"
proof (induction ps arbitrary: cands)
  case Nil
  show ?case by (simp add: add_all_grasps_def)
next
  case (Cons p ps)
  obtain n1 where n1: "snd (addGrasp ext gen p gd cands op os ow) = cands @ n1"
    using addGrasp_appends by blast
  obtain n2 where n2: "add_all_grasps ext gen gd op os ow ps (cands @ n1) = (cands @ n1) @ n2"
    using Cons.IH by blast
  have "add_all_grasps ext gen gd op os ow (p # ps) cands = cands @ (n1 @ n2)"
    by (simp add: add_all_grasps_Cons n1 n2)
  then show ?case by blast
qed

lemma generateCuboidAxisGrasps_appends:
  assumes "generateCuboidAxisGrasps ext gen cp d w h axis gd config cands = Some (gen', out)"
  shows "\<exists>new. out = cands @ new"
proof (cases "cuboid_axis_poses cp d w h axis gd config")
  case None
  with assms show ?thesis by (simp add: generateCuboidAxisGrasps_def)
next
  case (Some ps)
  with assms have "out = add_all_grasps ext (compute_min_max cp gen ps) gd cp (d, w, h)
      (object_width (axis_frame cp d w h axis)) ps cands"
    by (auto simp: generateCuboidAxisGrasps_def Let_def)
  then show ?thesis using add_all_grasps_appends by simp
qed

lemma axis_step_appends:
  assumes "(if b then generateCuboidAxisGrasps ext gen cp d w h axis gd config cands
            else Some (gen, cands)) = Some (gen', out)"
  shows "\<exists>new. out = cands @ new"
proof (cases b)
  case True
  with assms show ?thesis using generateCuboidAxisGrasps_appends by simp
next
  case False
  with assms show ?thesis by simp
qed

lemma generateFingerGrasps_appends:
  assumes "generateFingerGrasps ext gen cp d w h gd cands config = Some (gen', out)"
  shows "\<exists>new. out = cands @ new"
proof -
  let ?sx = "if generate_x_axis_grasps config
          then generateCuboidAxisGrasps ext gen cp d w h X_AXIS gd
                 (axis_config config (d > max_grasp_width gd)) cands
          else Some (gen, cands)"
  obtain g1 c1 where s1: "?sx = Some (g1, c1)"
    using assms by (cases ?sx) (auto simp: generateFingerGrasps_def)
  let ?sy = "if generate_y_axis_grasps config
          then generateCuboidAxisGrasps ext g1 cp d w h Y_AXIS gd
                 (axis_config config (w > max_grasp_width gd)) c1
          else Some (g1, c1)"
  obtain g2 c2 where s2: "?sy = Some (g2, c2)"
    using assms s1 by (cases ?sy) (auto simp: generateFingerGrasps_def)
  let ?sz = "if generate_z_axis_grasps config
          then generateCuboidAxisGrasps ext g2 cp d w h Z_AXIS gd
                 (axis_config config (h > max_grasp_width gd)) c2
          else Some (g2, c2)"
  have s3: "?sz = Some (gen', out)"
    using assms s1 s2 by (cases ?sz) (auto simp: generateFingerGrasps_def)
  obtain n1 where n1: "c1 = cands @ n1" using axis_step_appends [OF s1] by blast
  obtain n2 where n2: "c2 = c1 @ n2" using axis_step_appends [OF s2] by blast
  obtain n3 where n3: "out = c2 @ n3" using axis_step_appends [OF s3] by blast
  have "out = cands @ (n1 @ n2 @ n3)" by (simp add: n1 n2 n3)
  then show ?thesis by blast
qed

lemma generateSuctionGrasps_clears:
  "generateSuctionGrasps ext gen cp d w h gd cands config =
   generateSuctionGrasps ext gen cp d w h gd [] config"
  by (simp add: generateSuctionGrasps_def)

lemma example_finger_call_returns:
  "\<exists>gen' out.
     generateFingerGrasps example_external example_generator
       (Identity\<lparr>translation := (- 1, - 1, - 1)\<rparr>) (7 / 10) (2 / 5) (3 / 10)
       example_finger_data [example_candidate] example_config = Some (gen', out)"
proof -
  obtain ps where ps: "cuboid_axis_poses (Identity\<lparr>translation := (- 1, - 1, - 1)\<rparr>) (7 / 10)
      (2 / 5) (3 / 10) Z_AXIS example_finger_data example_config = Some ps"
    using example_negative_translations by (cases "cuboid_axis_poses
      (Identity\<lparr>translation := (- 1, - 1, - 1)\<rparr>) (7 / 10) (2 / 5) (3 / 10) Z_AXIS
      example_finger_data example_config") auto
  have mgw: "max_grasp_width example_finger_data = 1"
    by (simp add: example_finger_data_def)
  have flags: "\<not> generate_x_axis_grasps example_config"
    "\<not> generate_y_axis_grasps example_config" "generate_z_axis_grasps example_config"
    by (simp_all add: example_config_def)
  show ?thesis
    unfolding generateFingerGrasps_def
    by (simp add: flags mgw axis_config_def generateCuboidAxisGrasps_def ps Let_def
        del: axis_frame_translation)
qed

lemma example_suction_call:
  "map_option (\<lambda>r. length (snd r))
     (generateSuctionGrasps example_external example_generator Identity (1 / 10) (1 / 10)
        (1 / 20) example_suction_data [] example_config) = Some 1"
proof -
  have "suction_grasp_poses example_generator Identity (1 / 10) (1 / 10) (1 / 20)
      example_suction_data =
      Some [center_grasp_pose example_generator Identity example_suction_data]"
    by (rule suction_grasp_poses_empty_ranges)
      (simp_all add: example_suction_data_def xy_max_def xy_min_def xy_increment_def)
  then show ?thesis
    by (simp add: generateSuctionGrasps_def Let_def add_all_grasps_def addGrasp_def
        example_suction_data_def)
qed

text \<open>
  C10. \<^verbatim>\<open>generateSuctionGrasps\<close> clears the collection first: its result is the one it
  gives on the empty collection, whatever the collection held. \<^verbatim>\<open>generateFingerGrasps\<close>
  and \<^verbatim>\<open>generateCuboidAxisGrasps\<close> only append: the collection on entry is a prefix of
  the collection on return.
\<close>

theorem suction_clears_finger_appends:
  "generateSuctionGrasps ext gen cp d w h gd cands config =
     generateSuctionGrasps ext gen cp d w h gd [] config \<and>
   (\<forall>gen' out. generateFingerGrasps ext gen cp d w h gd cands config = Some (gen', out) \<longrightarrow>
      (\<exists>new. out = cands @ new)) \<and>
   (\<forall>gen' out.
      generateCuboidAxisGrasps ext gen cp d w h axis gd config cands = Some (gen', out) \<longrightarrow>
      (\<exists>new. out = cands @ new))"
proof (intro conjI allI impI)
  show "generateSuctionGrasps ext gen cp d w h gd cands config =
     generateSuctionGrasps ext gen cp d w h gd [] config"
    by (rule generateSuctionGrasps_clears)
next
  fix gen' out
  assume "generateFingerGrasps ext gen cp d w h gd cands config = Some (gen', out)"
  then show "\<exists>new. out = cands @ new" by (rule generateFingerGrasps_appends)
next
  fix gen' out
  assume "generateCuboidAxisGrasps ext gen cp d w h axis gd config cands = Some (gen', out)"
  then show "\<exists>new. out = cands @ new" by (rule generateCuboidAxisGrasps_appends)
qed

theorem suction_clears_finger_appends_witness:
  "map_option (\<lambda>r. take 1 (snd r))
     (generateFingerGrasps example_external example_generator
        (Identity\<lparr>translation := (- 1, - 1, - 1)\<rparr>) (7 / 10) (2 / 5) (3 / 10)
        example_finger_data [example_candidate] example_config) = Some [example_candidate] \<and>
   map_option (\<lambda>r. length (snd r))
     (generateSuctionGrasps example_external example_generator Identity (1 / 10) (1 / 10)
        (1 / 20) example_suction_data [example_candidate, example_candidate] example_config)
     = Some 1"
proof -
  obtain g out where r: "generateFingerGrasps example_external example_generator
        (Identity\<lparr>translation := (- 1, - 1, - 1)\<rparr>) (7 / 10) (2 / 5) (3 / 10)
        example_finger_data [example_candidate] example_config = Some (g, out)"
    using example_finger_call_returns by blast
  have f: "\<forall>gen' out. generateFingerGrasps example_external example_generator
        (Identity\<lparr>translation := (- 1, - 1, - 1)\<rparr>) (7 / 10) (2 / 5) (3 / 10)
        example_finger_data [example_candidate] example_config = Some (gen', out) \<longrightarrow>
      (\<exists>new. out = [example_candidate] @ new)"
    by (rule suction_clears_finger_appends [THEN conjunct2, THEN conjunct1])
  then obtain new where "out = [example_candidate] @ new" using r by blast
  then have a: "map_option (\<lambda>r. take 1 (snd r))
     (generateFingerGrasps example_external example_generator
        (Identity\<lparr>translation := (- 1, - 1, - 1)\<rparr>) (7 / 10) (2 / 5) (3 / 10)
        example_finger_data [example_candidate] example_config) = Some [example_candidate]"
    by (simp add: r)
  have "generateSuctionGrasps example_external example_generator Identity (1 / 10) (1 / 10)
        (1 / 20) example_suction_data [example_candidate, example_candidate] example_config =
      generateSuctionGrasps example_external example_generator Identity (1 / 10) (1 / 10)
        (1 / 20) example_suction_data [] example_config"
    by (rule suction_clears_finger_appends [THEN conjunct1])
  then have b: "map_option (\<lambda>r. length (snd r))
     (generateSuctionGrasps example_external example_generator Identity (1 / 10) (1 / 10)
        (1 / 20) example_suction_data [example_candidate, example_candidate] example_config)
     = Some 1"
    by (simp only: example_suction_call)
  from a b show ?thesis by (rule conjI)
qed

end
